theory Spec2Isabelle
  imports Main "HOL-Library.Word" "HOL-Library.Sublist"
begin

section \<open>The opcode table of the world server (Opcodes.cpp)\<close>

subsection \<open>Data\<close>

text \<open>
  The two enumerations every registration names. Their declarations live in headers
  that are not part of the sources at hand; the enumerators are the ones the
  registration block uses.
\<close>

datatype SessionStatus =
    STATUS_AUTHED
  | STATUS_LOGGEDIN
  | STATUS_TRANSFER
  | STATUS_LOGGEDIN_OR_RECENTLY_LOGGOUT
  | STATUS_NEVER
  | STATUS_UNHANDLED

datatype PacketProcessing =
    PROCESS_INPLACE
  | PROCESS_THREADUNSAFE
  | PROCESS_THREADSAFE

text \<open>
  \<open>ClientOpcodeHandler\<close>: what \<open>PacketHandler(name, status, processing)\<close> stores,
  together with the member function the template instance is bound to
  (\<open>HandlerFunction\<close>, by its name in \<open>WorldSession\<close>).
\<close>

record ClientOpcodeHandler =
  Name :: string
  Status :: SessionStatus
  ProcessingPlace :: PacketProcessing
  HandlerFunction :: string

text \<open>
  The constants \<open>NUM_OPCODE_HANDLERS\<close> and \<open>NULL_OPCODE\<close> are declared in Opcodes.h,
  which is not among the sources: they are parameters of every definition below.
\<close>

record OpcodeMisc =
  NUM_OPCODE_HANDLERS :: nat
  NULL_OPCODE :: nat

text \<open>
  Modelled from the spec: the enumeration \<open>Opcodes\<close> (and its aliases \<open>OpcodeClient\<close>,
  \<open>OpcodeServer\<close>) is declared in Opcodes.h, which is not among the sources. The spec
  prints every opcode id with four hexadecimal digits and the source keeps opcodes and
  table indices in \<open>uint16\<close>, so an opcode is a 16-bit value.
\<close>

type_synonym Opcodes = "16 word"

text \<open>The four \<open>LOG_ERROR("network", ...)\<close> messages, with their arguments.\<close>

datatype log_event =
    OpcodeWithoutValue string
  | InvalidOpcode nat
  | OverrideClientHandler string string nat
  | OverrideServerHandler string string nat

text \<open>
  The state the registration functions work on: the array \<open>_internalTableClient\<close>
  (a null pointer is \<open>None\<close>) and the error log.
\<close>

record OpcodeTable =
  internalTableClient :: "nat \<rightharpoonup> ClientOpcodeHandler"
  network_log :: "log_event list"

text \<open>\<open>OpcodeTable::OpcodeTable()\<close>: \<open>memset\<close> sets every slot to the null pointer.\<close>

definition OpcodeTable_new :: OpcodeTable where
  "OpcodeTable_new = \<lparr>internalTableClient = Map.empty, network_log = []\<rparr>"

definition LOG_ERROR :: "log_event \<Rightarrow> OpcodeTable \<Rightarrow> OpcodeTable" where
  "LOG_ERROR e s = s\<lparr>network_log := network_log s @ [e]\<rparr>"

definition uint32 :: "'a::len word \<Rightarrow> 32 word" where
  "uint32 w = ucast w"

definition uint16 :: "'a::len word \<Rightarrow> 16 word" where
  "uint16 w = ucast w"

subsection \<open>Registration\<close>

text \<open>
  \<open>new PacketHandler<PacketClass, HandlerFunction>(name, status, processing)\<close>:
  the descriptor a successful registration stores.
\<close>

definition PacketHandler ::
  "string \<Rightarrow> string \<Rightarrow> SessionStatus \<Rightarrow> PacketProcessing \<Rightarrow> ClientOpcodeHandler" where
  "PacketHandler handler name status processing =
     \<lparr>Name = name, Status = status, ProcessingPlace = processing,
      HandlerFunction = handler\<rparr>"

definition ValidateAndSetClientOpcode ::
  "OpcodeMisc \<Rightarrow> Opcodes \<Rightarrow> string \<Rightarrow> SessionStatus \<Rightarrow> PacketProcessing \<Rightarrow> string
     \<Rightarrow> OpcodeTable \<Rightarrow> OpcodeTable" where
  "ValidateAndSetClientOpcode M opcode name status processing handler s =
     (if unat (uint32 opcode) = NULL_OPCODE M then
        LOG_ERROR (OpcodeWithoutValue name) s
      else if unat (uint32 opcode) \<ge> NUM_OPCODE_HANDLERS M then
        LOG_ERROR (InvalidOpcode (unat (uint32 opcode))) s
      else
        (case internalTableClient s (unat opcode) of
           Some existing \<Rightarrow>
             LOG_ERROR (OverrideClientHandler (Name existing) name (unat (uint32 opcode))) s
         | None \<Rightarrow>
             s\<lparr>internalTableClient := (internalTableClient s)(unat opcode \<mapsto>
                 PacketHandler handler name status processing)\<rparr>))"

definition ValidateAndSetServerOpcode ::
  "OpcodeMisc \<Rightarrow> Opcodes \<Rightarrow> string \<Rightarrow> SessionStatus \<Rightarrow> OpcodeTable \<Rightarrow> OpcodeTable" where
  "ValidateAndSetServerOpcode M opcode name status s =
     (if unat (uint32 opcode) = NULL_OPCODE M then
        LOG_ERROR (OpcodeWithoutValue name) s
      else if unat (uint32 opcode) \<ge> NUM_OPCODE_HANDLERS M then
        LOG_ERROR (InvalidOpcode (unat (uint32 opcode))) s
      else
        (case internalTableClient s (unat opcode) of
           Some existing \<Rightarrow>
             LOG_ERROR (OverrideServerHandler (Name existing) name (unat (uint32 opcode))) s
         | None \<Rightarrow>
             s\<lparr>internalTableClient := (internalTableClient s)(unat opcode \<mapsto>
                 PacketHandler ''Handle_ServerSide'' name status PROCESS_INPLACE)\<rparr>))"


subsection \<open>The registration block of \<open>OpcodeTable::Initialize\<close>\<close>

text \<open>
  One statement of the body of \<open>Initialize\<close>: an invocation of one of its two macros.
  \<open>DEFINE_HANDLER(opcode, status, processing, handler)\<close> passes the stringified
  enumerator \<open>#opcode\<close> as the name; the entry carries the enumerator's value (as the
  position comment in front of the statement gives it; the enumeration itself is
  declared in Opcodes.h), its name, and the remaining macro arguments.
\<close>

datatype manifest_entry =
    DEFINE_HANDLER Opcodes string SessionStatus PacketProcessing string
  | DEFINE_SERVER_OPCODE_HANDLER Opcodes string SessionStatus

fun entry_opcode :: "manifest_entry \<Rightarrow> Opcodes" where
  "entry_opcode (DEFINE_HANDLER opcode name status processing handler) = opcode"
| "entry_opcode (DEFINE_SERVER_OPCODE_HANDLER opcode name status) = opcode"

fun entry_name :: "manifest_entry \<Rightarrow> string" where
  "entry_name (DEFINE_HANDLER opcode name status processing handler) = name"
| "entry_name (DEFINE_SERVER_OPCODE_HANDLER opcode name status) = name"

fun entry_status :: "manifest_entry \<Rightarrow> SessionStatus" where
  "entry_status (DEFINE_HANDLER opcode name status processing handler) = status"
| "entry_status (DEFINE_SERVER_OPCODE_HANDLER opcode name status) = status"

fun is_server_path :: "manifest_entry \<Rightarrow> bool" where
  "is_server_path (DEFINE_HANDLER opcode name status processing handler) = False"
| "is_server_path (DEFINE_SERVER_OPCODE_HANDLER opcode name status) = True"

text \<open>
  The compile-time part of a statement: the \<open>static_assert\<close> that
  \<open>DEFINE_SERVER_OPCODE_HANDLER\<close> expands to. \<open>DEFINE_HANDLER\<close> asserts nothing.
\<close>

fun static_assert_holds :: "manifest_entry \<Rightarrow> bool" where
  "static_assert_holds (DEFINE_HANDLER opcode name status processing handler) = True"
| "static_assert_holds (DEFINE_SERVER_OPCODE_HANDLER opcode name status) =
     (status = STATUS_NEVER \<or> status = STATUS_UNHANDLED)"

text \<open>The run-time part of a statement: the call the macro expands to.\<close>

fun register :: "OpcodeMisc \<Rightarrow> manifest_entry \<Rightarrow> OpcodeTable \<Rightarrow> OpcodeTable" where
  "register M (DEFINE_HANDLER opcode name status processing handler) s =
     ValidateAndSetClientOpcode M opcode name status processing handler s"
| "register M (DEFINE_SERVER_OPCODE_HANDLER opcode name status) s =
     ValidateAndSetServerOpcode M opcode name status s"

text \<open>The descriptor a statement installs when its registration goes through.\<close>

fun entry_handler :: "manifest_entry \<Rightarrow> ClientOpcodeHandler" where
  "entry_handler (DEFINE_HANDLER opcode name status processing handler) =
     PacketHandler handler name status processing"
| "entry_handler (DEFINE_SERVER_OPCODE_HANDLER opcode name status) =
     PacketHandler ''Handle_ServerSide'' name status PROCESS_INPLACE"

text \<open>The statements of a body run one after the other, each on the state the last left.\<close>

fun run :: "OpcodeMisc \<Rightarrow> manifest_entry list \<Rightarrow> OpcodeTable \<Rightarrow> OpcodeTable" where
  "run M [] s = s"
| "run M (e # es) s = run M es (register M e s)"

text \<open>
  A translation unit with a failing \<open>static_assert\<close> does not compile: there is no
  program, no table and no log. Otherwise \<open>Initialize\<close> runs its statements.
\<close>

datatype build_error = StaticAssertFailed string

definition Initialize ::
  "OpcodeMisc \<Rightarrow> manifest_entry list \<Rightarrow> OpcodeTable \<Rightarrow> build_error + OpcodeTable" where
  "Initialize M body s =
     (if list_all static_assert_holds body then Inr (run M body s)
      else Inl (StaticAssertFailed ''Invalid status for server opcode''))"

text \<open>
  A registration is rejected when it takes one of the three early returns; each of them,
  and nothing else, writes to the error log.
\<close>

definition rejected :: "OpcodeMisc \<Rightarrow> manifest_entry \<Rightarrow> OpcodeTable \<Rightarrow> bool" where
  "rejected M e s = (network_log (register M e s) \<noteq> network_log s)"

text \<open>The ids at which a registration of the body went through, in order.\<close>

fun registered_ids :: "OpcodeMisc \<Rightarrow> manifest_entry list \<Rightarrow> OpcodeTable \<Rightarrow> nat list" where
  "registered_ids M [] s = []"
| "registered_ids M (e # es) s =
     (if rejected M e s then [] else [unat (entry_opcode e)])
       @ registered_ids M es (register M e s)"

text \<open>
  Modelled from the spec: \<open>lookup(id)\<close>, the read access to the table, which the spec
  gives as returning none for out-of-range or unregistered ids. In the code it is the
  callers' range check followed by \<open>OpcodeTable::operator[]\<close>, both in files that are
  not among the sources.
\<close>

definition lookup :: "OpcodeMisc \<Rightarrow> OpcodeTable \<Rightarrow> int \<Rightarrow> ClientOpcodeHandler option" where
  "lookup M s i =
     (if 0 \<le> i \<and> i < int (NUM_OPCODE_HANDLERS M) then internalTableClient s (nat i)
      else None)"

subsection \<open>Names for logging\<close>

text \<open>
  What \<open>operator<<\<close> writes for an unsigned number: its digits, most significant
  first, with no padding; under \<open>std::hex\<close> and \<open>std::uppercase\<close> in base 16 with
  capital letters, under \<open>std::dec\<close> in base 10.
\<close>

fun ostream_hex_upper :: "nat \<Rightarrow> string" where
  "ostream_hex_upper n =
     (if n < 16 then [''0123456789ABCDEF'' ! n]
      else ostream_hex_upper (n div 16) @ [''0123456789ABCDEF'' ! (n mod 16)])"

fun ostream_dec :: "nat \<Rightarrow> string" where
  "ostream_dec n =
     (if n < 10 then [''0123456789'' ! n]
      else ostream_dec (n div 10) @ [''0123456789'' ! (n mod 10)])"

declare ostream_hex_upper.simps [simp del] ostream_dec.simps [simp del]

text \<open>
  \<open>std::setw(w)\<close> with \<open>std::setfill(c)\<close>: the next item is padded on the left with
  \<open>c\<close> to \<open>w\<close> characters; a longer item is written whole.
\<close>

definition setw_setfill :: "nat \<Rightarrow> char \<Rightarrow> string \<Rightarrow> string" where
  "setw_setfill w c str = replicate (w - length str) c @ str"

text \<open>
  \<open>opcodeTable[id]\<close>: \<open>OpcodeTable::operator[]\<close> is declared in Opcodes.h, which is not
  among the sources. The table it reads is the array
  \<open>_internalTableClient[NUM_OPCODE_HANDLERS]\<close>; a read past its end is no value of the
  table, and the model returns it as an error of its own.
\<close>

datatype read_error = OutOfBoundsRead nat

definition OpcodeTable_at ::
  "OpcodeMisc \<Rightarrow> OpcodeTable \<Rightarrow> nat \<Rightarrow> read_error + ClientOpcodeHandler option" where
  "OpcodeTable_at M s i =
     (if i < NUM_OPCODE_HANDLERS M then Inr (internalTableClient s i)
      else Inl (OutOfBoundsRead i))"

text \<open>
  \<open>GetOpcodeNameForLoggingImpl<T>(T id)\<close>, for an integer type \<open>T\<close> of any width.
  The range check and the two numbers use the value cut to 16 bits; the table is read
  at \<open>id\<close> itself. (The parameter is called \<open>ident\<close> here, \<open>id\<close> being taken.)
\<close>

definition GetOpcodeNameForLoggingImpl ::
  "OpcodeMisc \<Rightarrow> OpcodeTable \<Rightarrow> 'a::len word \<Rightarrow> read_error + string" where
  "GetOpcodeNameForLoggingImpl M s ident =
     (let opcode = uint16 ident;
          numbers = '' 0x'' @ setw_setfill 4 CHR ''0'' (ostream_hex_upper (unat opcode))
                    @ '' ('' @ ostream_dec (unat opcode) @ '')]''
      in if unat (uint16 ident) < NUM_OPCODE_HANDLERS M then
           (case OpcodeTable_at M s (unat ident) of
              Inl err \<Rightarrow> Inl err
            | Inr (Some handler) \<Rightarrow> Inr (''['' @ Name handler @ numbers)
            | Inr None \<Rightarrow> Inr (''['' @ ''UNKNOWN OPCODE'' @ numbers))
         else Inr (''['' @ ''INVALID OPCODE'' @ numbers))"

definition GetOpcodeNameForLogging ::
  "OpcodeMisc \<Rightarrow> OpcodeTable \<Rightarrow> Opcodes \<Rightarrow> read_error + string" where
  "GetOpcodeNameForLogging M s opcode = GetOpcodeNameForLoggingImpl M s opcode"

text \<open>
  Reading a number back from its digits over a given alphabet (the position of a
  character in the alphabet is its value): what it means for the printed hexadecimal
  and decimal representations to be correct.
\<close>

definition digit_value :: "string \<Rightarrow> char \<Rightarrow> nat" where
  "digit_value alphabet c = length (takeWhile (\<lambda>d. d \<noteq> c) alphabet)"

definition read_number :: "string \<Rightarrow> string \<Rightarrow> nat" where
  "read_number alphabet str =
     foldl (\<lambda>acc c. length alphabet * acc + digit_value alphabet c) 0 str"

subsection \<open>The statements of \<open>OpcodeTable::Initialize\<close>\<close>

text \<open>
  The body of \<open>Initialize\<close>, statement by statement in the order of the source: 1310
  macro invocations, for the opcodes \<open>0x001\<close> to \<open>0x51E\<close>. It is cut into pieces of
  128 statements, each named after the first and the last opcode it registers.
\<close>

definition Initialize_001_080 :: "manifest_entry list" where
  "Initialize_001_080 =
    [DEFINE_HANDLER 0x001 ''CMSG_BOOTME'' STATUS_NEVER PROCESS_INPLACE ''Handle_NULL'',
     DEFINE_HANDLER 0x002 ''CMSG_DBLOOKUP'' STATUS_NEVER PROCESS_INPLACE ''Handle_NULL'',
     DEFINE_SERVER_OPCODE_HANDLER 0x003 ''SMSG_DBLOOKUP'' STATUS_NEVER,
     DEFINE_HANDLER 0x004 ''CMSG_QUERY_OBJECT_POSITION''
       STATUS_NEVER PROCESS_INPLACE ''Handle_NULL'',
     DEFINE_SERVER_OPCODE_HANDLER 0x005 ''SMSG_QUERY_OBJECT_POSITION'' STATUS_NEVER,
     DEFINE_HANDLER 0x006 ''CMSG_QUERY_OBJECT_ROTATION''
       STATUS_NEVER PROCESS_INPLACE ''Handle_NULL'',
     DEFINE_SERVER_OPCODE_HANDLER 0x007 ''SMSG_QUERY_OBJECT_ROTATION'' STATUS_NEVER,
     DEFINE_HANDLER 0x008 ''CMSG_WORLD_TELEPORT''
       STATUS_LOGGEDIN PROCESS_THREADUNSAFE ''HandleWorldTeleportOpcode'',
     DEFINE_HANDLER 0x009 ''CMSG_TELEPORT_TO_UNIT''
       STATUS_LOGGEDIN PROCESS_INPLACE ''Handle_NULL'',
     DEFINE_HANDLER 0x00A ''CMSG_ZONE_MAP'' STATUS_NEVER PROCESS_INPLACE ''Handle_NULL'',
     DEFINE_SERVER_OPCODE_HANDLER 0x00B ''SMSG_ZONE_MAP'' STATUS_NEVER,
     DEFINE_HANDLER 0x00C ''CMSG_DEBUG_CHANGECELLZONE''
       STATUS_NEVER PROCESS_INPLACE ''Handle_NULL'',
     DEFINE_HANDLER 0x00D ''CMSG_MOVE_CHARACTER_CHEAT''
       STATUS_NEVER PROCESS_INPLACE ''Handle_NULL'',
     DEFINE_SERVER_OPCODE_HANDLER 0x00E ''SMSG_MOVE_CHARACTER_CHEAT'' STATUS_NEVER,
     DEFINE_HANDLER 0x00F ''CMSG_RECHARGE'' STATUS_NEVER PROCESS_INPLACE ''Handle_NULL'',
     DEFINE_HANDLER 0x010 ''CMSG_LEARN_SPELL'' STATUS_NEVER PROCESS_INPLACE ''Handle_NULL'',
     DEFINE_HANDLER 0x011 ''CMSG_CREATEMONSTER'' STATUS_NEVER PROCESS_INPLACE ''Handle_NULL'',
     DEFINE_HANDLER 0x012 ''CMSG_DESTROYMONSTER'' STATUS_NEVER PROCESS_INPLACE ''Handle_NULL'',
     DEFINE_HANDLER 0x013 ''CMSG_CREATEITEM'' STATUS_NEVER PROCESS_INPLACE ''Handle_NULL'',
     DEFINE_HANDLER 0x014 ''CMSG_CREATEGAMEOBJECT''
       STATUS_NEVER PROCESS_INPLACE ''Handle_NULL'',
     DEFINE_SERVER_OPCODE_HANDLER 0x015 ''SMSG_CHECK_FOR_BOTS'' STATUS_NEVER,
     DEFINE_HANDLER 0x016 ''CMSG_MAKEMONSTERATTACKGUID''
       STATUS_NEVER PROCESS_INPLACE ''Handle_NULL'',
     DEFINE_HANDLER 0x017 ''CMSG_BOT_DETECTED2'' STATUS_NEVER PROCESS_INPLACE ''Handle_NULL'',
     DEFINE_HANDLER 0x018 ''CMSG_FORCEACTION'' STATUS_NEVER PROCESS_INPLACE ''Handle_NULL'',
     DEFINE_HANDLER 0x019 ''CMSG_FORCEACTIONONOTHER''
       STATUS_NEVER PROCESS_INPLACE ''Handle_NULL'',
     DEFINE_HANDLER 0x01A ''CMSG_FORCEACTIONSHOW'' STATUS_NEVER PROCESS_INPLACE ''Handle_NULL'',
     DEFINE_SERVER_OPCODE_HANDLER 0x01B ''SMSG_FORCEACTIONSHOW'' STATUS_NEVER,
     DEFINE_HANDLER 0x01C ''CMSG_PETGODMODE'' STATUS_NEVER PROCESS_INPLACE ''Handle_NULL'',
     DEFINE_SERVER_OPCODE_HANDLER 0x01D ''SMSG_PETGODMODE'' STATUS_NEVER,
     DEFINE_SERVER_OPCODE_HANDLER 0x01E ''SMSG_REFER_A_FRIEND_EXPIRED'' STATUS_NEVER,
     DEFINE_HANDLER 0x01F ''CMSG_WEATHER_SPEED_CHEAT''
       STATUS_NEVER PROCESS_INPLACE ''Handle_NULL'',
     DEFINE_HANDLER 0x020 ''CMSG_UNDRESSPLAYER'' STATUS_NEVER PROCESS_INPLACE ''Handle_NULL'',
     DEFINE_HANDLER 0x021 ''CMSG_BEASTMASTER'' STATUS_NEVER PROCESS_INPLACE ''Handle_NULL'',
     DEFINE_HANDLER 0x022 ''CMSG_GODMODE'' STATUS_NEVER PROCESS_INPLACE ''Handle_NULL'',
     DEFINE_SERVER_OPCODE_HANDLER 0x023 ''SMSG_GODMODE'' STATUS_NEVER,
     DEFINE_HANDLER 0x024 ''CMSG_CHEAT_SETMONEY'' STATUS_NEVER PROCESS_INPLACE ''Handle_NULL'',
     DEFINE_HANDLER 0x025 ''CMSG_LEVEL_CHEAT'' STATUS_NEVER PROCESS_INPLACE ''Handle_NULL'',
     DEFINE_HANDLER 0x026 ''CMSG_PET_LEVEL_CHEAT'' STATUS_NEVER PROCESS_INPLACE ''Handle_NULL'',
     DEFINE_HANDLER 0x027 ''CMSG_SET_WORLDSTATE'' STATUS_NEVER PROCESS_INPLACE ''Handle_NULL'',
     DEFINE_HANDLER 0x028 ''CMSG_COOLDOWN_CHEAT'' STATUS_NEVER PROCESS_INPLACE ''Handle_NULL'',
     DEFINE_HANDLER 0x029 ''CMSG_USE_SKILL_CHEAT'' STATUS_NEVER PROCESS_INPLACE ''Handle_NULL'',
     DEFINE_HANDLER 0x02A ''CMSG_FLAG_QUEST'' STATUS_NEVER PROCESS_INPLACE ''Handle_NULL'',
     DEFINE_HANDLER 0x02B ''CMSG_FLAG_QUEST_FINISH''
       STATUS_NEVER PROCESS_INPLACE ''Handle_NULL'',
     DEFINE_HANDLER 0x02C ''CMSG_CLEAR_QUEST'' STATUS_NEVER PROCESS_INPLACE ''Handle_NULL'',
     DEFINE_HANDLER 0x02D ''CMSG_SEND_EVENT'' STATUS_NEVER PROCESS_INPLACE ''Handle_NULL'',
     DEFINE_HANDLER 0x02E ''CMSG_DEBUG_AISTATE'' STATUS_NEVER PROCESS_INPLACE ''Handle_NULL'',
     DEFINE_SERVER_OPCODE_HANDLER 0x02F ''SMSG_DEBUG_AISTATE'' STATUS_NEVER,
     DEFINE_HANDLER 0x030 ''CMSG_DISABLE_PVP_CHEAT''
       STATUS_NEVER PROCESS_INPLACE ''Handle_NULL'',
     DEFINE_HANDLER 0x031 ''CMSG_ADVANCE_SPAWN_TIME''
       STATUS_NEVER PROCESS_INPLACE ''Handle_NULL'',
     DEFINE_SERVER_OPCODE_HANDLER 0x032 ''SMSG_DESTRUCTIBLE_BUILDING_DAMAGE'' STATUS_NEVER,
     DEFINE_HANDLER 0x033 ''CMSG_AUTH_SRP6_BEGIN'' STATUS_NEVER PROCESS_INPLACE ''Handle_NULL'',
     DEFINE_HANDLER 0x034 ''CMSG_AUTH_SRP6_PROOF'' STATUS_NEVER PROCESS_INPLACE ''Handle_NULL'',
     DEFINE_HANDLER 0x035 ''CMSG_AUTH_SRP6_RECODE''
       STATUS_NEVER PROCESS_INPLACE ''Handle_NULL'',
     DEFINE_HANDLER 0x036 ''CMSG_CHAR_CREATE''
       STATUS_AUTHED PROCESS_THREADUNSAFE ''HandleCharCreateOpcode'',
     DEFINE_HANDLER 0x037 ''CMSG_CHAR_ENUM''
       STATUS_AUTHED PROCESS_THREADUNSAFE ''HandleCharEnumOpcode'',
     DEFINE_HANDLER 0x038 ''CMSG_CHAR_DELETE''
       STATUS_AUTHED PROCESS_THREADUNSAFE ''HandleCharDeleteOpcode'',
     DEFINE_SERVER_OPCODE_HANDLER 0x039 ''SMSG_AUTH_SRP6_RESPONSE'' STATUS_NEVER,
     DEFINE_SERVER_OPCODE_HANDLER 0x03A ''SMSG_CHAR_CREATE'' STATUS_NEVER,
     DEFINE_SERVER_OPCODE_HANDLER 0x03B ''SMSG_CHAR_ENUM'' STATUS_NEVER,
     DEFINE_SERVER_OPCODE_HANDLER 0x03C ''SMSG_CHAR_DELETE'' STATUS_NEVER,
     DEFINE_HANDLER 0x03D ''CMSG_PLAYER_LOGIN''
       STATUS_AUTHED PROCESS_THREADUNSAFE ''HandlePlayerLoginOpcode'',
     DEFINE_SERVER_OPCODE_HANDLER 0x03E ''SMSG_NEW_WORLD'' STATUS_NEVER,
     DEFINE_SERVER_OPCODE_HANDLER 0x03F ''SMSG_TRANSFER_PENDING'' STATUS_NEVER,
     DEFINE_SERVER_OPCODE_HANDLER 0x040 ''SMSG_TRANSFER_ABORTED'' STATUS_NEVER,
     DEFINE_SERVER_OPCODE_HANDLER 0x041 ''SMSG_CHARACTER_LOGIN_FAILED'' STATUS_NEVER,
     DEFINE_SERVER_OPCODE_HANDLER 0x042 ''SMSG_LOGIN_SETTIMESPEED'' STATUS_NEVER,
     DEFINE_SERVER_OPCODE_HANDLER 0x043 ''SMSG_GAMETIME_UPDATE'' STATUS_NEVER,
     DEFINE_HANDLER 0x044 ''CMSG_GAMETIME_SET'' STATUS_NEVER PROCESS_INPLACE ''Handle_NULL'',
     DEFINE_SERVER_OPCODE_HANDLER 0x045 ''SMSG_GAMETIME_SET'' STATUS_NEVER,
     DEFINE_HANDLER 0x046 ''CMSG_GAMESPEED_SET'' STATUS_NEVER PROCESS_INPLACE ''Handle_NULL'',
     DEFINE_SERVER_OPCODE_HANDLER 0x047 ''SMSG_GAMESPEED_SET'' STATUS_NEVER,
     DEFINE_HANDLER 0x048 ''CMSG_SERVERTIME'' STATUS_NEVER PROCESS_INPLACE ''Handle_NULL'',
     DEFINE_SERVER_OPCODE_HANDLER 0x049 ''SMSG_SERVERTIME'' STATUS_NEVER,
     DEFINE_HANDLER 0x04A ''CMSG_PLAYER_LOGOUT''
       STATUS_LOGGEDIN PROCESS_THREADUNSAFE ''HandlePlayerLogoutOpcode'',
     DEFINE_HANDLER 0x04B ''CMSG_LOGOUT_REQUEST''
       STATUS_LOGGEDIN PROCESS_THREADUNSAFE ''HandleLogoutRequestOpcode'',
     DEFINE_SERVER_OPCODE_HANDLER 0x04C ''SMSG_LOGOUT_RESPONSE'' STATUS_NEVER,
     DEFINE_SERVER_OPCODE_HANDLER 0x04D ''SMSG_LOGOUT_COMPLETE'' STATUS_NEVER,
     DEFINE_HANDLER 0x04E ''CMSG_LOGOUT_CANCEL''
       STATUS_LOGGEDIN_OR_RECENTLY_LOGGOUT PROCESS_THREADUNSAFE ''HandleLogoutCancelOpcode'',
     DEFINE_SERVER_OPCODE_HANDLER 0x04F ''SMSG_LOGOUT_CANCEL_ACK'' STATUS_NEVER,
     DEFINE_HANDLER 0x050 ''CMSG_NAME_QUERY''
       STATUS_LOGGEDIN PROCESS_INPLACE ''HandleNameQueryOpcode'',
     DEFINE_SERVER_OPCODE_HANDLER 0x051 ''SMSG_NAME_QUERY_RESPONSE'' STATUS_NEVER,
     DEFINE_HANDLER 0x052 ''CMSG_PET_NAME_QUERY''
       STATUS_LOGGEDIN PROCESS_INPLACE ''HandlePetNameQuery'',
     DEFINE_SERVER_OPCODE_HANDLER 0x053 ''SMSG_PET_NAME_QUERY_RESPONSE'' STATUS_NEVER,
     DEFINE_HANDLER 0x054 ''CMSG_GUILD_QUERY''
       STATUS_AUTHED PROCESS_THREADUNSAFE ''HandleGuildQueryOpcode'',
     DEFINE_SERVER_OPCODE_HANDLER 0x055 ''SMSG_GUILD_QUERY_RESPONSE'' STATUS_NEVER,
     DEFINE_HANDLER 0x056 ''CMSG_ITEM_QUERY_SINGLE''
       STATUS_LOGGEDIN PROCESS_THREADSAFE ''HandleItemQuerySingleOpcode'',
     DEFINE_HANDLER 0x057 ''CMSG_ITEM_QUERY_MULTIPLE''
       STATUS_NEVER PROCESS_INPLACE ''Handle_NULL'',
     DEFINE_SERVER_OPCODE_HANDLER 0x058 ''SMSG_ITEM_QUERY_SINGLE_RESPONSE'' STATUS_NEVER,
     DEFINE_SERVER_OPCODE_HANDLER 0x059 ''SMSG_ITEM_QUERY_MULTIPLE_RESPONSE'' STATUS_NEVER,
     DEFINE_HANDLER 0x05A ''CMSG_PAGE_TEXT_QUERY''
       STATUS_LOGGEDIN PROCESS_INPLACE ''HandlePageTextQueryOpcode'',
     DEFINE_SERVER_OPCODE_HANDLER 0x05B ''SMSG_PAGE_TEXT_QUERY_RESPONSE'' STATUS_NEVER,
     DEFINE_HANDLER 0x05C ''CMSG_QUEST_QUERY''
       STATUS_LOGGEDIN PROCESS_INPLACE ''HandleQuestQueryOpcode'',
     DEFINE_SERVER_OPCODE_HANDLER 0x05D ''SMSG_QUEST_QUERY_RESPONSE'' STATUS_NEVER,
     DEFINE_HANDLER 0x05E ''CMSG_GAMEOBJECT_QUERY''
       STATUS_LOGGEDIN PROCESS_THREADSAFE ''HandleGameObjectQueryOpcode'',
     DEFINE_SERVER_OPCODE_HANDLER 0x05F ''SMSG_GAMEOBJECT_QUERY_RESPONSE'' STATUS_NEVER,
     DEFINE_HANDLER 0x060 ''CMSG_CREATURE_QUERY''
       STATUS_LOGGEDIN PROCESS_THREADSAFE ''HandleCreatureQueryOpcode'',
     DEFINE_SERVER_OPCODE_HANDLER 0x061 ''SMSG_CREATURE_QUERY_RESPONSE'' STATUS_NEVER,
     DEFINE_HANDLER 0x062 ''CMSG_WHO'' STATUS_LOGGEDIN PROCESS_THREADSAFE ''HandleWhoOpcode'',
     DEFINE_SERVER_OPCODE_HANDLER 0x063 ''SMSG_WHO'' STATUS_NEVER,
     DEFINE_HANDLER 0x064 ''CMSG_WHOIS''
       STATUS_LOGGEDIN PROCESS_THREADUNSAFE ''HandleWhoisOpcode'',
     DEFINE_SERVER_OPCODE_HANDLER 0x065 ''SMSG_WHOIS'' STATUS_NEVER,
     DEFINE_HANDLER 0x066 ''CMSG_CONTACT_LIST''
       STATUS_LOGGEDIN PROCESS_THREADSAFE ''HandleContactListOpcode'',
     DEFINE_SERVER_OPCODE_HANDLER 0x067 ''SMSG_CONTACT_LIST'' STATUS_NEVER,
     DEFINE_SERVER_OPCODE_HANDLER 0x068 ''SMSG_FRIEND_STATUS'' STATUS_NEVER,
     DEFINE_HANDLER 0x069 ''CMSG_ADD_FRIEND''
       STATUS_LOGGEDIN PROCESS_THREADUNSAFE ''HandleAddFriendOpcode'',
     DEFINE_HANDLER 0x06A ''CMSG_DEL_FRIEND''
       STATUS_LOGGEDIN PROCESS_THREADUNSAFE ''HandleDelFriendOpcode'',
     DEFINE_HANDLER 0x06B ''CMSG_SET_CONTACT_NOTES''
       STATUS_LOGGEDIN PROCESS_THREADUNSAFE ''HandleSetContactNotesOpcode'',
     DEFINE_HANDLER 0x06C ''CMSG_ADD_IGNORE''
       STATUS_LOGGEDIN PROCESS_THREADUNSAFE ''HandleAddIgnoreOpcode'',
     DEFINE_HANDLER 0x06D ''CMSG_DEL_IGNORE''
       STATUS_LOGGEDIN PROCESS_THREADUNSAFE ''HandleDelIgnoreOpcode'',
     DEFINE_HANDLER 0x06E ''CMSG_GROUP_INVITE''
       STATUS_LOGGEDIN PROCESS_THREADUNSAFE ''HandleGroupInviteOpcode'',
     DEFINE_SERVER_OPCODE_HANDLER 0x06F ''SMSG_GROUP_INVITE'' STATUS_NEVER,
     DEFINE_HANDLER 0x070 ''CMSG_GROUP_CANCEL'' STATUS_LOGGEDIN PROCESS_INPLACE ''Handle_NULL'',
     DEFINE_SERVER_OPCODE_HANDLER 0x071 ''SMSG_GROUP_CANCEL'' STATUS_NEVER,
     DEFINE_HANDLER 0x072 ''CMSG_GROUP_ACCEPT''
       STATUS_LOGGEDIN PROCESS_THREADUNSAFE ''HandleGroupAcceptOpcode'',
     DEFINE_HANDLER 0x073 ''CMSG_GROUP_DECLINE''
       STATUS_LOGGEDIN PROCESS_THREADUNSAFE ''HandleGroupDeclineOpcode'',
     DEFINE_SERVER_OPCODE_HANDLER 0x074 ''SMSG_GROUP_DECLINE'' STATUS_NEVER,
     DEFINE_HANDLER 0x075 ''CMSG_GROUP_UNINVITE''
       STATUS_LOGGEDIN PROCESS_THREADUNSAFE ''HandleGroupUninviteOpcode'',
     DEFINE_HANDLER 0x076 ''CMSG_GROUP_UNINVITE_GUID''
       STATUS_LOGGEDIN PROCESS_THREADUNSAFE ''HandleGroupUninviteGuidOpcode'',
     DEFINE_SERVER_OPCODE_HANDLER 0x077 ''SMSG_GROUP_UNINVITE'' STATUS_NEVER,
     DEFINE_HANDLER 0x078 ''CMSG_GROUP_SET_LEADER''
       STATUS_LOGGEDIN PROCESS_THREADUNSAFE ''HandleGroupSetLeaderOpcode'',
     DEFINE_SERVER_OPCODE_HANDLER 0x079 ''SMSG_GROUP_SET_LEADER'' STATUS_NEVER,
     DEFINE_HANDLER 0x07A ''CMSG_LOOT_METHOD''
       STATUS_LOGGEDIN PROCESS_THREADUNSAFE ''HandleLootMethodOpcode'',
     DEFINE_HANDLER 0x07B ''CMSG_GROUP_DISBAND''
       STATUS_LOGGEDIN PROCESS_THREADUNSAFE ''HandleGroupDisbandOpcode'',
     DEFINE_SERVER_OPCODE_HANDLER 0x07C ''SMSG_GROUP_DESTROYED'' STATUS_NEVER,
     DEFINE_SERVER_OPCODE_HANDLER 0x07D ''SMSG_GROUP_LIST'' STATUS_NEVER,
     DEFINE_SERVER_OPCODE_HANDLER 0x07E ''SMSG_PARTY_MEMBER_STATS'' STATUS_NEVER,
     DEFINE_SERVER_OPCODE_HANDLER 0x07F ''SMSG_PARTY_COMMAND_RESULT'' STATUS_NEVER,
     DEFINE_HANDLER 0x080 ''UMSG_UPDATE_GROUP_MEMBERS''
       STATUS_NEVER PROCESS_INPLACE ''Handle_NULL'']"

definition Initialize_081_100 :: "manifest_entry list" where
  "Initialize_081_100 =
    [DEFINE_HANDLER 0x081 ''CMSG_GUILD_CREATE''
       STATUS_LOGGEDIN PROCESS_THREADUNSAFE ''HandleGuildCreateOpcode'',
     DEFINE_HANDLER 0x082 ''CMSG_GUILD_INVITE''
       STATUS_LOGGEDIN PROCESS_THREADUNSAFE ''HandleGuildInviteOpcode'',
     DEFINE_SERVER_OPCODE_HANDLER 0x083 ''SMSG_GUILD_INVITE'' STATUS_NEVER,
     DEFINE_HANDLER 0x084 ''CMSG_GUILD_ACCEPT''
       STATUS_LOGGEDIN PROCESS_THREADUNSAFE ''HandleGuildAcceptOpcode'',
     DEFINE_HANDLER 0x085 ''CMSG_GUILD_DECLINE''
       STATUS_LOGGEDIN PROCESS_THREADUNSAFE ''HandleGuildDeclineOpcode'',
     DEFINE_SERVER_OPCODE_HANDLER 0x086 ''SMSG_GUILD_DECLINE'' STATUS_NEVER,
     DEFINE_HANDLER 0x087 ''CMSG_GUILD_INFO''
       STATUS_LOGGEDIN PROCESS_THREADUNSAFE ''HandleGuildInfoOpcode'',
     DEFINE_SERVER_OPCODE_HANDLER 0x088 ''SMSG_GUILD_INFO'' STATUS_NEVER,
     DEFINE_HANDLER 0x089 ''CMSG_GUILD_ROSTER''
       STATUS_LOGGEDIN PROCESS_THREADUNSAFE ''HandleGuildRosterOpcode'',
     DEFINE_SERVER_OPCODE_HANDLER 0x08A ''SMSG_GUILD_ROSTER'' STATUS_NEVER,
     DEFINE_HANDLER 0x08B ''CMSG_GUILD_PROMOTE''
       STATUS_LOGGEDIN PROCESS_THREADUNSAFE ''HandleGuildPromoteOpcode'',
     DEFINE_HANDLER 0x08C ''CMSG_GUILD_DEMOTE''
       STATUS_LOGGEDIN PROCESS_THREADUNSAFE ''HandleGuildDemoteOpcode'',
     DEFINE_HANDLER 0x08D ''CMSG_GUILD_LEAVE''
       STATUS_LOGGEDIN PROCESS_THREADUNSAFE ''HandleGuildLeaveOpcode'',
     DEFINE_HANDLER 0x08E ''CMSG_GUILD_REMOVE''
       STATUS_LOGGEDIN PROCESS_THREADUNSAFE ''HandleGuildRemoveOpcode'',
     DEFINE_HANDLER 0x08F ''CMSG_GUILD_DISBAND''
       STATUS_LOGGEDIN PROCESS_THREADUNSAFE ''HandleGuildDisbandOpcode'',
     DEFINE_HANDLER 0x090 ''CMSG_GUILD_LEADER''
       STATUS_LOGGEDIN PROCESS_THREADUNSAFE ''HandleGuildLeaderOpcode'',
     DEFINE_HANDLER 0x091 ''CMSG_GUILD_MOTD''
       STATUS_LOGGEDIN PROCESS_THREADUNSAFE ''HandleGuildMOTDOpcode'',
     DEFINE_SERVER_OPCODE_HANDLER 0x092 ''SMSG_GUILD_EVENT'' STATUS_NEVER,
     DEFINE_SERVER_OPCODE_HANDLER 0x093 ''SMSG_GUILD_COMMAND_RESULT'' STATUS_NEVER,
     DEFINE_HANDLER 0x094 ''UMSG_UPDATE_GUILD'' STATUS_NEVER PROCESS_INPLACE ''Handle_NULL'',
     DEFINE_HANDLER 0x095 ''CMSG_MESSAGECHAT''
       STATUS_LOGGEDIN PROCESS_THREADUNSAFE ''HandleMessagechatOpcode'',
     DEFINE_SERVER_OPCODE_HANDLER 0x096 ''SMSG_MESSAGECHAT'' STATUS_NEVER,
     DEFINE_HANDLER 0x097 ''CMSG_JOIN_CHANNEL''
       STATUS_LOGGEDIN PROCESS_THREADUNSAFE ''HandleJoinChannel'',
     DEFINE_HANDLER 0x098 ''CMSG_LEAVE_CHANNEL''
       STATUS_LOGGEDIN PROCESS_THREADUNSAFE ''HandleLeaveChannel'',
     DEFINE_SERVER_OPCODE_HANDLER 0x099 ''SMSG_CHANNEL_NOTIFY'' STATUS_NEVER,
     DEFINE_HANDLER 0x09A ''CMSG_CHANNEL_LIST''
       STATUS_LOGGEDIN PROCESS_THREADUNSAFE ''HandleChannelList'',
     DEFINE_SERVER_OPCODE_HANDLER 0x09B ''SMSG_CHANNEL_LIST'' STATUS_NEVER,
     DEFINE_HANDLER 0x09C ''CMSG_CHANNEL_PASSWORD''
       STATUS_LOGGEDIN PROCESS_THREADUNSAFE ''HandleChannelPassword'',
     DEFINE_HANDLER 0x09D ''CMSG_CHANNEL_SET_OWNER''
       STATUS_LOGGEDIN PROCESS_THREADUNSAFE ''HandleChannelSetOwner'',
     DEFINE_HANDLER 0x09E ''CMSG_CHANNEL_OWNER''
       STATUS_LOGGEDIN PROCESS_THREADUNSAFE ''HandleChannelOwner'',
     DEFINE_HANDLER 0x09F ''CMSG_CHANNEL_MODERATOR''
       STATUS_LOGGEDIN PROCESS_THREADUNSAFE ''HandleChannelModerator'',
     DEFINE_HANDLER 0x0A0 ''CMSG_CHANNEL_UNMODERATOR''
       STATUS_LOGGEDIN PROCESS_THREADUNSAFE ''HandleChannelUnmoderator'',
     DEFINE_HANDLER 0x0A1 ''CMSG_CHANNEL_MUTE''
       STATUS_LOGGEDIN PROCESS_THREADUNSAFE ''HandleChannelMute'',
     DEFINE_HANDLER 0x0A2 ''CMSG_CHANNEL_UNMUTE''
       STATUS_LOGGEDIN PROCESS_THREADUNSAFE ''HandleChannelUnmute'',
     DEFINE_HANDLER 0x0A3 ''CMSG_CHANNEL_INVITE''
       STATUS_LOGGEDIN PROCESS_THREADUNSAFE ''HandleChannelInvite'',
     DEFINE_HANDLER 0x0A4 ''CMSG_CHANNEL_KICK''
       STATUS_LOGGEDIN PROCESS_THREADUNSAFE ''HandleChannelKick'',
     DEFINE_HANDLER 0x0A5 ''CMSG_CHANNEL_BAN''
       STATUS_LOGGEDIN PROCESS_THREADUNSAFE ''HandleChannelBan'',
     DEFINE_HANDLER 0x0A6 ''CMSG_CHANNEL_UNBAN''
       STATUS_LOGGEDIN PROCESS_THREADUNSAFE ''HandleChannelUnban'',
     DEFINE_HANDLER 0x0A7 ''CMSG_CHANNEL_ANNOUNCEMENTS''
       STATUS_LOGGEDIN PROCESS_THREADUNSAFE ''HandleChannelAnnouncements'',
     DEFINE_HANDLER 0x0A8 ''CMSG_CHANNEL_MODERATE''
       STATUS_LOGGEDIN PROCESS_THREADUNSAFE ''HandleChannelModerateOpcode'',
     DEFINE_SERVER_OPCODE_HANDLER 0x0A9 ''SMSG_UPDATE_OBJECT'' STATUS_NEVER,
     DEFINE_SERVER_OPCODE_HANDLER 0x0AA ''SMSG_DESTROY_OBJECT'' STATUS_NEVER,
     DEFINE_HANDLER 0x0AB ''CMSG_USE_ITEM''
       STATUS_LOGGEDIN PROCESS_INPLACE ''HandleUseItemOpcode'',
     DEFINE_HANDLER 0x0AC ''CMSG_OPEN_ITEM''
       STATUS_LOGGEDIN PROCESS_INPLACE ''HandleOpenItemOpcode'',
     DEFINE_HANDLER 0x0AD ''CMSG_READ_ITEM'' STATUS_LOGGEDIN PROCESS_INPLACE ''HandleReadItem'',
     DEFINE_SERVER_OPCODE_HANDLER 0x0AE ''SMSG_READ_ITEM_OK'' STATUS_NEVER,
     DEFINE_SERVER_OPCODE_HANDLER 0x0AF ''SMSG_READ_ITEM_FAILED'' STATUS_NEVER,
     DEFINE_SERVER_OPCODE_HANDLER 0x0B0 ''SMSG_ITEM_COOLDOWN'' STATUS_NEVER,
     DEFINE_HANDLER 0x0B1 ''CMSG_GAMEOBJ_USE''
       STATUS_LOGGEDIN PROCESS_INPLACE ''HandleGameObjectUseOpcode'',
     DEFINE_HANDLER 0x0B2 ''CMSG_DESTROY_ITEMS'' STATUS_NEVER PROCESS_INPLACE ''Handle_NULL'',
     DEFINE_SERVER_OPCODE_HANDLER 0x0B3 ''SMSG_GAMEOBJECT_CUSTOM_ANIM'' STATUS_NEVER,
     DEFINE_HANDLER 0x0B4 ''CMSG_AREATRIGGER''
       STATUS_LOGGEDIN PROCESS_INPLACE ''HandleAreaTriggerOpcode'',
     DEFINE_HANDLER 0x0B5 ''MSG_MOVE_START_FORWARD''
       STATUS_LOGGEDIN PROCESS_THREADSAFE ''HandleMovementOpcodes'',
     DEFINE_HANDLER 0x0B6 ''MSG_MOVE_START_BACKWARD''
       STATUS_LOGGEDIN PROCESS_THREADSAFE ''HandleMovementOpcodes'',
     DEFINE_HANDLER 0x0B7 ''MSG_MOVE_STOP''
       STATUS_LOGGEDIN PROCESS_THREADSAFE ''HandleMovementOpcodes'',
     DEFINE_HANDLER 0x0B8 ''MSG_MOVE_START_STRAFE_LEFT''
       STATUS_LOGGEDIN PROCESS_THREADSAFE ''HandleMovementOpcodes'',
     DEFINE_HANDLER 0x0B9 ''MSG_MOVE_START_STRAFE_RIGHT''
       STATUS_LOGGEDIN PROCESS_THREADSAFE ''HandleMovementOpcodes'',
     DEFINE_HANDLER 0x0BA ''MSG_MOVE_STOP_STRAFE''
       STATUS_LOGGEDIN PROCESS_THREADSAFE ''HandleMovementOpcodes'',
     DEFINE_HANDLER 0x0BB ''MSG_MOVE_JUMP''
       STATUS_LOGGEDIN PROCESS_THREADSAFE ''HandleMovementOpcodes'',
     DEFINE_HANDLER 0x0BC ''MSG_MOVE_START_TURN_LEFT''
       STATUS_LOGGEDIN PROCESS_THREADSAFE ''HandleMovementOpcodes'',
     DEFINE_HANDLER 0x0BD ''MSG_MOVE_START_TURN_RIGHT''
       STATUS_LOGGEDIN PROCESS_THREADSAFE ''HandleMovementOpcodes'',
     DEFINE_HANDLER 0x0BE ''MSG_MOVE_STOP_TURN''
       STATUS_LOGGEDIN PROCESS_THREADSAFE ''HandleMovementOpcodes'',
     DEFINE_HANDLER 0x0BF ''MSG_MOVE_START_PITCH_UP''
       STATUS_LOGGEDIN PROCESS_THREADSAFE ''HandleMovementOpcodes'',
     DEFINE_HANDLER 0x0C0 ''MSG_MOVE_START_PITCH_DOWN''
       STATUS_LOGGEDIN PROCESS_THREADSAFE ''HandleMovementOpcodes'',
     DEFINE_HANDLER 0x0C1 ''MSG_MOVE_STOP_PITCH''
       STATUS_LOGGEDIN PROCESS_THREADSAFE ''HandleMovementOpcodes'',
     DEFINE_HANDLER 0x0C2 ''MSG_MOVE_SET_RUN_MODE''
       STATUS_LOGGEDIN PROCESS_THREADSAFE ''HandleMovementOpcodes'',
     DEFINE_HANDLER 0x0C3 ''MSG_MOVE_SET_WALK_MODE''
       STATUS_LOGGEDIN PROCESS_THREADSAFE ''HandleMovementOpcodes'',
     DEFINE_HANDLER 0x0C4 ''MSG_MOVE_TOGGLE_LOGGING''
       STATUS_NEVER PROCESS_INPLACE ''Handle_NULL'',
     DEFINE_HANDLER 0x0C5 ''MSG_MOVE_TELEPORT'' STATUS_NEVER PROCESS_INPLACE ''Handle_NULL'',
     DEFINE_HANDLER 0x0C6 ''MSG_MOVE_TELEPORT_CHEAT''
       STATUS_NEVER PROCESS_INPLACE ''Handle_NULL'',
     DEFINE_HANDLER 0x0C7 ''MSG_MOVE_TELEPORT_ACK''
       STATUS_LOGGEDIN PROCESS_THREADSAFE ''HandleMoveTeleportAck'',
     DEFINE_HANDLER 0x0C8 ''MSG_MOVE_TOGGLE_FALL_LOGGING''
       STATUS_NEVER PROCESS_INPLACE ''Handle_NULL'',
     DEFINE_HANDLER 0x0C9 ''MSG_MOVE_FALL_LAND''
       STATUS_LOGGEDIN PROCESS_THREADSAFE ''HandleMovementOpcodes'',
     DEFINE_HANDLER 0x0CA ''MSG_MOVE_START_SWIM''
       STATUS_LOGGEDIN PROCESS_THREADSAFE ''HandleMovementOpcodes'',
     DEFINE_HANDLER 0x0CB ''MSG_MOVE_STOP_SWIM''
       STATUS_LOGGEDIN PROCESS_THREADSAFE ''HandleMovementOpcodes'',
     DEFINE_HANDLER 0x0CC ''MSG_MOVE_SET_RUN_SPEED_CHEAT''
       STATUS_NEVER PROCESS_INPLACE ''Handle_NULL'',
     DEFINE_HANDLER 0x0CD ''MSG_MOVE_SET_RUN_SPEED''
       STATUS_NEVER PROCESS_INPLACE ''Handle_NULL'',
     DEFINE_HANDLER 0x0CE ''MSG_MOVE_SET_RUN_BACK_SPEED_CHEAT''
       STATUS_NEVER PROCESS_INPLACE ''Handle_NULL'',
     DEFINE_HANDLER 0x0CF ''MSG_MOVE_SET_RUN_BACK_SPEED''
       STATUS_NEVER PROCESS_INPLACE ''Handle_NULL'',
     DEFINE_HANDLER 0x0D0 ''MSG_MOVE_SET_WALK_SPEED_CHEAT''
       STATUS_NEVER PROCESS_INPLACE ''Handle_NULL'',
     DEFINE_HANDLER 0x0D1 ''MSG_MOVE_SET_WALK_SPEED''
       STATUS_NEVER PROCESS_INPLACE ''Handle_NULL'',
     DEFINE_HANDLER 0x0D2 ''MSG_MOVE_SET_SWIM_SPEED_CHEAT''
       STATUS_NEVER PROCESS_INPLACE ''Handle_NULL'',
     DEFINE_HANDLER 0x0D3 ''MSG_MOVE_SET_SWIM_SPEED''
       STATUS_NEVER PROCESS_INPLACE ''Handle_NULL'',
     DEFINE_HANDLER 0x0D4 ''MSG_MOVE_SET_SWIM_BACK_SPEED_CHEAT''
       STATUS_NEVER PROCESS_INPLACE ''Handle_NULL'',
     DEFINE_HANDLER 0x0D5 ''MSG_MOVE_SET_SWIM_BACK_SPEED''
       STATUS_NEVER PROCESS_INPLACE ''Handle_NULL'',
     DEFINE_HANDLER 0x0D6 ''MSG_MOVE_SET_ALL_SPEED_CHEAT''
       STATUS_NEVER PROCESS_INPLACE ''Handle_NULL'',
     DEFINE_HANDLER 0x0D7 ''MSG_MOVE_SET_TURN_RATE_CHEAT''
       STATUS_NEVER PROCESS_INPLACE ''Handle_NULL'',
     DEFINE_HANDLER 0x0D8 ''MSG_MOVE_SET_TURN_RATE''
       STATUS_NEVER PROCESS_INPLACE ''Handle_NULL'',
     DEFINE_HANDLER 0x0D9 ''MSG_MOVE_TOGGLE_COLLISION_CHEAT''
       STATUS_NEVER PROCESS_INPLACE ''Handle_NULL'',
     DEFINE_HANDLER 0x0DA ''MSG_MOVE_SET_FACING''
       STATUS_LOGGEDIN PROCESS_THREADSAFE ''HandleMovementOpcodes'',
     DEFINE_HANDLER 0x0DB ''MSG_MOVE_SET_PITCH''
       STATUS_LOGGEDIN PROCESS_THREADSAFE ''HandleMovementOpcodes'',
     DEFINE_HANDLER 0x0DC ''MSG_MOVE_WORLDPORT_ACK''
       STATUS_TRANSFER PROCESS_THREADUNSAFE ''HandleMoveWorldportAckOpcode'',
     DEFINE_SERVER_OPCODE_HANDLER 0x0DD ''SMSG_MONSTER_MOVE'' STATUS_NEVER,
     DEFINE_SERVER_OPCODE_HANDLER 0x0DE ''SMSG_MOVE_WATER_WALK'' STATUS_NEVER,
     DEFINE_SERVER_OPCODE_HANDLER 0x0DF ''SMSG_MOVE_LAND_WALK'' STATUS_NEVER,
     DEFINE_HANDLER 0x0E0 ''CMSG_MOVE_CHARM_PORT_CHEAT''
       STATUS_NEVER PROCESS_INPLACE ''Handle_NULL'',
     DEFINE_HANDLER 0x0E1 ''CMSG_MOVE_SET_RAW_POSITION''
       STATUS_NEVER PROCESS_INPLACE ''Handle_NULL'',
     DEFINE_SERVER_OPCODE_HANDLER 0x0E2 ''SMSG_FORCE_RUN_SPEED_CHANGE'' STATUS_NEVER,
     DEFINE_HANDLER 0x0E3 ''CMSG_FORCE_RUN_SPEED_CHANGE_ACK''
       STATUS_LOGGEDIN PROCESS_THREADSAFE ''HandleForceSpeedChangeAck'',
     DEFINE_SERVER_OPCODE_HANDLER 0x0E4 ''SMSG_FORCE_RUN_BACK_SPEED_CHANGE'' STATUS_NEVER,
     DEFINE_HANDLER 0x0E5 ''CMSG_FORCE_RUN_BACK_SPEED_CHANGE_ACK''
       STATUS_LOGGEDIN PROCESS_THREADSAFE ''HandleForceSpeedChangeAck'',
     DEFINE_SERVER_OPCODE_HANDLER 0x0E6 ''SMSG_FORCE_SWIM_SPEED_CHANGE'' STATUS_NEVER,
     DEFINE_HANDLER 0x0E7 ''CMSG_FORCE_SWIM_SPEED_CHANGE_ACK''
       STATUS_LOGGEDIN PROCESS_THREADSAFE ''HandleForceSpeedChangeAck'',
     DEFINE_SERVER_OPCODE_HANDLER 0x0E8 ''SMSG_FORCE_MOVE_ROOT'' STATUS_NEVER,
     DEFINE_HANDLER 0x0E9 ''CMSG_FORCE_MOVE_ROOT_ACK''
       STATUS_LOGGEDIN PROCESS_THREADSAFE ''HandleMoveRootAck'',
     DEFINE_SERVER_OPCODE_HANDLER 0x0EA ''SMSG_FORCE_MOVE_UNROOT'' STATUS_NEVER,
     DEFINE_HANDLER 0x0EB ''CMSG_FORCE_MOVE_UNROOT_ACK''
       STATUS_LOGGEDIN PROCESS_THREADSAFE ''HandleMoveUnRootAck'',
     DEFINE_HANDLER 0x0EC ''MSG_MOVE_ROOT'' STATUS_NEVER PROCESS_INPLACE ''Handle_NULL'',
     DEFINE_HANDLER 0x0ED ''MSG_MOVE_UNROOT'' STATUS_NEVER PROCESS_INPLACE ''Handle_NULL'',
     DEFINE_HANDLER 0x0EE ''MSG_MOVE_HEARTBEAT''
       STATUS_LOGGEDIN PROCESS_THREADSAFE ''HandleMovementOpcodes'',
     DEFINE_SERVER_OPCODE_HANDLER 0x0EF ''SMSG_MOVE_KNOCK_BACK'' STATUS_NEVER,
     DEFINE_HANDLER 0x0F0 ''CMSG_MOVE_KNOCK_BACK_ACK''
       STATUS_LOGGEDIN PROCESS_THREADSAFE ''HandleMoveKnockBackAck'',
     DEFINE_HANDLER 0x0F1 ''MSG_MOVE_KNOCK_BACK'' STATUS_NEVER PROCESS_INPLACE ''Handle_NULL'',
     DEFINE_SERVER_OPCODE_HANDLER 0x0F2 ''SMSG_MOVE_FEATHER_FALL'' STATUS_NEVER,
     DEFINE_SERVER_OPCODE_HANDLER 0x0F3 ''SMSG_MOVE_NORMAL_FALL'' STATUS_NEVER,
     DEFINE_SERVER_OPCODE_HANDLER 0x0F4 ''SMSG_MOVE_SET_HOVER'' STATUS_NEVER,
     DEFINE_SERVER_OPCODE_HANDLER 0x0F5 ''SMSG_MOVE_UNSET_HOVER'' STATUS_NEVER,
     DEFINE_HANDLER 0x0F6 ''CMSG_MOVE_HOVER_ACK''
       STATUS_LOGGEDIN PROCESS_THREADUNSAFE ''HandleMoveHoverAck'',
     DEFINE_SERVER_OPCODE_HANDLER 0x0F7 ''MSG_MOVE_HOVER'' STATUS_NEVER,
     DEFINE_HANDLER 0x0F8 ''CMSG_TRIGGER_CINEMATIC_CHEAT''
       STATUS_NEVER PROCESS_INPLACE ''Handle_NULL'',
     DEFINE_HANDLER 0x0F9 ''CMSG_OPENING_CINEMATIC''
       STATUS_NEVER PROCESS_INPLACE ''Handle_NULL'',
     DEFINE_SERVER_OPCODE_HANDLER 0x0FA ''SMSG_TRIGGER_CINEMATIC'' STATUS_NEVER,
     DEFINE_HANDLER 0x0FB ''CMSG_NEXT_CINEMATIC_CAMERA''
       STATUS_LOGGEDIN PROCESS_THREADUNSAFE ''HandleNextCinematicCamera'',
     DEFINE_HANDLER 0x0FC ''CMSG_COMPLETE_CINEMATIC''
       STATUS_LOGGEDIN PROCESS_THREADUNSAFE ''HandleCompleteCinematic'',
     DEFINE_SERVER_OPCODE_HANDLER 0x0FD ''SMSG_TUTORIAL_FLAGS'' STATUS_NEVER,
     DEFINE_HANDLER 0x0FE ''CMSG_TUTORIAL_FLAG''
       STATUS_LOGGEDIN PROCESS_THREADUNSAFE ''HandleTutorialFlag'',
     DEFINE_HANDLER 0x0FF ''CMSG_TUTORIAL_CLEAR''
       STATUS_LOGGEDIN PROCESS_THREADUNSAFE ''HandleTutorialClear'',
     DEFINE_HANDLER 0x100 ''CMSG_TUTORIAL_RESET''
       STATUS_LOGGEDIN PROCESS_THREADUNSAFE ''HandleTutorialReset'']"

definition Initialize_101_180 :: "manifest_entry list" where
  "Initialize_101_180 =
    [DEFINE_HANDLER 0x101 ''CMSG_STANDSTATECHANGE''
       STATUS_LOGGEDIN PROCESS_THREADUNSAFE ''HandleStandStateChangeOpcode'',
     DEFINE_HANDLER 0x102 ''CMSG_EMOTE''
       STATUS_LOGGEDIN PROCESS_THREADSAFE ''HandleEmoteOpcode'',
     DEFINE_SERVER_OPCODE_HANDLER 0x103 ''SMSG_EMOTE'' STATUS_NEVER,
     DEFINE_HANDLER 0x104 ''CMSG_TEXT_EMOTE''
       STATUS_LOGGEDIN PROCESS_THREADSAFE ''HandleTextEmoteOpcode'',
     DEFINE_SERVER_OPCODE_HANDLER 0x105 ''SMSG_TEXT_EMOTE'' STATUS_NEVER,
     DEFINE_HANDLER 0x106 ''CMSG_AUTOEQUIP_GROUND_ITEM''
       STATUS_NEVER PROCESS_INPLACE ''Handle_NULL'',
     DEFINE_HANDLER 0x107 ''CMSG_AUTOSTORE_GROUND_ITEM''
       STATUS_NEVER PROCESS_INPLACE ''Handle_NULL'',
     DEFINE_HANDLER 0x108 ''CMSG_AUTOSTORE_LOOT_ITEM''
       STATUS_LOGGEDIN PROCESS_INPLACE ''HandleAutostoreLootItemOpcode'',
     DEFINE_HANDLER 0x109 ''CMSG_STORE_LOOT_IN_SLOT''
       STATUS_NEVER PROCESS_INPLACE ''Handle_NULL'',
     DEFINE_HANDLER 0x10A ''CMSG_AUTOEQUIP_ITEM''
       STATUS_LOGGEDIN PROCESS_INPLACE ''HandleAutoEquipItemOpcode'',
     DEFINE_HANDLER 0x10B ''CMSG_AUTOSTORE_BAG_ITEM''
       STATUS_LOGGEDIN PROCESS_INPLACE ''HandleAutoStoreBagItemOpcode'',
     DEFINE_HANDLER 0x10C ''CMSG_SWAP_ITEM'' STATUS_LOGGEDIN PROCESS_INPLACE ''HandleSwapItem'',
     DEFINE_HANDLER 0x10D ''CMSG_SWAP_INV_ITEM''
       STATUS_LOGGEDIN PROCESS_INPLACE ''HandleSwapInvItemOpcode'',
     DEFINE_HANDLER 0x10E ''CMSG_SPLIT_ITEM''
       STATUS_LOGGEDIN PROCESS_INPLACE ''HandleSplitItemOpcode'',
     DEFINE_HANDLER 0x10F ''CMSG_AUTOEQUIP_ITEM_SLOT''
       STATUS_LOGGEDIN PROCESS_INPLACE ''HandleAutoEquipItemSlotOpcode'',
     DEFINE_HANDLER 0x110 ''CMSG_UNCLAIM_LICENSE'' STATUS_NEVER PROCESS_INPLACE ''Handle_NULL'',
     DEFINE_HANDLER 0x111 ''CMSG_DESTROYITEM''
       STATUS_LOGGEDIN PROCESS_INPLACE ''HandleDestroyItemOpcode'',
     DEFINE_SERVER_OPCODE_HANDLER 0x112 ''SMSG_INVENTORY_CHANGE_FAILURE'' STATUS_NEVER,
     DEFINE_SERVER_OPCODE_HANDLER 0x113 ''SMSG_OPEN_CONTAINER'' STATUS_NEVER,
     DEFINE_HANDLER 0x114 ''CMSG_INSPECT''
       STATUS_LOGGEDIN PROCESS_INPLACE ''HandleInspectOpcode'',
     DEFINE_SERVER_OPCODE_HANDLER 0x115 ''SMSG_INSPECT_RESULTS_UPDATE'' STATUS_NEVER,
     DEFINE_HANDLER 0x116 ''CMSG_INITIATE_TRADE''
       STATUS_LOGGEDIN PROCESS_THREADUNSAFE ''HandleInitiateTradeOpcode'',
     DEFINE_HANDLER 0x117 ''CMSG_BEGIN_TRADE''
       STATUS_LOGGEDIN PROCESS_THREADUNSAFE ''HandleBeginTradeOpcode'',
     DEFINE_HANDLER 0x118 ''CMSG_BUSY_TRADE''
       STATUS_LOGGEDIN PROCESS_THREADUNSAFE ''HandleBusyTradeOpcode'',
     DEFINE_HANDLER 0x119 ''CMSG_IGNORE_TRADE''
       STATUS_LOGGEDIN PROCESS_THREADUNSAFE ''HandleIgnoreTradeOpcode'',
     DEFINE_HANDLER 0x11A ''CMSG_ACCEPT_TRADE''
       STATUS_LOGGEDIN PROCESS_THREADUNSAFE ''HandleAcceptTradeOpcode'',
     DEFINE_HANDLER 0x11B ''CMSG_UNACCEPT_TRADE''
       STATUS_LOGGEDIN PROCESS_THREADUNSAFE ''HandleUnacceptTradeOpcode'',
     DEFINE_HANDLER 0x11C ''CMSG_CANCEL_TRADE''
       STATUS_LOGGEDIN_OR_RECENTLY_LOGGOUT PROCESS_THREADUNSAFE ''HandleCancelTradeOpcode'',
     DEFINE_HANDLER 0x11D ''CMSG_SET_TRADE_ITEM''
       STATUS_LOGGEDIN PROCESS_THREADUNSAFE ''HandleSetTradeItemOpcode'',
     DEFINE_HANDLER 0x11E ''CMSG_CLEAR_TRADE_ITEM''
       STATUS_LOGGEDIN PROCESS_THREADUNSAFE ''HandleClearTradeItemOpcode'',
     DEFINE_HANDLER 0x11F ''CMSG_SET_TRADE_GOLD''
       STATUS_LOGGEDIN PROCESS_THREADUNSAFE ''HandleSetTradeGoldOpcode'',
     DEFINE_SERVER_OPCODE_HANDLER 0x120 ''SMSG_TRADE_STATUS'' STATUS_NEVER,
     DEFINE_SERVER_OPCODE_HANDLER 0x121 ''SMSG_TRADE_STATUS_EXTENDED'' STATUS_NEVER,
     DEFINE_SERVER_OPCODE_HANDLER 0x122 ''SMSG_INITIALIZE_FACTIONS'' STATUS_NEVER,
     DEFINE_SERVER_OPCODE_HANDLER 0x123 ''SMSG_SET_FACTION_VISIBLE'' STATUS_NEVER,
     DEFINE_SERVER_OPCODE_HANDLER 0x124 ''SMSG_SET_FACTION_STANDING'' STATUS_NEVER,
     DEFINE_HANDLER 0x125 ''CMSG_SET_FACTION_ATWAR''
       STATUS_LOGGEDIN PROCESS_THREADUNSAFE ''HandleSetFactionAtWar'',
     DEFINE_HANDLER 0x126 ''CMSG_SET_FACTION_CHEAT''
       STATUS_LOGGEDIN PROCESS_THREADUNSAFE ''HandleSetFactionCheat'',
     DEFINE_SERVER_OPCODE_HANDLER 0x127 ''SMSG_SET_PROFICIENCY'' STATUS_NEVER,
     DEFINE_HANDLER 0x128 ''CMSG_SET_ACTION_BUTTON''
       STATUS_LOGGEDIN PROCESS_THREADUNSAFE ''HandleSetActionButtonOpcode'',
     DEFINE_SERVER_OPCODE_HANDLER 0x129 ''SMSG_ACTION_BUTTONS'' STATUS_NEVER,
     DEFINE_SERVER_OPCODE_HANDLER 0x12A ''SMSG_INITIAL_SPELLS'' STATUS_NEVER,
     DEFINE_SERVER_OPCODE_HANDLER 0x12B ''SMSG_LEARNED_SPELL'' STATUS_NEVER,
     DEFINE_SERVER_OPCODE_HANDLER 0x12C ''SMSG_SUPERCEDED_SPELL'' STATUS_NEVER,
     DEFINE_HANDLER 0x12D ''CMSG_NEW_SPELL_SLOT'' STATUS_NEVER PROCESS_INPLACE ''Handle_NULL'',
     DEFINE_HANDLER 0x12E ''CMSG_CAST_SPELL''
       STATUS_LOGGEDIN PROCESS_THREADSAFE ''HandleCastSpellOpcode'',
     DEFINE_HANDLER 0x12F ''CMSG_CANCEL_CAST''
       STATUS_LOGGEDIN PROCESS_THREADSAFE ''HandleCancelCastOpcode'',
     DEFINE_SERVER_OPCODE_HANDLER 0x130 ''SMSG_CAST_FAILED'' STATUS_NEVER,
     DEFINE_SERVER_OPCODE_HANDLER 0x131 ''SMSG_SPELL_START'' STATUS_NEVER,
     DEFINE_SERVER_OPCODE_HANDLER 0x132 ''SMSG_SPELL_GO'' STATUS_NEVER,
     DEFINE_SERVER_OPCODE_HANDLER 0x133 ''SMSG_SPELL_FAILURE'' STATUS_NEVER,
     DEFINE_SERVER_OPCODE_HANDLER 0x134 ''SMSG_SPELL_COOLDOWN'' STATUS_NEVER,
     DEFINE_SERVER_OPCODE_HANDLER 0x135 ''SMSG_COOLDOWN_EVENT'' STATUS_NEVER,
     DEFINE_HANDLER 0x136 ''CMSG_CANCEL_AURA''
       STATUS_LOGGEDIN PROCESS_INPLACE ''HandleCancelAuraOpcode'',
     DEFINE_SERVER_OPCODE_HANDLER 0x137 ''SMSG_EQUIPMENT_SET_SAVED'' STATUS_NEVER,
     DEFINE_SERVER_OPCODE_HANDLER 0x138 ''SMSG_PET_CAST_FAILED'' STATUS_NEVER,
     DEFINE_HANDLER 0x139 ''MSG_CHANNEL_START'' STATUS_NEVER PROCESS_INPLACE ''Handle_NULL'',
     DEFINE_HANDLER 0x13A ''MSG_CHANNEL_UPDATE'' STATUS_NEVER PROCESS_INPLACE ''Handle_NULL'',
     DEFINE_HANDLER 0x13B ''CMSG_CANCEL_CHANNELLING''
       STATUS_LOGGEDIN PROCESS_INPLACE ''HandleCancelChanneling'',
     DEFINE_SERVER_OPCODE_HANDLER 0x13C ''SMSG_AI_REACTION'' STATUS_NEVER,
     DEFINE_HANDLER 0x13D ''CMSG_SET_SELECTION''
       STATUS_LOGGEDIN PROCESS_THREADSAFE ''HandleSetSelectionOpcode'',
     DEFINE_HANDLER 0x13E ''CMSG_DELETEEQUIPMENT_SET''
       STATUS_LOGGEDIN PROCESS_THREADUNSAFE ''HandleEquipmentSetDelete'',
     DEFINE_HANDLER 0x13F ''CMSG_INSTANCE_LOCK_RESPONSE''
       STATUS_LOGGEDIN PROCESS_THREADUNSAFE ''HandleInstanceLockResponse'',
     DEFINE_HANDLER 0x140 ''CMSG_DEBUG_PASSIVE_AURA''
       STATUS_NEVER PROCESS_INPLACE ''Handle_NULL'',
     DEFINE_HANDLER 0x141 ''CMSG_ATTACKSWING''
       STATUS_LOGGEDIN PROCESS_THREADSAFE ''HandleAttackSwingOpcode'',
     DEFINE_HANDLER 0x142 ''CMSG_ATTACKSTOP''
       STATUS_LOGGEDIN PROCESS_THREADSAFE ''HandleAttackStopOpcode'',
     DEFINE_SERVER_OPCODE_HANDLER 0x143 ''SMSG_ATTACKSTART'' STATUS_NEVER,
     DEFINE_SERVER_OPCODE_HANDLER 0x144 ''SMSG_ATTACKSTOP'' STATUS_NEVER,
     DEFINE_SERVER_OPCODE_HANDLER 0x145 ''SMSG_ATTACKSWING_NOTINRANGE'' STATUS_NEVER,
     DEFINE_SERVER_OPCODE_HANDLER 0x146 ''SMSG_ATTACKSWING_BADFACING'' STATUS_NEVER,
     DEFINE_SERVER_OPCODE_HANDLER 0x147 ''SMSG_INSTANCE_LOCK_WARNING_QUERY'' STATUS_NEVER,
     DEFINE_SERVER_OPCODE_HANDLER 0x148 ''SMSG_ATTACKSWING_DEADTARGET'' STATUS_NEVER,
     DEFINE_SERVER_OPCODE_HANDLER 0x149 ''SMSG_ATTACKSWING_CANT_ATTACK'' STATUS_NEVER,
     DEFINE_SERVER_OPCODE_HANDLER 0x14A ''SMSG_ATTACKERSTATEUPDATE'' STATUS_NEVER,
     DEFINE_SERVER_OPCODE_HANDLER 0x14B ''SMSG_BATTLEFIELD_PORT_DENIED'' STATUS_NEVER,
     DEFINE_HANDLER 0x14C ''CMSG_PERFORM_ACTION_SET''
       STATUS_NEVER PROCESS_INPLACE ''Handle_NULL'',
     DEFINE_SERVER_OPCODE_HANDLER 0x14D ''SMSG_RESUME_CAST_BAR'' STATUS_NEVER,
     DEFINE_SERVER_OPCODE_HANDLER 0x14E ''SMSG_CANCEL_COMBAT'' STATUS_NEVER,
     DEFINE_SERVER_OPCODE_HANDLER 0x14F ''SMSG_SPELLBREAKLOG'' STATUS_NEVER,
     DEFINE_SERVER_OPCODE_HANDLER 0x150 ''SMSG_SPELLHEALLOG'' STATUS_NEVER,
     DEFINE_SERVER_OPCODE_HANDLER 0x151 ''SMSG_SPELLENERGIZELOG'' STATUS_NEVER,
     DEFINE_SERVER_OPCODE_HANDLER 0x152 ''SMSG_BREAK_TARGET'' STATUS_NEVER,
     DEFINE_HANDLER 0x153 ''CMSG_SAVE_PLAYER'' STATUS_NEVER PROCESS_INPLACE ''Handle_NULL'',
     DEFINE_HANDLER 0x154 ''CMSG_SETDEATHBINDPOINT''
       STATUS_NEVER PROCESS_INPLACE ''Handle_NULL'',
     DEFINE_SERVER_OPCODE_HANDLER 0x155 ''SMSG_BINDPOINTUPDATE'' STATUS_NEVER,
     DEFINE_HANDLER 0x156 ''CMSG_GETDEATHBINDZONE''
       STATUS_NEVER PROCESS_INPLACE ''Handle_NULL'',
     DEFINE_SERVER_OPCODE_HANDLER 0x157 ''SMSG_BINDZONEREPLY'' STATUS_NEVER,
     DEFINE_SERVER_OPCODE_HANDLER 0x158 ''SMSG_PLAYERBOUND'' STATUS_NEVER,
     DEFINE_SERVER_OPCODE_HANDLER 0x159 ''SMSG_CLIENT_CONTROL_UPDATE'' STATUS_NEVER,
     DEFINE_HANDLER 0x15A ''CMSG_REPOP_REQUEST''
       STATUS_LOGGEDIN PROCESS_THREADSAFE ''HandleRepopRequestOpcode'',
     DEFINE_SERVER_OPCODE_HANDLER 0x15B ''SMSG_RESURRECT_REQUEST'' STATUS_NEVER,
     DEFINE_HANDLER 0x15C ''CMSG_RESURRECT_RESPONSE''
       STATUS_LOGGEDIN PROCESS_THREADSAFE ''HandleResurrectResponseOpcode'',
     DEFINE_HANDLER 0x15D ''CMSG_LOOT''
       STATUS_LOGGEDIN PROCESS_THREADUNSAFE ''HandleLootOpcode'',
     DEFINE_HANDLER 0x15E ''CMSG_LOOT_MONEY''
       STATUS_LOGGEDIN PROCESS_THREADUNSAFE ''HandleLootMoneyOpcode'',
     DEFINE_HANDLER 0x15F ''CMSG_LOOT_RELEASE''
       STATUS_LOGGEDIN PROCESS_THREADUNSAFE ''HandleLootReleaseOpcode'',
     DEFINE_SERVER_OPCODE_HANDLER 0x160 ''SMSG_LOOT_RESPONSE'' STATUS_NEVER,
     DEFINE_SERVER_OPCODE_HANDLER 0x161 ''SMSG_LOOT_RELEASE_RESPONSE'' STATUS_NEVER,
     DEFINE_SERVER_OPCODE_HANDLER 0x162 ''SMSG_LOOT_REMOVED'' STATUS_NEVER,
     DEFINE_SERVER_OPCODE_HANDLER 0x163 ''SMSG_LOOT_MONEY_NOTIFY'' STATUS_NEVER,
     DEFINE_SERVER_OPCODE_HANDLER 0x164 ''SMSG_LOOT_ITEM_NOTIFY'' STATUS_NEVER,
     DEFINE_SERVER_OPCODE_HANDLER 0x165 ''SMSG_LOOT_CLEAR_MONEY'' STATUS_NEVER,
     DEFINE_SERVER_OPCODE_HANDLER 0x166 ''SMSG_ITEM_PUSH_RESULT'' STATUS_NEVER,
     DEFINE_SERVER_OPCODE_HANDLER 0x167 ''SMSG_DUEL_REQUESTED'' STATUS_NEVER,
     DEFINE_SERVER_OPCODE_HANDLER 0x168 ''SMSG_DUEL_OUTOFBOUNDS'' STATUS_NEVER,
     DEFINE_SERVER_OPCODE_HANDLER 0x169 ''SMSG_DUEL_INBOUNDS'' STATUS_NEVER,
     DEFINE_SERVER_OPCODE_HANDLER 0x16A ''SMSG_DUEL_COMPLETE'' STATUS_NEVER,
     DEFINE_SERVER_OPCODE_HANDLER 0x16B ''SMSG_DUEL_WINNER'' STATUS_NEVER,
     DEFINE_HANDLER 0x16C ''CMSG_DUEL_ACCEPTED''
       STATUS_LOGGEDIN PROCESS_THREADUNSAFE ''HandleDuelAcceptedOpcode'',
     DEFINE_HANDLER 0x16D ''CMSG_DUEL_CANCELLED''
       STATUS_LOGGEDIN PROCESS_THREADUNSAFE ''HandleDuelCancelledOpcode'',
     DEFINE_SERVER_OPCODE_HANDLER 0x16E ''SMSG_MOUNTRESULT'' STATUS_NEVER,
     DEFINE_SERVER_OPCODE_HANDLER 0x16F ''SMSG_DISMOUNTRESULT'' STATUS_NEVER,
     DEFINE_SERVER_OPCODE_HANDLER 0x170 ''SMSG_REMOVED_FROM_PVP_QUEUE'' STATUS_NEVER,
     DEFINE_HANDLER 0x171 ''CMSG_MOUNTSPECIAL_ANIM''
       STATUS_LOGGEDIN PROCESS_THREADUNSAFE ''HandleMountSpecialAnimOpcode'',
     DEFINE_SERVER_OPCODE_HANDLER 0x172 ''SMSG_MOUNTSPECIAL_ANIM'' STATUS_NEVER,
     DEFINE_SERVER_OPCODE_HANDLER 0x173 ''SMSG_PET_TAME_FAILURE'' STATUS_NEVER,
     DEFINE_HANDLER 0x174 ''CMSG_PET_SET_ACTION''
       STATUS_LOGGEDIN PROCESS_THREADUNSAFE ''HandlePetSetAction'',
     DEFINE_HANDLER 0x175 ''CMSG_PET_ACTION''
       STATUS_LOGGEDIN PROCESS_THREADSAFE ''HandlePetAction'',
     DEFINE_HANDLER 0x176 ''CMSG_PET_ABANDON''
       STATUS_LOGGEDIN PROCESS_THREADUNSAFE ''HandlePetAbandon'',
     DEFINE_HANDLER 0x177 ''CMSG_PET_RENAME''
       STATUS_LOGGEDIN PROCESS_THREADUNSAFE ''HandlePetRename'',
     DEFINE_SERVER_OPCODE_HANDLER 0x178 ''SMSG_PET_NAME_INVALID'' STATUS_NEVER,
     DEFINE_SERVER_OPCODE_HANDLER 0x179 ''SMSG_PET_SPELLS'' STATUS_NEVER,
     DEFINE_SERVER_OPCODE_HANDLER 0x17A ''SMSG_PET_MODE'' STATUS_NEVER,
     DEFINE_HANDLER 0x17B ''CMSG_GOSSIP_HELLO''
       STATUS_LOGGEDIN PROCESS_INPLACE ''HandleGossipHelloOpcode'',
     DEFINE_HANDLER 0x17C ''CMSG_GOSSIP_SELECT_OPTION''
       STATUS_LOGGEDIN PROCESS_THREADUNSAFE ''HandleGossipSelectOptionOpcode'',
     DEFINE_SERVER_OPCODE_HANDLER 0x17D ''SMSG_GOSSIP_MESSAGE'' STATUS_NEVER,
     DEFINE_SERVER_OPCODE_HANDLER 0x17E ''SMSG_GOSSIP_COMPLETE'' STATUS_NEVER,
     DEFINE_HANDLER 0x17F ''CMSG_NPC_TEXT_QUERY''
       STATUS_LOGGEDIN PROCESS_INPLACE ''HandleNpcTextQueryOpcode'',
     DEFINE_SERVER_OPCODE_HANDLER 0x180 ''SMSG_NPC_TEXT_UPDATE'' STATUS_NEVER]"

definition Initialize_181_200 :: "manifest_entry list" where
  "Initialize_181_200 =
    [DEFINE_SERVER_OPCODE_HANDLER 0x181 ''SMSG_NPC_WONT_TALK'' STATUS_NEVER,
     DEFINE_HANDLER 0x182 ''CMSG_QUESTGIVER_STATUS_QUERY''
       STATUS_LOGGEDIN PROCESS_THREADSAFE ''HandleQuestgiverStatusQueryOpcode'',
     DEFINE_SERVER_OPCODE_HANDLER 0x183 ''SMSG_QUESTGIVER_STATUS'' STATUS_NEVER,
     DEFINE_HANDLER 0x184 ''CMSG_QUESTGIVER_HELLO''
       STATUS_LOGGEDIN PROCESS_INPLACE ''HandleQuestgiverHelloOpcode'',
     DEFINE_SERVER_OPCODE_HANDLER 0x185 ''SMSG_QUESTGIVER_QUEST_LIST'' STATUS_NEVER,
     DEFINE_HANDLER 0x186 ''CMSG_QUESTGIVER_QUERY_QUEST''
       STATUS_LOGGEDIN PROCESS_INPLACE ''HandleQuestgiverQueryQuestOpcode'',
     DEFINE_HANDLER 0x187 ''CMSG_QUESTGIVER_QUEST_AUTOLAUNCH''
       STATUS_LOGGEDIN PROCESS_INPLACE ''HandleQuestgiverQuestAutoLaunch'',
     DEFINE_SERVER_OPCODE_HANDLER 0x188 ''SMSG_QUESTGIVER_QUEST_DETAILS'' STATUS_NEVER,
     DEFINE_HANDLER 0x189 ''CMSG_QUESTGIVER_ACCEPT_QUEST''
       STATUS_LOGGEDIN PROCESS_INPLACE ''HandleQuestgiverAcceptQuestOpcode'',
     DEFINE_HANDLER 0x18A ''CMSG_QUESTGIVER_COMPLETE_QUEST''
       STATUS_LOGGEDIN PROCESS_INPLACE ''HandleQuestgiverCompleteQuest'',
     DEFINE_SERVER_OPCODE_HANDLER 0x18B ''SMSG_QUESTGIVER_REQUEST_ITEMS'' STATUS_NEVER,
     DEFINE_HANDLER 0x18C ''CMSG_QUESTGIVER_REQUEST_REWARD''
       STATUS_LOGGEDIN PROCESS_INPLACE ''HandleQuestgiverRequestRewardOpcode'',
     DEFINE_SERVER_OPCODE_HANDLER 0x18D ''SMSG_QUESTGIVER_OFFER_REWARD'' STATUS_NEVER,
     DEFINE_HANDLER 0x18E ''CMSG_QUESTGIVER_CHOOSE_REWARD''
       STATUS_LOGGEDIN PROCESS_INPLACE ''HandleQuestgiverChooseRewardOpcode'',
     DEFINE_SERVER_OPCODE_HANDLER 0x18F ''SMSG_QUESTGIVER_QUEST_INVALID'' STATUS_NEVER,
     DEFINE_HANDLER 0x190 ''CMSG_QUESTGIVER_CANCEL''
       STATUS_LOGGEDIN PROCESS_INPLACE ''HandleQuestgiverCancel'',
     DEFINE_SERVER_OPCODE_HANDLER 0x191 ''SMSG_QUESTGIVER_QUEST_COMPLETE'' STATUS_NEVER,
     DEFINE_SERVER_OPCODE_HANDLER 0x192 ''SMSG_QUESTGIVER_QUEST_FAILED'' STATUS_NEVER,
     DEFINE_HANDLER 0x193 ''CMSG_QUESTLOG_SWAP_QUEST''
       STATUS_LOGGEDIN PROCESS_INPLACE ''HandleQuestLogSwapQuest'',
     DEFINE_HANDLER 0x194 ''CMSG_QUESTLOG_REMOVE_QUEST''
       STATUS_LOGGEDIN PROCESS_INPLACE ''HandleQuestLogRemoveQuest'',
     DEFINE_SERVER_OPCODE_HANDLER 0x195 ''SMSG_QUESTLOG_FULL'' STATUS_NEVER,
     DEFINE_SERVER_OPCODE_HANDLER 0x196 ''SMSG_QUESTUPDATE_FAILED'' STATUS_NEVER,
     DEFINE_SERVER_OPCODE_HANDLER 0x197 ''SMSG_QUESTUPDATE_FAILEDTIMER'' STATUS_NEVER,
     DEFINE_SERVER_OPCODE_HANDLER 0x198 ''SMSG_QUESTUPDATE_COMPLETE'' STATUS_NEVER,
     DEFINE_SERVER_OPCODE_HANDLER 0x199 ''SMSG_QUESTUPDATE_ADD_KILL'' STATUS_NEVER,
     DEFINE_SERVER_OPCODE_HANDLER 0x19A ''SMSG_QUESTUPDATE_ADD_ITEM'' STATUS_NEVER,
     DEFINE_HANDLER 0x19B ''CMSG_QUEST_CONFIRM_ACCEPT''
       STATUS_LOGGEDIN PROCESS_THREADUNSAFE ''HandleQuestConfirmAccept'',
     DEFINE_SERVER_OPCODE_HANDLER 0x19C ''SMSG_QUEST_CONFIRM_ACCEPT'' STATUS_NEVER,
     DEFINE_HANDLER 0x19D ''CMSG_PUSHQUESTTOPARTY''
       STATUS_LOGGEDIN PROCESS_THREADUNSAFE ''HandlePushQuestToParty'',
     DEFINE_HANDLER 0x19E ''CMSG_LIST_INVENTORY''
       STATUS_LOGGEDIN PROCESS_INPLACE ''HandleListInventoryOpcode'',
     DEFINE_SERVER_OPCODE_HANDLER 0x19F ''SMSG_LIST_INVENTORY'' STATUS_NEVER,
     DEFINE_HANDLER 0x1A0 ''CMSG_SELL_ITEM''
       STATUS_LOGGEDIN PROCESS_INPLACE ''HandleSellItemOpcode'',
     DEFINE_SERVER_OPCODE_HANDLER 0x1A1 ''SMSG_SELL_ITEM'' STATUS_NEVER,
     DEFINE_HANDLER 0x1A2 ''CMSG_BUY_ITEM''
       STATUS_LOGGEDIN PROCESS_INPLACE ''HandleBuyItemOpcode'',
     DEFINE_HANDLER 0x1A3 ''CMSG_BUY_ITEM_IN_SLOT''
       STATUS_LOGGEDIN PROCESS_INPLACE ''HandleBuyItemInSlotOpcode'',
     DEFINE_SERVER_OPCODE_HANDLER 0x1A4 ''SMSG_BUY_ITEM'' STATUS_NEVER,
     DEFINE_SERVER_OPCODE_HANDLER 0x1A5 ''SMSG_BUY_FAILED'' STATUS_NEVER,
     DEFINE_HANDLER 0x1A6 ''CMSG_TAXICLEARALLNODES''
       STATUS_NEVER PROCESS_INPLACE ''Handle_NULL'',
     DEFINE_HANDLER 0x1A7 ''CMSG_TAXIENABLEALLNODES''
       STATUS_NEVER PROCESS_INPLACE ''Handle_NULL'',
     DEFINE_HANDLER 0x1A8 ''CMSG_TAXISHOWNODES'' STATUS_NEVER PROCESS_INPLACE ''Handle_NULL'',
     DEFINE_SERVER_OPCODE_HANDLER 0x1A9 ''SMSG_SHOWTAXINODES'' STATUS_NEVER,
     DEFINE_HANDLER 0x1AA ''CMSG_TAXINODE_STATUS_QUERY''
       STATUS_LOGGEDIN PROCESS_THREADSAFE ''HandleTaxiNodeStatusQueryOpcode'',
     DEFINE_SERVER_OPCODE_HANDLER 0x1AB ''SMSG_TAXINODE_STATUS'' STATUS_NEVER,
     DEFINE_HANDLER 0x1AC ''CMSG_TAXIQUERYAVAILABLENODES''
       STATUS_LOGGEDIN PROCESS_THREADSAFE ''HandleTaxiQueryAvailableNodes'',
     DEFINE_HANDLER 0x1AD ''CMSG_ACTIVATETAXI''
       STATUS_LOGGEDIN PROCESS_THREADSAFE ''HandleActivateTaxiOpcode'',
     DEFINE_SERVER_OPCODE_HANDLER 0x1AE ''SMSG_ACTIVATETAXIREPLY'' STATUS_NEVER,
     DEFINE_SERVER_OPCODE_HANDLER 0x1AF ''SMSG_NEW_TAXI_PATH'' STATUS_NEVER,
     DEFINE_HANDLER 0x1B0 ''CMSG_TRAINER_LIST''
       STATUS_LOGGEDIN PROCESS_INPLACE ''HandleTrainerListOpcode'',
     DEFINE_SERVER_OPCODE_HANDLER 0x1B1 ''SMSG_TRAINER_LIST'' STATUS_NEVER,
     DEFINE_HANDLER 0x1B2 ''CMSG_TRAINER_BUY_SPELL''
       STATUS_LOGGEDIN PROCESS_INPLACE ''HandleTrainerBuySpellOpcode'',
     DEFINE_SERVER_OPCODE_HANDLER 0x1B3 ''SMSG_TRAINER_BUY_SUCCEEDED'' STATUS_NEVER,
     DEFINE_SERVER_OPCODE_HANDLER 0x1B4 ''SMSG_TRAINER_BUY_FAILED'' STATUS_NEVER,
     DEFINE_HANDLER 0x1B5 ''CMSG_BINDER_ACTIVATE''
       STATUS_LOGGEDIN PROCESS_INPLACE ''HandleBinderActivateOpcode'',
     DEFINE_SERVER_OPCODE_HANDLER 0x1B6 ''SMSG_PLAYERBINDERROR'' STATUS_NEVER,
     DEFINE_HANDLER 0x1B7 ''CMSG_BANKER_ACTIVATE''
       STATUS_LOGGEDIN PROCESS_INPLACE ''HandleBankerActivateOpcode'',
     DEFINE_SERVER_OPCODE_HANDLER 0x1B8 ''SMSG_SHOW_BANK'' STATUS_NEVER,
     DEFINE_HANDLER 0x1B9 ''CMSG_BUY_BANK_SLOT''
       STATUS_LOGGEDIN PROCESS_INPLACE ''HandleBuyBankSlotOpcode'',
     DEFINE_SERVER_OPCODE_HANDLER 0x1BA ''SMSG_BUY_BANK_SLOT_RESULT'' STATUS_NEVER,
     DEFINE_HANDLER 0x1BB ''CMSG_PETITION_SHOWLIST''
       STATUS_LOGGEDIN PROCESS_THREADSAFE ''HandlePetitionShowListOpcode'',
     DEFINE_SERVER_OPCODE_HANDLER 0x1BC ''SMSG_PETITION_SHOWLIST'' STATUS_NEVER,
     DEFINE_HANDLER 0x1BD ''CMSG_PETITION_BUY''
       STATUS_LOGGEDIN PROCESS_THREADSAFE ''HandlePetitionBuyOpcode'',
     DEFINE_HANDLER 0x1BE ''CMSG_PETITION_SHOW_SIGNATURES''
       STATUS_LOGGEDIN PROCESS_THREADSAFE ''HandlePetitionShowSignOpcode'',
     DEFINE_SERVER_OPCODE_HANDLER 0x1BF ''SMSG_PETITION_SHOW_SIGNATURES'' STATUS_NEVER,
     DEFINE_HANDLER 0x1C0 ''CMSG_PETITION_SIGN''
       STATUS_LOGGEDIN PROCESS_THREADSAFE ''HandlePetitionSignOpcode'',
     DEFINE_SERVER_OPCODE_HANDLER 0x1C1 ''SMSG_PETITION_SIGN_RESULTS'' STATUS_NEVER,
     DEFINE_HANDLER 0x1C2 ''MSG_PETITION_DECLINE''
       STATUS_LOGGEDIN PROCESS_THREADSAFE ''HandlePetitionDeclineOpcode'',
     DEFINE_HANDLER 0x1C3 ''CMSG_OFFER_PETITION''
       STATUS_LOGGEDIN PROCESS_THREADSAFE ''HandleOfferPetitionOpcode'',
     DEFINE_HANDLER 0x1C4 ''CMSG_TURN_IN_PETITION''
       STATUS_LOGGEDIN PROCESS_THREADUNSAFE ''HandleTurnInPetitionOpcode'',
     DEFINE_SERVER_OPCODE_HANDLER 0x1C5 ''SMSG_TURN_IN_PETITION_RESULTS'' STATUS_NEVER,
     DEFINE_HANDLER 0x1C6 ''CMSG_PETITION_QUERY''
       STATUS_LOGGEDIN PROCESS_THREADSAFE ''HandlePetitionQueryOpcode'',
     DEFINE_SERVER_OPCODE_HANDLER 0x1C7 ''SMSG_PETITION_QUERY_RESPONSE'' STATUS_NEVER,
     DEFINE_SERVER_OPCODE_HANDLER 0x1C8 ''SMSG_FISH_NOT_HOOKED'' STATUS_NEVER,
     DEFINE_SERVER_OPCODE_HANDLER 0x1C9 ''SMSG_FISH_ESCAPED'' STATUS_NEVER,
     DEFINE_HANDLER 0x1CA ''CMSG_BUG'' STATUS_LOGGEDIN PROCESS_THREADUNSAFE ''HandleBugOpcode'',
     DEFINE_SERVER_OPCODE_HANDLER 0x1CB ''SMSG_NOTIFICATION'' STATUS_NEVER,
     DEFINE_HANDLER 0x1CC ''CMSG_PLAYED_TIME''
       STATUS_LOGGEDIN PROCESS_INPLACE ''HandlePlayedTime'',
     DEFINE_SERVER_OPCODE_HANDLER 0x1CD ''SMSG_PLAYED_TIME'' STATUS_NEVER,
     DEFINE_HANDLER 0x1CE ''CMSG_QUERY_TIME''
       STATUS_LOGGEDIN PROCESS_INPLACE ''HandleQueryTimeOpcode'',
     DEFINE_SERVER_OPCODE_HANDLER 0x1CF ''SMSG_QUERY_TIME_RESPONSE'' STATUS_NEVER,
     DEFINE_SERVER_OPCODE_HANDLER 0x1D0 ''SMSG_LOG_XPGAIN'' STATUS_NEVER,
     DEFINE_SERVER_OPCODE_HANDLER 0x1D1 ''SMSG_AURACASTLOG'' STATUS_NEVER,
     DEFINE_HANDLER 0x1D2 ''CMSG_RECLAIM_CORPSE''
       STATUS_LOGGEDIN PROCESS_THREADSAFE ''HandleReclaimCorpseOpcode'',
     DEFINE_HANDLER 0x1D3 ''CMSG_WRAP_ITEM''
       STATUS_LOGGEDIN PROCESS_THREADSAFE ''HandleWrapItemOpcode'',
     DEFINE_SERVER_OPCODE_HANDLER 0x1D4 ''SMSG_LEVELUP_INFO'' STATUS_NEVER,
     DEFINE_HANDLER 0x1D5 ''MSG_MINIMAP_PING''
       STATUS_LOGGEDIN PROCESS_THREADUNSAFE ''HandleMinimapPingOpcode'',
     DEFINE_SERVER_OPCODE_HANDLER 0x1D6 ''SMSG_RESISTLOG'' STATUS_NEVER,
     DEFINE_SERVER_OPCODE_HANDLER 0x1D7 ''SMSG_ENCHANTMENTLOG'' STATUS_NEVER,
     DEFINE_HANDLER 0x1D8 ''CMSG_SET_SKILL_CHEAT'' STATUS_NEVER PROCESS_INPLACE ''Handle_NULL'',
     DEFINE_SERVER_OPCODE_HANDLER 0x1D9 ''SMSG_START_MIRROR_TIMER'' STATUS_NEVER,
     DEFINE_SERVER_OPCODE_HANDLER 0x1DA ''SMSG_PAUSE_MIRROR_TIMER'' STATUS_NEVER,
     DEFINE_SERVER_OPCODE_HANDLER 0x1DB ''SMSG_STOP_MIRROR_TIMER'' STATUS_NEVER,
     DEFINE_HANDLER 0x1DC ''CMSG_PING'' STATUS_NEVER PROCESS_INPLACE ''Handle_EarlyProccess'',
     DEFINE_SERVER_OPCODE_HANDLER 0x1DD ''SMSG_PONG'' STATUS_NEVER,
     DEFINE_SERVER_OPCODE_HANDLER 0x1DE ''SMSG_CLEAR_COOLDOWN'' STATUS_NEVER,
     DEFINE_SERVER_OPCODE_HANDLER 0x1DF ''SMSG_GAMEOBJECT_PAGETEXT'' STATUS_NEVER,
     DEFINE_HANDLER 0x1E0 ''CMSG_SET_SHEATHED''
       STATUS_LOGGEDIN PROCESS_THREADSAFE ''HandleSetSheathedOpcode'',
     DEFINE_SERVER_OPCODE_HANDLER 0x1E1 ''SMSG_COOLDOWN_CHEAT'' STATUS_NEVER,
     DEFINE_SERVER_OPCODE_HANDLER 0x1E2 ''SMSG_SPELL_DELAYED'' STATUS_NEVER,
     DEFINE_HANDLER 0x1E3 ''CMSG_QUEST_POI_QUERY''
       STATUS_LOGGEDIN PROCESS_INPLACE ''HandleQuestPOIQuery'',
     DEFINE_SERVER_OPCODE_HANDLER 0x1E4 ''SMSG_QUEST_POI_QUERY_RESPONSE'' STATUS_NEVER,
     DEFINE_HANDLER 0x1E5 ''CMSG_GHOST'' STATUS_NEVER PROCESS_INPLACE ''Handle_NULL'',
     DEFINE_HANDLER 0x1E6 ''CMSG_GM_INVIS'' STATUS_NEVER PROCESS_INPLACE ''Handle_NULL'',
     DEFINE_SERVER_OPCODE_HANDLER 0x1E7 ''SMSG_INVALID_PROMOTION_CODE'' STATUS_NEVER,
     DEFINE_HANDLER 0x1E8 ''MSG_GM_BIND_OTHER'' STATUS_NEVER PROCESS_INPLACE ''Handle_NULL'',
     DEFINE_HANDLER 0x1E9 ''MSG_GM_SUMMON'' STATUS_NEVER PROCESS_INPLACE ''Handle_NULL'',
     DEFINE_SERVER_OPCODE_HANDLER 0x1EA ''SMSG_ITEM_TIME_UPDATE'' STATUS_NEVER,
     DEFINE_SERVER_OPCODE_HANDLER 0x1EB ''SMSG_ITEM_ENCHANT_TIME_UPDATE'' STATUS_NEVER,
     DEFINE_SERVER_OPCODE_HANDLER 0x1EC ''SMSG_AUTH_CHALLENGE'' STATUS_NEVER,
     DEFINE_HANDLER 0x1ED ''CMSG_AUTH_SESSION''
       STATUS_NEVER PROCESS_THREADUNSAFE ''Handle_EarlyProccess'',
     DEFINE_SERVER_OPCODE_HANDLER 0x1EE ''SMSG_AUTH_RESPONSE'' STATUS_NEVER,
     DEFINE_HANDLER 0x1EF ''MSG_GM_SHOWLABEL'' STATUS_NEVER PROCESS_INPLACE ''Handle_NULL'',
     DEFINE_HANDLER 0x1F0 ''CMSG_PET_CAST_SPELL''
       STATUS_LOGGEDIN PROCESS_INPLACE ''HandlePetCastSpellOpcode'',
     DEFINE_HANDLER 0x1F1 ''MSG_SAVE_GUILD_EMBLEM''
       STATUS_LOGGEDIN PROCESS_THREADUNSAFE ''HandleSaveGuildEmblemOpcode'',
     DEFINE_HANDLER 0x1F2 ''MSG_TABARDVENDOR_ACTIVATE''
       STATUS_LOGGEDIN PROCESS_INPLACE ''HandleTabardVendorActivateOpcode'',
     DEFINE_SERVER_OPCODE_HANDLER 0x1F3 ''SMSG_PLAY_SPELL_VISUAL'' STATUS_NEVER,
     DEFINE_HANDLER 0x1F4 ''CMSG_ZONEUPDATE''
       STATUS_LOGGEDIN PROCESS_INPLACE ''HandleZoneUpdateOpcode'',
     DEFINE_SERVER_OPCODE_HANDLER 0x1F5 ''SMSG_PARTYKILLLOG'' STATUS_NEVER,
     DEFINE_SERVER_OPCODE_HANDLER 0x1F6 ''SMSG_COMPRESSED_UPDATE_OBJECT'' STATUS_NEVER,
     DEFINE_SERVER_OPCODE_HANDLER 0x1F7 ''SMSG_PLAY_SPELL_IMPACT'' STATUS_NEVER,
     DEFINE_SERVER_OPCODE_HANDLER 0x1F8 ''SMSG_EXPLORATION_EXPERIENCE'' STATUS_NEVER,
     DEFINE_HANDLER 0x1F9 ''CMSG_GM_SET_SECURITY_GROUP''
       STATUS_NEVER PROCESS_INPLACE ''Handle_NULL'',
     DEFINE_HANDLER 0x1FA ''CMSG_GM_NUKE'' STATUS_NEVER PROCESS_INPLACE ''Handle_NULL'',
     DEFINE_HANDLER 0x1FB ''MSG_RANDOM_ROLL''
       STATUS_LOGGEDIN PROCESS_THREADSAFE ''HandleRandomRollOpcode'',
     DEFINE_SERVER_OPCODE_HANDLER 0x1FC ''SMSG_ENVIRONMENTAL_DAMAGE_LOG'' STATUS_NEVER,
     DEFINE_HANDLER 0x1FD ''CMSG_CHANGEPLAYER_DIFFICULTY''
       STATUS_NEVER PROCESS_INPLACE ''Handle_NULL'',
     DEFINE_SERVER_OPCODE_HANDLER 0x1FE ''SMSG_RWHOIS'' STATUS_NEVER,
     DEFINE_SERVER_OPCODE_HANDLER 0x1FF ''SMSG_LFG_PLAYER_REWARD'' STATUS_NEVER,
     DEFINE_SERVER_OPCODE_HANDLER 0x200 ''SMSG_LFG_TELEPORT_DENIED'' STATUS_NEVER]"

definition Initialize_201_280 :: "manifest_entry list" where
  "Initialize_201_280 =
    [DEFINE_HANDLER 0x201 ''CMSG_UNLEARN_SPELL'' STATUS_NEVER PROCESS_INPLACE ''Handle_NULL'',
     DEFINE_HANDLER 0x202 ''CMSG_UNLEARN_SKILL''
       STATUS_LOGGEDIN PROCESS_INPLACE ''HandleUnlearnSkillOpcode'',
     DEFINE_SERVER_OPCODE_HANDLER 0x203 ''SMSG_REMOVED_SPELL'' STATUS_NEVER,
     DEFINE_HANDLER 0x204 ''CMSG_DECHARGE'' STATUS_NEVER PROCESS_INPLACE ''Handle_NULL'',
     DEFINE_HANDLER 0x205 ''CMSG_GMTICKET_CREATE''
       STATUS_LOGGEDIN PROCESS_THREADUNSAFE ''HandleGMTicketCreateOpcode'',
     DEFINE_SERVER_OPCODE_HANDLER 0x206 ''SMSG_GMTICKET_CREATE'' STATUS_NEVER,
     DEFINE_HANDLER 0x207 ''CMSG_GMTICKET_UPDATETEXT''
       STATUS_LOGGEDIN PROCESS_THREADUNSAFE ''HandleGMTicketUpdateOpcode'',
     DEFINE_SERVER_OPCODE_HANDLER 0x208 ''SMSG_GMTICKET_UPDATETEXT'' STATUS_NEVER,
     DEFINE_SERVER_OPCODE_HANDLER 0x209 ''SMSG_ACCOUNT_DATA_TIMES'' STATUS_NEVER,
     DEFINE_HANDLER 0x20A ''CMSG_REQUEST_ACCOUNT_DATA''
       STATUS_AUTHED PROCESS_THREADUNSAFE ''HandleRequestAccountData'',
     DEFINE_HANDLER 0x20B ''CMSG_UPDATE_ACCOUNT_DATA''
       STATUS_AUTHED PROCESS_THREADUNSAFE ''HandleUpdateAccountData'',
     DEFINE_SERVER_OPCODE_HANDLER 0x20C ''SMSG_UPDATE_ACCOUNT_DATA'' STATUS_NEVER,
     DEFINE_SERVER_OPCODE_HANDLER 0x20D ''SMSG_CLEAR_FAR_SIGHT_IMMEDIATE'' STATUS_NEVER,
     DEFINE_SERVER_OPCODE_HANDLER 0x20E ''SMSG_CHANGEPLAYER_DIFFICULTY_RESULT'' STATUS_NEVER,
     DEFINE_HANDLER 0x20F ''CMSG_GM_TEACH'' STATUS_NEVER PROCESS_INPLACE ''Handle_NULL'',
     DEFINE_HANDLER 0x210 ''CMSG_GM_CREATE_ITEM_TARGET''
       STATUS_NEVER PROCESS_INPLACE ''Handle_NULL'',
     DEFINE_HANDLER 0x211 ''CMSG_GMTICKET_GETTICKET''
       STATUS_LOGGEDIN PROCESS_THREADUNSAFE ''HandleGMTicketGetTicketOpcode'',
     DEFINE_SERVER_OPCODE_HANDLER 0x212 ''SMSG_GMTICKET_GETTICKET'' STATUS_NEVER,
     DEFINE_HANDLER 0x213 ''CMSG_UNLEARN_TALENTS'' STATUS_NEVER PROCESS_INPLACE ''Handle_NULL'',
     DEFINE_SERVER_OPCODE_HANDLER 0x214 ''SMSG_UPDATE_INSTANCE_ENCOUNTER_UNIT'' STATUS_NEVER,
     DEFINE_SERVER_OPCODE_HANDLER 0x215 ''SMSG_GAMEOBJECT_DESPAWN_ANIM'' STATUS_NEVER,
     DEFINE_HANDLER 0x216 ''MSG_CORPSE_QUERY''
       STATUS_LOGGEDIN PROCESS_THREADUNSAFE ''HandleCorpseQueryOpcode'',
     DEFINE_HANDLER 0x217 ''CMSG_GMTICKET_DELETETICKET''
       STATUS_LOGGEDIN PROCESS_THREADUNSAFE ''HandleGMTicketDeleteOpcode'',
     DEFINE_SERVER_OPCODE_HANDLER 0x218 ''SMSG_GMTICKET_DELETETICKET'' STATUS_NEVER,
     DEFINE_SERVER_OPCODE_HANDLER 0x219 ''SMSG_CHAT_WRONG_FACTION'' STATUS_NEVER,
     DEFINE_HANDLER 0x21A ''CMSG_GMTICKET_SYSTEMSTATUS''
       STATUS_LOGGEDIN PROCESS_THREADUNSAFE ''HandleGMTicketSystemStatusOpcode'',
     DEFINE_SERVER_OPCODE_HANDLER 0x21B ''SMSG_GMTICKET_SYSTEMSTATUS'' STATUS_NEVER,
     DEFINE_HANDLER 0x21C ''CMSG_SPIRIT_HEALER_ACTIVATE''
       STATUS_LOGGEDIN PROCESS_THREADUNSAFE ''HandleSpiritHealerActivateOpcode'',
     DEFINE_HANDLER 0x21D ''CMSG_SET_STAT_CHEAT'' STATUS_NEVER PROCESS_INPLACE ''Handle_NULL'',
     DEFINE_SERVER_OPCODE_HANDLER 0x21E ''SMSG_QUEST_FORCE_REMOVE'' STATUS_NEVER,
     DEFINE_HANDLER 0x21F ''CMSG_SKILL_BUY_STEP'' STATUS_NEVER PROCESS_INPLACE ''Handle_NULL'',
     DEFINE_HANDLER 0x220 ''CMSG_SKILL_BUY_RANK'' STATUS_NEVER PROCESS_INPLACE ''Handle_NULL'',
     DEFINE_HANDLER 0x221 ''CMSG_XP_CHEAT'' STATUS_NEVER PROCESS_INPLACE ''Handle_NULL'',
     DEFINE_SERVER_OPCODE_HANDLER 0x222 ''SMSG_SPIRIT_HEALER_CONFIRM'' STATUS_NEVER,
     DEFINE_HANDLER 0x223 ''CMSG_CHARACTER_POINT_CHEAT''
       STATUS_NEVER PROCESS_INPLACE ''Handle_NULL'',
     DEFINE_SERVER_OPCODE_HANDLER 0x224 ''SMSG_GOSSIP_POI'' STATUS_NEVER,
     DEFINE_HANDLER 0x225 ''CMSG_CHAT_IGNORED''
       STATUS_LOGGEDIN PROCESS_THREADUNSAFE ''HandleChatIgnoredOpcode'',
     DEFINE_HANDLER 0x226 ''CMSG_GM_VISION'' STATUS_NEVER PROCESS_INPLACE ''Handle_NULL'',
     DEFINE_HANDLER 0x227 ''CMSG_SERVER_COMMAND'' STATUS_NEVER PROCESS_INPLACE ''Handle_NULL'',
     DEFINE_HANDLER 0x228 ''CMSG_GM_SILENCE'' STATUS_NEVER PROCESS_INPLACE ''Handle_NULL'',
     DEFINE_HANDLER 0x229 ''CMSG_GM_REVEALTO'' STATUS_NEVER PROCESS_INPLACE ''Handle_NULL'',
     DEFINE_HANDLER 0x22A ''CMSG_GM_RESURRECT'' STATUS_NEVER PROCESS_INPLACE ''Handle_NULL'',
     DEFINE_HANDLER 0x22B ''CMSG_GM_SUMMONMOB'' STATUS_NEVER PROCESS_INPLACE ''Handle_NULL'',
     DEFINE_HANDLER 0x22C ''CMSG_GM_MOVECORPSE'' STATUS_NEVER PROCESS_INPLACE ''Handle_NULL'',
     DEFINE_HANDLER 0x22D ''CMSG_GM_FREEZE'' STATUS_NEVER PROCESS_INPLACE ''Handle_NULL'',
     DEFINE_HANDLER 0x22E ''CMSG_GM_UBERINVIS'' STATUS_NEVER PROCESS_INPLACE ''Handle_NULL'',
     DEFINE_HANDLER 0x22F ''CMSG_GM_REQUEST_PLAYER_INFO''
       STATUS_NEVER PROCESS_INPLACE ''Handle_NULL'',
     DEFINE_SERVER_OPCODE_HANDLER 0x230 ''SMSG_GM_PLAYER_INFO'' STATUS_NEVER,
     DEFINE_HANDLER 0x231 ''CMSG_GUILD_RANK''
       STATUS_LOGGEDIN PROCESS_THREADUNSAFE ''HandleGuildRankOpcode'',
     DEFINE_HANDLER 0x232 ''CMSG_GUILD_ADD_RANK''
       STATUS_LOGGEDIN PROCESS_THREADUNSAFE ''HandleGuildAddRankOpcode'',
     DEFINE_HANDLER 0x233 ''CMSG_GUILD_DEL_RANK''
       STATUS_LOGGEDIN PROCESS_THREADUNSAFE ''HandleGuildDelRankOpcode'',
     DEFINE_HANDLER 0x234 ''CMSG_GUILD_SET_PUBLIC_NOTE''
       STATUS_LOGGEDIN PROCESS_THREADUNSAFE ''HandleGuildSetPublicNoteOpcode'',
     DEFINE_HANDLER 0x235 ''CMSG_GUILD_SET_OFFICER_NOTE''
       STATUS_LOGGEDIN PROCESS_THREADUNSAFE ''HandleGuildSetOfficerNoteOpcode'',
     DEFINE_SERVER_OPCODE_HANDLER 0x236 ''SMSG_LOGIN_VERIFY_WORLD'' STATUS_NEVER,
     DEFINE_HANDLER 0x237 ''CMSG_CLEAR_EXPLORATION''
       STATUS_NEVER PROCESS_INPLACE ''Handle_NULL'',
     DEFINE_HANDLER 0x238 ''CMSG_SEND_MAIL''
       STATUS_LOGGEDIN PROCESS_THREADUNSAFE ''HandleSendMail'',
     DEFINE_SERVER_OPCODE_HANDLER 0x239 ''SMSG_SEND_MAIL_RESULT'' STATUS_NEVER,
     DEFINE_HANDLER 0x23A ''CMSG_GET_MAIL_LIST''
       STATUS_LOGGEDIN PROCESS_THREADUNSAFE ''HandleGetMailList'',
     DEFINE_SERVER_OPCODE_HANDLER 0x23B ''SMSG_MAIL_LIST_RESULT'' STATUS_NEVER,
     DEFINE_HANDLER 0x23C ''CMSG_BATTLEFIELD_LIST''
       STATUS_LOGGEDIN PROCESS_THREADUNSAFE ''HandleBattlefieldListOpcode'',
     DEFINE_SERVER_OPCODE_HANDLER 0x23D ''SMSG_BATTLEFIELD_LIST'' STATUS_NEVER,
     DEFINE_HANDLER 0x23E ''CMSG_BATTLEFIELD_JOIN''
       STATUS_NEVER PROCESS_INPLACE ''Handle_NULL'',
     DEFINE_SERVER_OPCODE_HANDLER 0x23F ''SMSG_FORCE_SET_VEHICLE_REC_ID'' STATUS_NEVER,
     DEFINE_HANDLER 0x240 ''CMSG_SET_VEHICLE_REC_ID_ACK''
       STATUS_NEVER PROCESS_INPLACE ''Handle_NULL'',
     DEFINE_HANDLER 0x241 ''CMSG_TAXICLEARNODE'' STATUS_NEVER PROCESS_INPLACE ''Handle_NULL'',
     DEFINE_HANDLER 0x242 ''CMSG_TAXIENABLENODE'' STATUS_NEVER PROCESS_INPLACE ''Handle_NULL'',
     DEFINE_HANDLER 0x243 ''CMSG_ITEM_TEXT_QUERY''
       STATUS_LOGGEDIN PROCESS_INPLACE ''HandleItemTextQuery'',
     DEFINE_SERVER_OPCODE_HANDLER 0x244 ''SMSG_ITEM_TEXT_QUERY_RESPONSE'' STATUS_NEVER,
     DEFINE_HANDLER 0x245 ''CMSG_MAIL_TAKE_MONEY''
       STATUS_LOGGEDIN PROCESS_THREADUNSAFE ''HandleMailTakeMoney'',
     DEFINE_HANDLER 0x246 ''CMSG_MAIL_TAKE_ITEM''
       STATUS_LOGGEDIN PROCESS_THREADUNSAFE ''HandleMailTakeItem'',
     DEFINE_HANDLER 0x247 ''CMSG_MAIL_MARK_AS_READ''
       STATUS_LOGGEDIN PROCESS_THREADUNSAFE ''HandleMailMarkAsRead'',
     DEFINE_HANDLER 0x248 ''CMSG_MAIL_RETURN_TO_SENDER''
       STATUS_LOGGEDIN PROCESS_THREADUNSAFE ''HandleMailReturnToSender'',
     DEFINE_HANDLER 0x249 ''CMSG_MAIL_DELETE''
       STATUS_LOGGEDIN PROCESS_THREADUNSAFE ''HandleMailDelete'',
     DEFINE_HANDLER 0x24A ''CMSG_MAIL_CREATE_TEXT_ITEM''
       STATUS_LOGGEDIN PROCESS_THREADUNSAFE ''HandleMailCreateTextItem'',
     DEFINE_SERVER_OPCODE_HANDLER 0x24B ''SMSG_SPELLLOGMISS'' STATUS_NEVER,
     DEFINE_SERVER_OPCODE_HANDLER 0x24C ''SMSG_SPELLLOGEXECUTE'' STATUS_NEVER,
     DEFINE_SERVER_OPCODE_HANDLER 0x24D ''SMSG_DEBUGAURAPROC'' STATUS_NEVER,
     DEFINE_SERVER_OPCODE_HANDLER 0x24E ''SMSG_PERIODICAURALOG'' STATUS_NEVER,
     DEFINE_SERVER_OPCODE_HANDLER 0x24F ''SMSG_SPELLDAMAGESHIELD'' STATUS_NEVER,
     DEFINE_SERVER_OPCODE_HANDLER 0x250 ''SMSG_SPELLNONMELEEDAMAGELOG'' STATUS_NEVER,
     DEFINE_HANDLER 0x251 ''CMSG_LEARN_TALENT''
       STATUS_LOGGEDIN PROCESS_INPLACE ''HandleLearnTalentOpcode'',
     DEFINE_SERVER_OPCODE_HANDLER 0x252 ''SMSG_RESURRECT_FAILED'' STATUS_NEVER,
     DEFINE_HANDLER 0x253 ''CMSG_TOGGLE_PVP''
       STATUS_LOGGEDIN PROCESS_THREADUNSAFE ''HandleTogglePvP'',
     DEFINE_SERVER_OPCODE_HANDLER 0x254 ''SMSG_ZONE_UNDER_ATTACK'' STATUS_NEVER,
     DEFINE_HANDLER 0x255 ''MSG_AUCTION_HELLO''
       STATUS_LOGGEDIN PROCESS_THREADUNSAFE ''HandleAuctionHelloOpcode'',
     DEFINE_HANDLER 0x256 ''CMSG_AUCTION_SELL_ITEM''
       STATUS_LOGGEDIN PROCESS_THREADUNSAFE ''HandleAuctionSellItem'',
     DEFINE_HANDLER 0x257 ''CMSG_AUCTION_REMOVE_ITEM''
       STATUS_LOGGEDIN PROCESS_THREADUNSAFE ''HandleAuctionRemoveItem'',
     DEFINE_HANDLER 0x258 ''CMSG_AUCTION_LIST_ITEMS''
       STATUS_LOGGEDIN PROCESS_THREADSAFE ''HandleAuctionListItems'',
     DEFINE_HANDLER 0x259 ''CMSG_AUCTION_LIST_OWNER_ITEMS''
       STATUS_LOGGEDIN PROCESS_THREADSAFE ''HandleAuctionListOwnerItems'',
     DEFINE_HANDLER 0x25A ''CMSG_AUCTION_PLACE_BID''
       STATUS_LOGGEDIN PROCESS_THREADUNSAFE ''HandleAuctionPlaceBid'',
     DEFINE_SERVER_OPCODE_HANDLER 0x25B ''SMSG_AUCTION_COMMAND_RESULT'' STATUS_NEVER,
     DEFINE_SERVER_OPCODE_HANDLER 0x25C ''SMSG_AUCTION_LIST_RESULT'' STATUS_NEVER,
     DEFINE_SERVER_OPCODE_HANDLER 0x25D ''SMSG_AUCTION_OWNER_LIST_RESULT'' STATUS_NEVER,
     DEFINE_SERVER_OPCODE_HANDLER 0x25E ''SMSG_AUCTION_BIDDER_NOTIFICATION'' STATUS_NEVER,
     DEFINE_SERVER_OPCODE_HANDLER 0x25F ''SMSG_AUCTION_OWNER_NOTIFICATION'' STATUS_NEVER,
     DEFINE_SERVER_OPCODE_HANDLER 0x260 ''SMSG_PROCRESIST'' STATUS_NEVER,
     DEFINE_SERVER_OPCODE_HANDLER 0x261 ''SMSG_COMBAT_EVENT_FAILED'' STATUS_NEVER,
     DEFINE_SERVER_OPCODE_HANDLER 0x262 ''SMSG_DISPEL_FAILED'' STATUS_NEVER,
     DEFINE_SERVER_OPCODE_HANDLER 0x263 ''SMSG_SPELLORDAMAGE_IMMUNE'' STATUS_NEVER,
     DEFINE_HANDLER 0x264 ''CMSG_AUCTION_LIST_BIDDER_ITEMS''
       STATUS_LOGGEDIN PROCESS_THREADSAFE ''HandleAuctionListBidderItems'',
     DEFINE_SERVER_OPCODE_HANDLER 0x265 ''SMSG_AUCTION_BIDDER_LIST_RESULT'' STATUS_NEVER,
     DEFINE_SERVER_OPCODE_HANDLER 0x266 ''SMSG_SET_FLAT_SPELL_MODIFIER'' STATUS_NEVER,
     DEFINE_SERVER_OPCODE_HANDLER 0x267 ''SMSG_SET_PCT_SPELL_MODIFIER'' STATUS_NEVER,
     DEFINE_HANDLER 0x268 ''CMSG_SET_AMMO''
       STATUS_LOGGEDIN PROCESS_INPLACE ''HandleSetAmmoOpcode'',
     DEFINE_SERVER_OPCODE_HANDLER 0x269 ''SMSG_CORPSE_RECLAIM_DELAY'' STATUS_NEVER,
     DEFINE_HANDLER 0x26A ''CMSG_SET_ACTIVE_MOVER''
       STATUS_LOGGEDIN PROCESS_THREADUNSAFE ''HandleSetActiveMoverOpcode'',
     DEFINE_HANDLER 0x26B ''CMSG_PET_CANCEL_AURA''
       STATUS_LOGGEDIN PROCESS_INPLACE ''HandlePetCancelAuraOpcode'',
     DEFINE_HANDLER 0x26C ''CMSG_PLAYER_AI_CHEAT'' STATUS_NEVER PROCESS_INPLACE ''Handle_NULL'',
     DEFINE_HANDLER 0x26D ''CMSG_CANCEL_AUTO_REPEAT_SPELL''
       STATUS_LOGGEDIN PROCESS_INPLACE ''HandleCancelAutoRepeatSpellOpcode'',
     DEFINE_HANDLER 0x26E ''MSG_GM_ACCOUNT_ONLINE''
       STATUS_NEVER PROCESS_INPLACE ''Handle_NULL'',
     DEFINE_HANDLER 0x26F ''MSG_LIST_STABLED_PETS''
       STATUS_LOGGEDIN PROCESS_THREADUNSAFE ''HandleListStabledPetsOpcode'',
     DEFINE_HANDLER 0x270 ''CMSG_STABLE_PET''
       STATUS_LOGGEDIN PROCESS_THREADUNSAFE ''HandleStablePet'',
     DEFINE_HANDLER 0x271 ''CMSG_UNSTABLE_PET''
       STATUS_LOGGEDIN PROCESS_THREADUNSAFE ''HandleUnstablePet'',
     DEFINE_HANDLER 0x272 ''CMSG_BUY_STABLE_SLOT''
       STATUS_LOGGEDIN PROCESS_THREADUNSAFE ''HandleBuyStableSlot'',
     DEFINE_SERVER_OPCODE_HANDLER 0x273 ''SMSG_STABLE_RESULT'' STATUS_NEVER,
     DEFINE_HANDLER 0x274 ''CMSG_STABLE_REVIVE_PET''
       STATUS_LOGGEDIN PROCESS_THREADUNSAFE ''HandleStableRevivePet'',
     DEFINE_HANDLER 0x275 ''CMSG_STABLE_SWAP_PET''
       STATUS_LOGGEDIN PROCESS_THREADUNSAFE ''HandleStableSwapPet'',
     DEFINE_HANDLER 0x276 ''MSG_QUEST_PUSH_RESULT''
       STATUS_LOGGEDIN PROCESS_THREADUNSAFE ''HandleQuestPushResult'',
     DEFINE_SERVER_OPCODE_HANDLER 0x277 ''SMSG_PLAY_MUSIC'' STATUS_NEVER,
     DEFINE_SERVER_OPCODE_HANDLER 0x278 ''SMSG_PLAY_OBJECT_SOUND'' STATUS_NEVER,
     DEFINE_HANDLER 0x279 ''CMSG_REQUEST_PET_INFO''
       STATUS_LOGGEDIN PROCESS_THREADUNSAFE ''HandleRequestPetInfo'',
     DEFINE_HANDLER 0x27A ''CMSG_FAR_SIGHT''
       STATUS_LOGGEDIN PROCESS_THREADUNSAFE ''HandleFarSightOpcode'',
     DEFINE_SERVER_OPCODE_HANDLER 0x27B ''SMSG_SPELLDISPELLOG'' STATUS_NEVER,
     DEFINE_SERVER_OPCODE_HANDLER 0x27C ''SMSG_DAMAGE_CALC_LOG'' STATUS_NEVER,
     DEFINE_HANDLER 0x27D ''CMSG_ENABLE_DAMAGE_LOG''
       STATUS_NEVER PROCESS_INPLACE ''Handle_NULL'',
     DEFINE_HANDLER 0x27E ''CMSG_GROUP_CHANGE_SUB_GROUP''
       STATUS_LOGGEDIN PROCESS_THREADUNSAFE ''HandleGroupChangeSubGroupOpcode'',
     DEFINE_HANDLER 0x27F ''CMSG_REQUEST_PARTY_MEMBER_STATS''
       STATUS_LOGGEDIN PROCESS_THREADUNSAFE ''HandleRequestPartyMemberStatsOpcode'',
     DEFINE_HANDLER 0x280 ''CMSG_GROUP_SWAP_SUB_GROUP''
       STATUS_LOGGEDIN PROCESS_THREADUNSAFE ''HandleGroupSwapSubGroupOpcode'']"

definition Initialize_281_300 :: "manifest_entry list" where
  "Initialize_281_300 =
    [DEFINE_HANDLER 0x281 ''CMSG_RESET_FACTION_CHEAT''
       STATUS_NEVER PROCESS_INPLACE ''Handle_NULL'',
     DEFINE_HANDLER 0x282 ''CMSG_AUTOSTORE_BANK_ITEM''
       STATUS_LOGGEDIN PROCESS_INPLACE ''HandleAutoStoreBankItemOpcode'',
     DEFINE_HANDLER 0x283 ''CMSG_AUTOBANK_ITEM''
       STATUS_LOGGEDIN PROCESS_INPLACE ''HandleAutoBankItemOpcode'',
     DEFINE_HANDLER 0x284 ''MSG_QUERY_NEXT_MAIL_TIME''
       STATUS_LOGGEDIN PROCESS_THREADUNSAFE ''HandleQueryNextMailTime'',
     DEFINE_SERVER_OPCODE_HANDLER 0x285 ''SMSG_RECEIVED_MAIL'' STATUS_NEVER,
     DEFINE_SERVER_OPCODE_HANDLER 0x286 ''SMSG_RAID_GROUP_ONLY'' STATUS_NEVER,
     DEFINE_HANDLER 0x287 ''CMSG_SET_DURABILITY_CHEAT''
       STATUS_NEVER PROCESS_INPLACE ''Handle_NULL'',
     DEFINE_HANDLER 0x288 ''CMSG_SET_PVP_RANK_CHEAT''
       STATUS_NEVER PROCESS_INPLACE ''Handle_NULL'',
     DEFINE_HANDLER 0x289 ''CMSG_ADD_PVP_MEDAL_CHEAT''
       STATUS_NEVER PROCESS_INPLACE ''Handle_NULL'',
     DEFINE_HANDLER 0x28A ''CMSG_DEL_PVP_MEDAL_CHEAT''
       STATUS_NEVER PROCESS_INPLACE ''Handle_NULL'',
     DEFINE_HANDLER 0x28B ''CMSG_SET_PVP_TITLE'' STATUS_NEVER PROCESS_INPLACE ''Handle_NULL'',
     DEFINE_SERVER_OPCODE_HANDLER 0x28C ''SMSG_PVP_CREDIT'' STATUS_NEVER,
     DEFINE_SERVER_OPCODE_HANDLER 0x28D ''SMSG_AUCTION_REMOVED_NOTIFICATION'' STATUS_NEVER,
     DEFINE_HANDLER 0x28E ''CMSG_GROUP_RAID_CONVERT''
       STATUS_LOGGEDIN PROCESS_THREADUNSAFE ''HandleGroupRaidConvertOpcode'',
     DEFINE_HANDLER 0x28F ''CMSG_GROUP_ASSISTANT_LEADER''
       STATUS_LOGGEDIN PROCESS_THREADUNSAFE ''HandleGroupAssistantLeaderOpcode'',
     DEFINE_HANDLER 0x290 ''CMSG_BUYBACK_ITEM''
       STATUS_LOGGEDIN PROCESS_INPLACE ''HandleBuybackItem'',
     DEFINE_SERVER_OPCODE_HANDLER 0x291 ''SMSG_CHAT_SERVER_MESSAGE'' STATUS_NEVER,
     DEFINE_HANDLER 0x292 ''CMSG_SET_SAVED_INSTANCE_EXTEND''
       STATUS_LOGGEDIN PROCESS_THREADUNSAFE ''HandleSetSavedInstanceExtend'',
     DEFINE_SERVER_OPCODE_HANDLER 0x293 ''SMSG_LFG_OFFER_CONTINUE'' STATUS_NEVER,
     DEFINE_HANDLER 0x294 ''CMSG_TEST_DROP_RATE'' STATUS_NEVER PROCESS_INPLACE ''Handle_NULL'',
     DEFINE_SERVER_OPCODE_HANDLER 0x295 ''SMSG_TEST_DROP_RATE_RESULT'' STATUS_NEVER,
     DEFINE_HANDLER 0x296 ''CMSG_LFG_GET_STATUS''
       STATUS_LOGGEDIN PROCESS_THREADUNSAFE ''HandleLfgGetStatus'',
     DEFINE_SERVER_OPCODE_HANDLER 0x297 ''SMSG_SHOW_MAILBOX'' STATUS_NEVER,
     DEFINE_SERVER_OPCODE_HANDLER 0x298 ''SMSG_RESET_RANGED_COMBAT_TIMER'' STATUS_NEVER,
     DEFINE_SERVER_OPCODE_HANDLER 0x299 ''SMSG_CHAT_NOT_IN_PARTY'' STATUS_NEVER,
     DEFINE_SERVER_OPCODE_HANDLER 0x29A ''CMSG_GMTICKETSYSTEM_TOGGLE'' STATUS_NEVER,
     DEFINE_HANDLER 0x29B ''CMSG_CANCEL_GROWTH_AURA''
       STATUS_LOGGEDIN PROCESS_THREADUNSAFE ''HandleCancelGrowthAuraOpcode'',
     DEFINE_SERVER_OPCODE_HANDLER 0x29C ''SMSG_CANCEL_AUTO_REPEAT'' STATUS_NEVER,
     DEFINE_SERVER_OPCODE_HANDLER 0x29D ''SMSG_STANDSTATE_UPDATE'' STATUS_NEVER,
     DEFINE_SERVER_OPCODE_HANDLER 0x29E ''SMSG_LOOT_ALL_PASSED'' STATUS_NEVER,
     DEFINE_SERVER_OPCODE_HANDLER 0x29F ''SMSG_LOOT_ROLL_WON'' STATUS_NEVER,
     DEFINE_HANDLER 0x2A0 ''CMSG_LOOT_ROLL''
       STATUS_LOGGEDIN PROCESS_THREADUNSAFE ''HandleLootRoll'',
     DEFINE_SERVER_OPCODE_HANDLER 0x2A1 ''SMSG_LOOT_START_ROLL'' STATUS_NEVER,
     DEFINE_SERVER_OPCODE_HANDLER 0x2A2 ''SMSG_LOOT_ROLL'' STATUS_NEVER,
     DEFINE_HANDLER 0x2A3 ''CMSG_LOOT_MASTER_GIVE''
       STATUS_LOGGEDIN PROCESS_THREADSAFE ''HandleLootMasterGiveOpcode'',
     DEFINE_SERVER_OPCODE_HANDLER 0x2A4 ''SMSG_LOOT_MASTER_LIST'' STATUS_NEVER,
     DEFINE_SERVER_OPCODE_HANDLER 0x2A5 ''SMSG_SET_FORCED_REACTIONS'' STATUS_NEVER,
     DEFINE_SERVER_OPCODE_HANDLER 0x2A6 ''SMSG_SPELL_FAILED_OTHER'' STATUS_NEVER,
     DEFINE_SERVER_OPCODE_HANDLER 0x2A7 ''SMSG_GAMEOBJECT_RESET_STATE'' STATUS_NEVER,
     DEFINE_HANDLER 0x2A8 ''CMSG_REPAIR_ITEM''
       STATUS_LOGGEDIN PROCESS_INPLACE ''HandleRepairItemOpcode'',
     DEFINE_SERVER_OPCODE_HANDLER 0x2A9 ''SMSG_CHAT_PLAYER_NOT_FOUND'' STATUS_NEVER,
     DEFINE_HANDLER 0x2AA ''MSG_TALENT_WIPE_CONFIRM''
       STATUS_LOGGEDIN PROCESS_INPLACE ''HandleTalentWipeConfirmOpcode'',
     DEFINE_SERVER_OPCODE_HANDLER 0x2AB ''SMSG_SUMMON_REQUEST'' STATUS_NEVER,
     DEFINE_HANDLER 0x2AC ''CMSG_SUMMON_RESPONSE''
       STATUS_LOGGEDIN PROCESS_THREADUNSAFE ''HandleSummonResponseOpcode'',
     DEFINE_HANDLER 0x2AD ''MSG_DEV_SHOWLABEL'' STATUS_NEVER PROCESS_INPLACE ''Handle_NULL'',
     DEFINE_SERVER_OPCODE_HANDLER 0x2AE ''SMSG_MONSTER_MOVE_TRANSPORT'' STATUS_NEVER,
     DEFINE_SERVER_OPCODE_HANDLER 0x2AF ''SMSG_PET_BROKEN'' STATUS_NEVER,
     DEFINE_HANDLER 0x2B0 ''MSG_MOVE_FEATHER_FALL''
       STATUS_NEVER PROCESS_INPLACE ''Handle_NULL'',
     DEFINE_HANDLER 0x2B1 ''MSG_MOVE_WATER_WALK'' STATUS_NEVER PROCESS_INPLACE ''Handle_NULL'',
     DEFINE_HANDLER 0x2B2 ''CMSG_SERVER_BROADCAST''
       STATUS_NEVER PROCESS_INPLACE ''Handle_NULL'',
     DEFINE_HANDLER 0x2B3 ''CMSG_SELF_RES''
       STATUS_LOGGEDIN PROCESS_THREADSAFE ''HandleSelfResOpcode'',
     DEFINE_SERVER_OPCODE_HANDLER 0x2B4 ''SMSG_FEIGN_DEATH_RESISTED'' STATUS_NEVER,
     DEFINE_HANDLER 0x2B5 ''CMSG_RUN_SCRIPT'' STATUS_NEVER PROCESS_INPLACE ''Handle_NULL'',
     DEFINE_SERVER_OPCODE_HANDLER 0x2B6 ''SMSG_SCRIPT_MESSAGE'' STATUS_NEVER,
     DEFINE_SERVER_OPCODE_HANDLER 0x2B7 ''SMSG_DUEL_COUNTDOWN'' STATUS_NEVER,
     DEFINE_SERVER_OPCODE_HANDLER 0x2B8 ''SMSG_AREA_TRIGGER_MESSAGE'' STATUS_NEVER,
     DEFINE_HANDLER 0x2B9 ''CMSG_SHOWING_HELM''
       STATUS_LOGGEDIN PROCESS_INPLACE ''HandleShowingHelmOpcode'',
     DEFINE_HANDLER 0x2BA ''CMSG_SHOWING_CLOAK''
       STATUS_LOGGEDIN PROCESS_INPLACE ''HandleShowingCloakOpcode'',
     DEFINE_SERVER_OPCODE_HANDLER 0x2BB ''SMSG_LFG_ROLE_CHOSEN'' STATUS_NEVER,
     DEFINE_SERVER_OPCODE_HANDLER 0x2BC ''SMSG_PLAYER_SKINNED'' STATUS_NEVER,
     DEFINE_SERVER_OPCODE_HANDLER 0x2BD ''SMSG_DURABILITY_DAMAGE_DEATH'' STATUS_NEVER,
     DEFINE_HANDLER 0x2BE ''CMSG_SET_EXPLORATION'' STATUS_NEVER PROCESS_INPLACE ''Handle_NULL'',
     DEFINE_HANDLER 0x2BF ''CMSG_SET_ACTIONBAR_TOGGLES''
       STATUS_AUTHED PROCESS_THREADUNSAFE ''HandleSetActionBarToggles'',
     DEFINE_HANDLER 0x2C0 ''UMSG_DELETE_GUILD_CHARTER''
       STATUS_NEVER PROCESS_INPLACE ''Handle_NULL'',
     DEFINE_HANDLER 0x2C1 ''MSG_PETITION_RENAME''
       STATUS_LOGGEDIN PROCESS_THREADSAFE ''HandlePetitionRenameOpcode'',
     DEFINE_SERVER_OPCODE_HANDLER 0x2C2 ''SMSG_INIT_WORLD_STATES'' STATUS_NEVER,
     DEFINE_SERVER_OPCODE_HANDLER 0x2C3 ''SMSG_UPDATE_WORLD_STATE'' STATUS_NEVER,
     DEFINE_HANDLER 0x2C4 ''CMSG_ITEM_NAME_QUERY''
       STATUS_LOGGEDIN PROCESS_INPLACE ''HandleItemNameQueryOpcode'',
     DEFINE_SERVER_OPCODE_HANDLER 0x2C5 ''SMSG_ITEM_NAME_QUERY_RESPONSE'' STATUS_NEVER,
     DEFINE_SERVER_OPCODE_HANDLER 0x2C6 ''SMSG_PET_ACTION_FEEDBACK'' STATUS_NEVER,
     DEFINE_HANDLER 0x2C7 ''CMSG_CHAR_RENAME''
       STATUS_AUTHED PROCESS_THREADUNSAFE ''HandleCharRenameOpcode'',
     DEFINE_SERVER_OPCODE_HANDLER 0x2C8 ''SMSG_CHAR_RENAME'' STATUS_NEVER,
     DEFINE_HANDLER 0x2C9 ''CMSG_MOVE_SPLINE_DONE''
       STATUS_LOGGEDIN PROCESS_THREADSAFE ''HandleMoveSplineDoneOpcode'',
     DEFINE_HANDLER 0x2CA ''CMSG_MOVE_FALL_RESET''
       STATUS_LOGGEDIN PROCESS_THREADSAFE ''HandleMovementOpcodes'',
     DEFINE_SERVER_OPCODE_HANDLER 0x2CB ''SMSG_INSTANCE_SAVE_CREATED'' STATUS_NEVER,
     DEFINE_SERVER_OPCODE_HANDLER 0x2CC ''SMSG_RAID_INSTANCE_INFO'' STATUS_NEVER,
     DEFINE_HANDLER 0x2CD ''CMSG_REQUEST_RAID_INFO''
       STATUS_LOGGEDIN PROCESS_THREADUNSAFE ''HandleRequestRaidInfoOpcode'',
     DEFINE_HANDLER 0x2CE ''CMSG_MOVE_TIME_SKIPPED''
       STATUS_LOGGEDIN PROCESS_THREADSAFE ''HandleMoveTimeSkippedOpcode'',
     DEFINE_HANDLER 0x2CF ''CMSG_MOVE_FEATHER_FALL_ACK''
       STATUS_LOGGEDIN PROCESS_THREADSAFE ''HandleFeatherFallAck'',
     DEFINE_HANDLER 0x2D0 ''CMSG_MOVE_WATER_WALK_ACK''
       STATUS_LOGGEDIN PROCESS_THREADSAFE ''HandleMoveWaterWalkAck'',
     DEFINE_HANDLER 0x2D1 ''CMSG_MOVE_NOT_ACTIVE_MOVER''
       STATUS_LOGGEDIN PROCESS_THREADSAFE ''HandleMoveNotActiveMover'',
     DEFINE_SERVER_OPCODE_HANDLER 0x2D2 ''SMSG_PLAY_SOUND'' STATUS_NEVER,
     DEFINE_HANDLER 0x2D3 ''CMSG_BATTLEFIELD_STATUS''
       STATUS_LOGGEDIN PROCESS_THREADUNSAFE ''HandleBattlefieldStatusOpcode'',
     DEFINE_SERVER_OPCODE_HANDLER 0x2D4 ''SMSG_BATTLEFIELD_STATUS'' STATUS_NEVER,
     DEFINE_HANDLER 0x2D5 ''CMSG_BATTLEFIELD_PORT''
       STATUS_LOGGEDIN PROCESS_THREADUNSAFE ''HandleBattleFieldPortOpcode'',
     DEFINE_HANDLER 0x2D6 ''MSG_INSPECT_HONOR_STATS''
       STATUS_LOGGEDIN PROCESS_INPLACE ''HandleInspectHonorStatsOpcode'',
     DEFINE_HANDLER 0x2D7 ''CMSG_BATTLEMASTER_HELLO''
       STATUS_LOGGEDIN PROCESS_THREADUNSAFE ''HandleBattlemasterHelloOpcode'',
     DEFINE_HANDLER 0x2D8 ''CMSG_MOVE_START_SWIM_CHEAT''
       STATUS_NEVER PROCESS_INPLACE ''Handle_NULL'',
     DEFINE_HANDLER 0x2D9 ''CMSG_MOVE_STOP_SWIM_CHEAT''
       STATUS_NEVER PROCESS_INPLACE ''Handle_NULL'',
     DEFINE_SERVER_OPCODE_HANDLER 0x2DA ''SMSG_FORCE_WALK_SPEED_CHANGE'' STATUS_NEVER,
     DEFINE_HANDLER 0x2DB ''CMSG_FORCE_WALK_SPEED_CHANGE_ACK''
       STATUS_LOGGEDIN PROCESS_THREADSAFE ''HandleForceSpeedChangeAck'',
     DEFINE_SERVER_OPCODE_HANDLER 0x2DC ''SMSG_FORCE_SWIM_BACK_SPEED_CHANGE'' STATUS_NEVER,
     DEFINE_HANDLER 0x2DD ''CMSG_FORCE_SWIM_BACK_SPEED_CHANGE_ACK''
       STATUS_LOGGEDIN PROCESS_THREADSAFE ''HandleForceSpeedChangeAck'',
     DEFINE_SERVER_OPCODE_HANDLER 0x2DE ''SMSG_FORCE_TURN_RATE_CHANGE'' STATUS_NEVER,
     DEFINE_HANDLER 0x2DF ''CMSG_FORCE_TURN_RATE_CHANGE_ACK''
       STATUS_LOGGEDIN PROCESS_THREADSAFE ''HandleForceSpeedChangeAck'',
     DEFINE_HANDLER 0x2E0 ''MSG_PVP_LOG_DATA''
       STATUS_LOGGEDIN PROCESS_THREADUNSAFE ''HandlePVPLogDataOpcode'',
     DEFINE_HANDLER 0x2E1 ''CMSG_LEAVE_BATTLEFIELD''
       STATUS_LOGGEDIN PROCESS_THREADUNSAFE ''HandleBattlefieldLeaveOpcode'',
     DEFINE_HANDLER 0x2E2 ''CMSG_AREA_SPIRIT_HEALER_QUERY''
       STATUS_LOGGEDIN PROCESS_THREADUNSAFE ''HandleAreaSpiritHealerQueryOpcode'',
     DEFINE_HANDLER 0x2E3 ''CMSG_AREA_SPIRIT_HEALER_QUEUE''
       STATUS_LOGGEDIN PROCESS_THREADUNSAFE ''HandleAreaSpiritHealerQueueOpcode'',
     DEFINE_SERVER_OPCODE_HANDLER 0x2E4 ''SMSG_AREA_SPIRIT_HEALER_TIME'' STATUS_NEVER,
     DEFINE_HANDLER 0x2E5 ''CMSG_GM_UNTEACH'' STATUS_NEVER PROCESS_INPLACE ''Handle_NULL'',
     DEFINE_SERVER_OPCODE_HANDLER 0x2E6 ''SMSG_WARDEN_DATA'' STATUS_NEVER,
     DEFINE_HANDLER 0x2E7 ''CMSG_WARDEN_DATA''
       STATUS_AUTHED PROCESS_THREADSAFE ''HandleWardenDataOpcode'',
     DEFINE_SERVER_OPCODE_HANDLER 0x2E8 ''SMSG_GROUP_JOINED_BATTLEGROUND'' STATUS_NEVER,
     DEFINE_HANDLER 0x2E9 ''MSG_BATTLEGROUND_PLAYER_POSITIONS''
       STATUS_LOGGEDIN PROCESS_THREADUNSAFE ''HandleBattlegroundPlayerPositionsOpcode'',
     DEFINE_HANDLER 0x2EA ''CMSG_PET_STOP_ATTACK''
       STATUS_LOGGEDIN PROCESS_INPLACE ''HandlePetStopAttack'',
     DEFINE_SERVER_OPCODE_HANDLER 0x2EB ''SMSG_BINDER_CONFIRM'' STATUS_NEVER,
     DEFINE_SERVER_OPCODE_HANDLER 0x2EC ''SMSG_BATTLEGROUND_PLAYER_JOINED'' STATUS_NEVER,
     DEFINE_SERVER_OPCODE_HANDLER 0x2ED ''SMSG_BATTLEGROUND_PLAYER_LEFT'' STATUS_NEVER,
     DEFINE_HANDLER 0x2EE ''CMSG_BATTLEMASTER_JOIN''
       STATUS_LOGGEDIN PROCESS_THREADUNSAFE ''HandleBattlemasterJoinOpcode'',
     DEFINE_SERVER_OPCODE_HANDLER 0x2EF ''SMSG_ADDON_INFO'' STATUS_NEVER,
     DEFINE_HANDLER 0x2F0 ''CMSG_PET_UNLEARN'' STATUS_NEVER PROCESS_INPLACE ''Handle_NULL'',
     DEFINE_SERVER_OPCODE_HANDLER 0x2F1 ''SMSG_PET_UNLEARN_CONFIRM'' STATUS_NEVER,
     DEFINE_SERVER_OPCODE_HANDLER 0x2F2 ''SMSG_PARTY_MEMBER_STATS_FULL'' STATUS_NEVER,
     DEFINE_HANDLER 0x2F3 ''CMSG_PET_SPELL_AUTOCAST''
       STATUS_LOGGEDIN PROCESS_INPLACE ''HandlePetSpellAutocastOpcode'',
     DEFINE_SERVER_OPCODE_HANDLER 0x2F4 ''SMSG_WEATHER'' STATUS_NEVER,
     DEFINE_SERVER_OPCODE_HANDLER 0x2F5 ''SMSG_PLAY_TIME_WARNING'' STATUS_NEVER,
     DEFINE_SERVER_OPCODE_HANDLER 0x2F6 ''SMSG_MINIGAME_SETUP'' STATUS_NEVER,
     DEFINE_SERVER_OPCODE_HANDLER 0x2F7 ''SMSG_MINIGAME_STATE'' STATUS_NEVER,
     DEFINE_HANDLER 0x2F8 ''CMSG_MINIGAME_MOVE'' STATUS_NEVER PROCESS_INPLACE ''Handle_NULL'',
     DEFINE_SERVER_OPCODE_HANDLER 0x2F9 ''SMSG_MINIGAME_MOVE_FAILED'' STATUS_NEVER,
     DEFINE_SERVER_OPCODE_HANDLER 0x2FA ''SMSG_RAID_INSTANCE_MESSAGE'' STATUS_NEVER,
     DEFINE_SERVER_OPCODE_HANDLER 0x2FB ''SMSG_COMPRESSED_MOVES'' STATUS_NEVER,
     DEFINE_HANDLER 0x2FC ''CMSG_GUILD_INFO_TEXT''
       STATUS_LOGGEDIN PROCESS_THREADUNSAFE ''HandleGuildChangeInfoTextOpcode'',
     DEFINE_SERVER_OPCODE_HANDLER 0x2FD ''SMSG_CHAT_RESTRICTED'' STATUS_NEVER,
     DEFINE_SERVER_OPCODE_HANDLER 0x2FE ''SMSG_SPLINE_SET_RUN_SPEED'' STATUS_NEVER,
     DEFINE_SERVER_OPCODE_HANDLER 0x2FF ''SMSG_SPLINE_SET_RUN_BACK_SPEED'' STATUS_NEVER,
     DEFINE_SERVER_OPCODE_HANDLER 0x300 ''SMSG_SPLINE_SET_SWIM_SPEED'' STATUS_NEVER]"

definition Initialize_301_380 :: "manifest_entry list" where
  "Initialize_301_380 =
    [DEFINE_SERVER_OPCODE_HANDLER 0x301 ''SMSG_SPLINE_SET_WALK_SPEED'' STATUS_NEVER,
     DEFINE_SERVER_OPCODE_HANDLER 0x302 ''SMSG_SPLINE_SET_SWIM_BACK_SPEED'' STATUS_NEVER,
     DEFINE_SERVER_OPCODE_HANDLER 0x303 ''SMSG_SPLINE_SET_TURN_RATE'' STATUS_NEVER,
     DEFINE_SERVER_OPCODE_HANDLER 0x304 ''SMSG_SPLINE_MOVE_UNROOT'' STATUS_NEVER,
     DEFINE_SERVER_OPCODE_HANDLER 0x305 ''SMSG_SPLINE_MOVE_FEATHER_FALL'' STATUS_NEVER,
     DEFINE_SERVER_OPCODE_HANDLER 0x306 ''SMSG_SPLINE_MOVE_NORMAL_FALL'' STATUS_NEVER,
     DEFINE_SERVER_OPCODE_HANDLER 0x307 ''SMSG_SPLINE_MOVE_SET_HOVER'' STATUS_NEVER,
     DEFINE_SERVER_OPCODE_HANDLER 0x308 ''SMSG_SPLINE_MOVE_UNSET_HOVER'' STATUS_NEVER,
     DEFINE_SERVER_OPCODE_HANDLER 0x309 ''SMSG_SPLINE_MOVE_WATER_WALK'' STATUS_NEVER,
     DEFINE_SERVER_OPCODE_HANDLER 0x30A ''SMSG_SPLINE_MOVE_LAND_WALK'' STATUS_NEVER,
     DEFINE_SERVER_OPCODE_HANDLER 0x30B ''SMSG_SPLINE_MOVE_START_SWIM'' STATUS_NEVER,
     DEFINE_SERVER_OPCODE_HANDLER 0x30C ''SMSG_SPLINE_MOVE_STOP_SWIM'' STATUS_NEVER,
     DEFINE_SERVER_OPCODE_HANDLER 0x30D ''SMSG_SPLINE_MOVE_SET_RUN_MODE'' STATUS_NEVER,
     DEFINE_SERVER_OPCODE_HANDLER 0x30E ''SMSG_SPLINE_MOVE_SET_WALK_MODE'' STATUS_NEVER,
     DEFINE_HANDLER 0x30F ''CMSG_GM_NUKE_ACCOUNT'' STATUS_NEVER PROCESS_INPLACE ''Handle_NULL'',
     DEFINE_HANDLER 0x310 ''MSG_GM_DESTROY_CORPSE''
       STATUS_NEVER PROCESS_INPLACE ''Handle_NULL'',
     DEFINE_HANDLER 0x311 ''CMSG_GM_DESTROY_ONLINE_CORPSE''
       STATUS_NEVER PROCESS_INPLACE ''Handle_NULL'',
     DEFINE_HANDLER 0x312 ''CMSG_ACTIVATETAXIEXPRESS''
       STATUS_LOGGEDIN PROCESS_THREADSAFE ''HandleActivateTaxiExpressOpcode'',
     DEFINE_SERVER_OPCODE_HANDLER 0x313 ''SMSG_SET_FACTION_ATWAR'' STATUS_NEVER,
     DEFINE_SERVER_OPCODE_HANDLER 0x314 ''SMSG_GAMETIMEBIAS_SET'' STATUS_NEVER,
     DEFINE_HANDLER 0x315 ''CMSG_DEBUG_ACTIONS_START''
       STATUS_NEVER PROCESS_INPLACE ''Handle_NULL'',
     DEFINE_HANDLER 0x316 ''CMSG_DEBUG_ACTIONS_STOP''
       STATUS_NEVER PROCESS_INPLACE ''Handle_NULL'',
     DEFINE_HANDLER 0x317 ''CMSG_SET_FACTION_INACTIVE''
       STATUS_LOGGEDIN PROCESS_THREADUNSAFE ''HandleSetFactionInactiveOpcode'',
     DEFINE_HANDLER 0x318 ''CMSG_SET_WATCHED_FACTION''
       STATUS_LOGGEDIN PROCESS_THREADUNSAFE ''HandleSetWatchedFactionOpcode'',
     DEFINE_HANDLER 0x319 ''MSG_MOVE_TIME_SKIPPED''
       STATUS_NEVER PROCESS_INPLACE ''Handle_NULL'',
     DEFINE_SERVER_OPCODE_HANDLER 0x31A ''SMSG_SPLINE_MOVE_ROOT'' STATUS_NEVER,
     DEFINE_HANDLER 0x31B ''CMSG_SET_EXPLORATION_ALL''
       STATUS_NEVER PROCESS_INPLACE ''Handle_NULL'',
     DEFINE_SERVER_OPCODE_HANDLER 0x31C ''SMSG_INVALIDATE_PLAYER'' STATUS_NEVER,
     DEFINE_HANDLER 0x31D ''CMSG_RESET_INSTANCES''
       STATUS_LOGGEDIN PROCESS_THREADUNSAFE ''HandleResetInstancesOpcode'',
     DEFINE_SERVER_OPCODE_HANDLER 0x31E ''SMSG_INSTANCE_RESET'' STATUS_NEVER,
     DEFINE_SERVER_OPCODE_HANDLER 0x31F ''SMSG_INSTANCE_RESET_FAILED'' STATUS_NEVER,
     DEFINE_SERVER_OPCODE_HANDLER 0x320 ''SMSG_UPDATE_LAST_INSTANCE'' STATUS_NEVER,
     DEFINE_HANDLER 0x321 ''MSG_RAID_TARGET_UPDATE''
       STATUS_LOGGEDIN PROCESS_THREADUNSAFE ''HandleRaidTargetUpdateOpcode'',
     DEFINE_HANDLER 0x322 ''MSG_RAID_READY_CHECK''
       STATUS_LOGGEDIN PROCESS_THREADUNSAFE ''HandleRaidReadyCheckOpcode'',
     DEFINE_HANDLER 0x323 ''CMSG_LUA_USAGE'' STATUS_NEVER PROCESS_INPLACE ''Handle_NULL'',
     DEFINE_SERVER_OPCODE_HANDLER 0x324 ''SMSG_PET_ACTION_SOUND'' STATUS_NEVER,
     DEFINE_SERVER_OPCODE_HANDLER 0x325 ''SMSG_PET_DISMISS_SOUND'' STATUS_NEVER,
     DEFINE_SERVER_OPCODE_HANDLER 0x326 ''SMSG_GHOSTEE_GONE'' STATUS_NEVER,
     DEFINE_HANDLER 0x327 ''CMSG_GM_UPDATE_TICKET_STATUS''
       STATUS_NEVER PROCESS_INPLACE ''Handle_NULL'',
     DEFINE_SERVER_OPCODE_HANDLER 0x328 ''SMSG_GM_TICKET_STATUS_UPDATE'' STATUS_NEVER,
     DEFINE_HANDLER 0x329 ''MSG_SET_DUNGEON_DIFFICULTY''
       STATUS_LOGGEDIN PROCESS_THREADUNSAFE ''HandleSetDungeonDifficultyOpcode'',
     DEFINE_HANDLER 0x32A ''CMSG_GMSURVEY_SUBMIT''
       STATUS_LOGGEDIN PROCESS_THREADUNSAFE ''HandleGMSurveySubmit'',
     DEFINE_SERVER_OPCODE_HANDLER 0x32B ''SMSG_UPDATE_INSTANCE_OWNERSHIP'' STATUS_NEVER,
     DEFINE_HANDLER 0x32C ''CMSG_IGNORE_KNOCKBACK_CHEAT''
       STATUS_NEVER PROCESS_INPLACE ''Handle_NULL'',
     DEFINE_SERVER_OPCODE_HANDLER 0x32D ''SMSG_CHAT_PLAYER_AMBIGUOUS'' STATUS_NEVER,
     DEFINE_HANDLER 0x32E ''MSG_DELAY_GHOST_TELEPORT''
       STATUS_NEVER PROCESS_INPLACE ''Handle_NULL'',
     DEFINE_SERVER_OPCODE_HANDLER 0x32F ''SMSG_SPELLINSTAKILLLOG'' STATUS_NEVER,
     DEFINE_SERVER_OPCODE_HANDLER 0x330 ''SMSG_SPELL_UPDATE_CHAIN_TARGETS'' STATUS_NEVER,
     DEFINE_HANDLER 0x331 ''CMSG_CHAT_FILTERED'' STATUS_NEVER PROCESS_INPLACE ''Handle_NULL'',
     DEFINE_SERVER_OPCODE_HANDLER 0x332 ''SMSG_EXPECTED_SPAM_RECORDS'' STATUS_NEVER,
     DEFINE_SERVER_OPCODE_HANDLER 0x333 ''SMSG_SPELLSTEALLOG'' STATUS_NEVER,
     DEFINE_HANDLER 0x334 ''CMSG_LOTTERY_QUERY_OBSOLETE''
       STATUS_NEVER PROCESS_INPLACE ''Handle_NULL'',
     DEFINE_SERVER_OPCODE_HANDLER 0x335 ''SMSG_LOTTERY_QUERY_RESULT_OBSOLETE'' STATUS_NEVER,
     DEFINE_HANDLER 0x336 ''CMSG_BUY_LOTTERY_TICKET_OBSOLETE''
       STATUS_NEVER PROCESS_INPLACE ''Handle_NULL'',
     DEFINE_SERVER_OPCODE_HANDLER 0x337 ''SMSG_LOTTERY_RESULT_OBSOLETE'' STATUS_NEVER,
     DEFINE_SERVER_OPCODE_HANDLER 0x338 ''SMSG_CHARACTER_PROFILE'' STATUS_NEVER,
     DEFINE_SERVER_OPCODE_HANDLER 0x339 ''SMSG_CHARACTER_PROFILE_REALM_CONNECTED'' STATUS_NEVER,
     DEFINE_SERVER_OPCODE_HANDLER 0x33A ''SMSG_DEFENSE_MESSAGE'' STATUS_NEVER,
     DEFINE_SERVER_OPCODE_HANDLER 0x33B ''SMSG_INSTANCE_DIFFICULTY'' STATUS_NEVER,
     DEFINE_HANDLER 0x33C ''MSG_GM_RESETINSTANCELIMIT''
       STATUS_NEVER PROCESS_INPLACE ''Handle_NULL'',
     DEFINE_SERVER_OPCODE_HANDLER 0x33D ''SMSG_MOTD'' STATUS_NEVER,
     DEFINE_SERVER_OPCODE_HANDLER 0x33E ''SMSG_MOVE_SET_CAN_TRANSITION_BETWEEN_SWIM_AND_FLY''
       STATUS_NEVER,
     DEFINE_SERVER_OPCODE_HANDLER 0x33F ''SMSG_MOVE_UNSET_CAN_TRANSITION_BETWEEN_SWIM_AND_FLY''
       STATUS_NEVER,
     DEFINE_HANDLER 0x340 ''CMSG_MOVE_SET_CAN_TRANSITION_BETWEEN_SWIM_AND_FLY_ACK''
       STATUS_NEVER PROCESS_INPLACE ''Handle_NULL'',
     DEFINE_HANDLER 0x341 ''MSG_MOVE_START_SWIM_CHEAT''
       STATUS_NEVER PROCESS_INPLACE ''Handle_NULL'',
     DEFINE_HANDLER 0x342 ''MSG_MOVE_STOP_SWIM_CHEAT''
       STATUS_NEVER PROCESS_INPLACE ''Handle_NULL'',
     DEFINE_SERVER_OPCODE_HANDLER 0x343 ''SMSG_MOVE_SET_CAN_FLY'' STATUS_NEVER,
     DEFINE_SERVER_OPCODE_HANDLER 0x344 ''SMSG_MOVE_UNSET_CAN_FLY'' STATUS_NEVER,
     DEFINE_HANDLER 0x345 ''CMSG_MOVE_SET_CAN_FLY_ACK''
       STATUS_LOGGEDIN PROCESS_THREADSAFE ''HandleMoveSetCanFlyAckOpcode'',
     DEFINE_HANDLER 0x346 ''CMSG_MOVE_SET_FLY''
       STATUS_LOGGEDIN PROCESS_THREADSAFE ''HandleMovementOpcodes'',
     DEFINE_HANDLER 0x347 ''CMSG_SOCKET_GEMS''
       STATUS_LOGGEDIN PROCESS_INPLACE ''HandleSocketOpcode'',
     DEFINE_HANDLER 0x348 ''CMSG_ARENA_TEAM_CREATE''
       STATUS_NEVER PROCESS_INPLACE ''Handle_NULL'',
     DEFINE_SERVER_OPCODE_HANDLER 0x349 ''SMSG_ARENA_TEAM_COMMAND_RESULT'' STATUS_NEVER,
     DEFINE_HANDLER 0x34A ''MSG_MOVE_UPDATE_CAN_TRANSITION_BETWEEN_SWIM_AND_FLY''
       STATUS_NEVER PROCESS_INPLACE ''Handle_NULL'',
     DEFINE_HANDLER 0x34B ''CMSG_ARENA_TEAM_QUERY''
       STATUS_LOGGEDIN PROCESS_THREADSAFE ''HandleArenaTeamQueryOpcode'',
     DEFINE_SERVER_OPCODE_HANDLER 0x34C ''SMSG_ARENA_TEAM_QUERY_RESPONSE'' STATUS_NEVER,
     DEFINE_HANDLER 0x34D ''CMSG_ARENA_TEAM_ROSTER''
       STATUS_LOGGEDIN PROCESS_THREADSAFE ''HandleArenaTeamRosterOpcode'',
     DEFINE_SERVER_OPCODE_HANDLER 0x34E ''SMSG_ARENA_TEAM_ROSTER'' STATUS_NEVER,
     DEFINE_HANDLER 0x34F ''CMSG_ARENA_TEAM_INVITE''
       STATUS_LOGGEDIN PROCESS_THREADUNSAFE ''HandleArenaTeamInviteOpcode'',
     DEFINE_SERVER_OPCODE_HANDLER 0x350 ''SMSG_ARENA_TEAM_INVITE'' STATUS_NEVER,
     DEFINE_HANDLER 0x351 ''CMSG_ARENA_TEAM_ACCEPT''
       STATUS_LOGGEDIN PROCESS_THREADUNSAFE ''HandleArenaTeamAcceptOpcode'',
     DEFINE_HANDLER 0x352 ''CMSG_ARENA_TEAM_DECLINE''
       STATUS_LOGGEDIN PROCESS_THREADUNSAFE ''HandleArenaTeamDeclineOpcode'',
     DEFINE_HANDLER 0x353 ''CMSG_ARENA_TEAM_LEAVE''
       STATUS_LOGGEDIN PROCESS_THREADUNSAFE ''HandleArenaTeamLeaveOpcode'',
     DEFINE_HANDLER 0x354 ''CMSG_ARENA_TEAM_REMOVE''
       STATUS_LOGGEDIN PROCESS_THREADUNSAFE ''HandleArenaTeamRemoveOpcode'',
     DEFINE_HANDLER 0x355 ''CMSG_ARENA_TEAM_DISBAND''
       STATUS_LOGGEDIN PROCESS_THREADUNSAFE ''HandleArenaTeamDisbandOpcode'',
     DEFINE_HANDLER 0x356 ''CMSG_ARENA_TEAM_LEADER''
       STATUS_LOGGEDIN PROCESS_THREADUNSAFE ''HandleArenaTeamLeaderOpcode'',
     DEFINE_SERVER_OPCODE_HANDLER 0x357 ''SMSG_ARENA_TEAM_EVENT'' STATUS_NEVER,
     DEFINE_HANDLER 0x358 ''CMSG_BATTLEMASTER_JOIN_ARENA''
       STATUS_LOGGEDIN PROCESS_THREADUNSAFE ''HandleBattlemasterJoinArena'',
     DEFINE_HANDLER 0x359 ''MSG_MOVE_START_ASCEND''
       STATUS_LOGGEDIN PROCESS_THREADSAFE ''HandleMovementOpcodes'',
     DEFINE_HANDLER 0x35A ''MSG_MOVE_STOP_ASCEND''
       STATUS_LOGGEDIN PROCESS_THREADSAFE ''HandleMovementOpcodes'',
     DEFINE_SERVER_OPCODE_HANDLER 0x35B ''SMSG_ARENA_TEAM_STATS'' STATUS_NEVER,
     DEFINE_HANDLER 0x35C ''CMSG_LFG_JOIN''
       STATUS_LOGGEDIN PROCESS_THREADUNSAFE ''HandleLfgJoinOpcode'',
     DEFINE_HANDLER 0x35D ''CMSG_LFG_LEAVE''
       STATUS_LOGGEDIN PROCESS_THREADUNSAFE ''HandleLfgLeaveOpcode'',
     DEFINE_HANDLER 0x35E ''CMSG_SEARCH_LFG_JOIN''
       STATUS_LOGGEDIN PROCESS_THREADUNSAFE ''HandleLfrSearchJoinOpcode'',
     DEFINE_HANDLER 0x35F ''CMSG_SEARCH_LFG_LEAVE''
       STATUS_LOGGEDIN PROCESS_THREADUNSAFE ''HandleLfrSearchLeaveOpcode'',
     DEFINE_SERVER_OPCODE_HANDLER 0x360 ''SMSG_UPDATE_LFG_LIST'' STATUS_NEVER,
     DEFINE_SERVER_OPCODE_HANDLER 0x361 ''SMSG_LFG_PROPOSAL_UPDATE'' STATUS_NEVER,
     DEFINE_HANDLER 0x362 ''CMSG_LFG_PROPOSAL_RESULT''
       STATUS_LOGGEDIN PROCESS_THREADUNSAFE ''HandleLfgProposalResultOpcode'',
     DEFINE_SERVER_OPCODE_HANDLER 0x363 ''SMSG_LFG_ROLE_CHECK_UPDATE'' STATUS_NEVER,
     DEFINE_SERVER_OPCODE_HANDLER 0x364 ''SMSG_LFG_JOIN_RESULT'' STATUS_NEVER,
     DEFINE_SERVER_OPCODE_HANDLER 0x365 ''SMSG_LFG_QUEUE_STATUS'' STATUS_NEVER,
     DEFINE_HANDLER 0x366 ''CMSG_SET_LFG_COMMENT''
       STATUS_LOGGEDIN PROCESS_THREADUNSAFE ''HandleLfgSetCommentOpcode'',
     DEFINE_SERVER_OPCODE_HANDLER 0x367 ''SMSG_LFG_UPDATE_PLAYER'' STATUS_NEVER,
     DEFINE_SERVER_OPCODE_HANDLER 0x368 ''SMSG_LFG_UPDATE_PARTY'' STATUS_NEVER,
     DEFINE_SERVER_OPCODE_HANDLER 0x369 ''SMSG_LFG_UPDATE_SEARCH'' STATUS_NEVER,
     DEFINE_HANDLER 0x36A ''CMSG_LFG_SET_ROLES''
       STATUS_LOGGEDIN PROCESS_THREADUNSAFE ''HandleLfgSetRolesOpcode'',
     DEFINE_HANDLER 0x36B ''CMSG_LFG_SET_NEEDS'' STATUS_NEVER PROCESS_INPLACE ''Handle_NULL'',
     DEFINE_HANDLER 0x36C ''CMSG_LFG_SET_BOOT_VOTE''
       STATUS_LOGGEDIN PROCESS_THREADUNSAFE ''HandleLfgSetBootVoteOpcode'',
     DEFINE_SERVER_OPCODE_HANDLER 0x36D ''SMSG_LFG_BOOT_PROPOSAL_UPDATE'' STATUS_NEVER,
     DEFINE_HANDLER 0x36E ''CMSG_LFD_PLAYER_LOCK_INFO_REQUEST''
       STATUS_LOGGEDIN PROCESS_THREADUNSAFE ''HandleLfgPlayerLockInfoRequestOpcode'',
     DEFINE_SERVER_OPCODE_HANDLER 0x36F ''SMSG_LFG_PLAYER_INFO'' STATUS_NEVER,
     DEFINE_HANDLER 0x370 ''CMSG_LFG_TELEPORT''
       STATUS_LOGGEDIN PROCESS_THREADUNSAFE ''HandleLfgTeleportOpcode'',
     DEFINE_HANDLER 0x371 ''CMSG_LFD_PARTY_LOCK_INFO_REQUEST''
       STATUS_LOGGEDIN PROCESS_THREADUNSAFE ''HandleLfgPartyLockInfoRequestOpcode'',
     DEFINE_SERVER_OPCODE_HANDLER 0x372 ''SMSG_LFG_PARTY_INFO'' STATUS_NEVER,
     DEFINE_SERVER_OPCODE_HANDLER 0x373 ''SMSG_TITLE_EARNED'' STATUS_NEVER,
     DEFINE_HANDLER 0x374 ''CMSG_SET_TITLE''
       STATUS_LOGGEDIN PROCESS_INPLACE ''HandleSetTitleOpcode'',
     DEFINE_HANDLER 0x375 ''CMSG_CANCEL_MOUNT_AURA''
       STATUS_LOGGEDIN PROCESS_INPLACE ''HandleCancelMountAuraOpcode'',
     DEFINE_SERVER_OPCODE_HANDLER 0x376 ''SMSG_ARENA_ERROR'' STATUS_NEVER,
     DEFINE_HANDLER 0x377 ''MSG_INSPECT_ARENA_TEAMS''
       STATUS_LOGGEDIN PROCESS_INPLACE ''HandleInspectArenaTeamsOpcode'',
     DEFINE_SERVER_OPCODE_HANDLER 0x378 ''SMSG_DEATH_RELEASE_LOC'' STATUS_NEVER,
     DEFINE_HANDLER 0x379 ''CMSG_CANCEL_TEMP_ENCHANTMENT''
       STATUS_LOGGEDIN PROCESS_INPLACE ''HandleCancelTempEnchantmentOpcode'',
     DEFINE_SERVER_OPCODE_HANDLER 0x37A ''SMSG_FORCED_DEATH_UPDATE'' STATUS_NEVER,
     DEFINE_HANDLER 0x37B ''CMSG_CHEAT_SET_HONOR_CURRENCY''
       STATUS_NEVER PROCESS_INPLACE ''Handle_NULL'',
     DEFINE_HANDLER 0x37C ''CMSG_CHEAT_SET_ARENA_CURRENCY''
       STATUS_NEVER PROCESS_INPLACE ''Handle_NULL'',
     DEFINE_HANDLER 0x37D ''MSG_MOVE_SET_FLIGHT_SPEED_CHEAT''
       STATUS_NEVER PROCESS_INPLACE ''Handle_NULL'',
     DEFINE_HANDLER 0x37E ''MSG_MOVE_SET_FLIGHT_SPEED''
       STATUS_NEVER PROCESS_INPLACE ''Handle_NULL'',
     DEFINE_HANDLER 0x37F ''MSG_MOVE_SET_FLIGHT_BACK_SPEED_CHEAT''
       STATUS_NEVER PROCESS_INPLACE ''Handle_NULL'',
     DEFINE_HANDLER 0x380 ''MSG_MOVE_SET_FLIGHT_BACK_SPEED''
       STATUS_NEVER PROCESS_INPLACE ''Handle_NULL'']"

definition Initialize_381_400 :: "manifest_entry list" where
  "Initialize_381_400 =
    [DEFINE_SERVER_OPCODE_HANDLER 0x381 ''SMSG_FORCE_FLIGHT_SPEED_CHANGE'' STATUS_NEVER,
     DEFINE_HANDLER 0x382 ''CMSG_FORCE_FLIGHT_SPEED_CHANGE_ACK''
       STATUS_LOGGEDIN PROCESS_THREADSAFE ''HandleForceSpeedChangeAck'',
     DEFINE_SERVER_OPCODE_HANDLER 0x383 ''SMSG_FORCE_FLIGHT_BACK_SPEED_CHANGE'' STATUS_NEVER,
     DEFINE_HANDLER 0x384 ''CMSG_FORCE_FLIGHT_BACK_SPEED_CHANGE_ACK''
       STATUS_LOGGEDIN PROCESS_THREADSAFE ''HandleForceSpeedChangeAck'',
     DEFINE_SERVER_OPCODE_HANDLER 0x385 ''SMSG_SPLINE_SET_FLIGHT_SPEED'' STATUS_NEVER,
     DEFINE_SERVER_OPCODE_HANDLER 0x386 ''SMSG_SPLINE_SET_FLIGHT_BACK_SPEED'' STATUS_NEVER,
     DEFINE_HANDLER 0x387 ''CMSG_MAELSTROM_INVALIDATE_CACHE''
       STATUS_NEVER PROCESS_INPLACE ''Handle_NULL'',
     DEFINE_SERVER_OPCODE_HANDLER 0x388 ''SMSG_FLIGHT_SPLINE_SYNC'' STATUS_NEVER,
     DEFINE_HANDLER 0x389 ''CMSG_SET_TAXI_BENCHMARK_MODE''
       STATUS_LOGGEDIN PROCESS_THREADUNSAFE ''HandleSetTaxiBenchmarkOpcode'',
     DEFINE_SERVER_OPCODE_HANDLER 0x38A ''SMSG_JOINED_BATTLEGROUND_QUEUE'' STATUS_NEVER,
     DEFINE_SERVER_OPCODE_HANDLER 0x38B ''SMSG_REALM_SPLIT'' STATUS_NEVER,
     DEFINE_HANDLER 0x38C ''CMSG_REALM_SPLIT''
       STATUS_AUTHED PROCESS_THREADUNSAFE ''HandleRealmSplitOpcode'',
     DEFINE_HANDLER 0x38D ''CMSG_MOVE_CHNG_TRANSPORT''
       STATUS_LOGGEDIN PROCESS_THREADSAFE ''HandleMovementOpcodes'',
     DEFINE_HANDLER 0x38E ''MSG_PARTY_ASSIGNMENT''
       STATUS_LOGGEDIN PROCESS_THREADUNSAFE ''HandlePartyAssignmentOpcode'',
     DEFINE_SERVER_OPCODE_HANDLER 0x38F ''SMSG_OFFER_PETITION_ERROR'' STATUS_NEVER,
     DEFINE_SERVER_OPCODE_HANDLER 0x390 ''SMSG_TIME_SYNC_REQ'' STATUS_NEVER,
     DEFINE_HANDLER 0x391 ''CMSG_TIME_SYNC_RESP''
       STATUS_LOGGEDIN PROCESS_THREADSAFE ''HandleTimeSyncResp'',
     DEFINE_HANDLER 0x392 ''CMSG_SEND_LOCAL_EVENT''
       STATUS_NEVER PROCESS_INPLACE ''Handle_NULL'',
     DEFINE_HANDLER 0x393 ''CMSG_SEND_GENERAL_TRIGGER''
       STATUS_NEVER PROCESS_INPLACE ''Handle_NULL'',
     DEFINE_HANDLER 0x394 ''CMSG_SEND_COMBAT_TRIGGER''
       STATUS_NEVER PROCESS_INPLACE ''Handle_NULL'',
     DEFINE_HANDLER 0x395 ''CMSG_MAELSTROM_GM_SENT_MAIL''
       STATUS_NEVER PROCESS_INPLACE ''Handle_NULL'',
     DEFINE_SERVER_OPCODE_HANDLER 0x396 ''SMSG_RESET_FAILED_NOTIFY'' STATUS_NEVER,
     DEFINE_SERVER_OPCODE_HANDLER 0x397 ''SMSG_REAL_GROUP_UPDATE'' STATUS_NEVER,
     DEFINE_SERVER_OPCODE_HANDLER 0x398 ''SMSG_LFG_DISABLED'' STATUS_NEVER,
     DEFINE_HANDLER 0x399 ''CMSG_ACTIVE_PVP_CHEAT''
       STATUS_NEVER PROCESS_INPLACE ''Handle_NULL'',
     DEFINE_HANDLER 0x39A ''CMSG_CHEAT_DUMP_ITEMS_DEBUG_ONLY''
       STATUS_NEVER PROCESS_INPLACE ''Handle_NULL'',
     DEFINE_SERVER_OPCODE_HANDLER 0x39B ''SMSG_CHEAT_DUMP_ITEMS_DEBUG_ONLY_RESPONSE''
       STATUS_NEVER,
     DEFINE_SERVER_OPCODE_HANDLER 0x39C ''SMSG_CHEAT_DUMP_ITEMS_DEBUG_ONLY_RESPONSE_WRITE_FILE''
       STATUS_NEVER,
     DEFINE_SERVER_OPCODE_HANDLER 0x39D ''SMSG_UPDATE_COMBO_POINTS'' STATUS_NEVER,
     DEFINE_SERVER_OPCODE_HANDLER 0x39E ''SMSG_VOICE_SESSION_ROSTER_UPDATE'' STATUS_NEVER,
     DEFINE_SERVER_OPCODE_HANDLER 0x39F ''SMSG_VOICE_SESSION_LEAVE'' STATUS_NEVER,
     DEFINE_SERVER_OPCODE_HANDLER 0x3A0 ''SMSG_VOICE_SESSION_ADJUST_PRIORITY'' STATUS_NEVER,
     DEFINE_HANDLER 0x3A1 ''CMSG_VOICE_SET_TALKER_MUTED_REQUEST''
       STATUS_NEVER PROCESS_INPLACE ''Handle_NULL'',
     DEFINE_SERVER_OPCODE_HANDLER 0x3A2 ''SMSG_VOICE_SET_TALKER_MUTED'' STATUS_NEVER,
     DEFINE_SERVER_OPCODE_HANDLER 0x3A3 ''SMSG_INIT_EXTRA_AURA_INFO_OBSOLETE'' STATUS_NEVER,
     DEFINE_SERVER_OPCODE_HANDLER 0x3A4 ''SMSG_SET_EXTRA_AURA_INFO_OBSOLETE'' STATUS_NEVER,
     DEFINE_SERVER_OPCODE_HANDLER 0x3A5 ''SMSG_SET_EXTRA_AURA_INFO_NEED_UPDATE_OBSOLETE''
       STATUS_NEVER,
     DEFINE_SERVER_OPCODE_HANDLER 0x3A6 ''SMSG_CLEAR_EXTRA_AURA_INFO_OBSOLETE'' STATUS_NEVER,
     DEFINE_HANDLER 0x3A7 ''MSG_MOVE_START_DESCEND''
       STATUS_LOGGEDIN PROCESS_THREADSAFE ''HandleMovementOpcodes'',
     DEFINE_HANDLER 0x3A8 ''CMSG_IGNORE_REQUIREMENTS_CHEAT''
       STATUS_NEVER PROCESS_INPLACE ''Handle_NULL'',
     DEFINE_SERVER_OPCODE_HANDLER 0x3A9 ''SMSG_IGNORE_REQUIREMENTS_CHEAT'' STATUS_NEVER,
     DEFINE_SERVER_OPCODE_HANDLER 0x3AA ''SMSG_SPELL_CHANCE_PROC_LOG'' STATUS_NEVER,
     DEFINE_HANDLER 0x3AB ''CMSG_MOVE_SET_RUN_SPEED''
       STATUS_NEVER PROCESS_INPLACE ''Handle_NULL'',
     DEFINE_SERVER_OPCODE_HANDLER 0x3AC ''SMSG_DISMOUNT'' STATUS_NEVER,
     DEFINE_HANDLER 0x3AD ''MSG_MOVE_UPDATE_CAN_FLY''
       STATUS_NEVER PROCESS_INPLACE ''Handle_NULL'',
     DEFINE_HANDLER 0x3AE ''MSG_RAID_READY_CHECK_CONFIRM''
       STATUS_NEVER PROCESS_INPLACE ''Handle_NULL'',
     DEFINE_HANDLER 0x3AF ''CMSG_VOICE_SESSION_ENABLE''
       STATUS_AUTHED PROCESS_THREADUNSAFE ''HandleVoiceSessionEnableOpcode'',
     DEFINE_SERVER_OPCODE_HANDLER 0x3B0 ''SMSG_VOICE_SESSION_ENABLE'' STATUS_NEVER,
     DEFINE_SERVER_OPCODE_HANDLER 0x3B1 ''SMSG_VOICE_PARENTAL_CONTROLS'' STATUS_NEVER,
     DEFINE_HANDLER 0x3B2 ''CMSG_GM_WHISPER'' STATUS_NEVER PROCESS_INPLACE ''Handle_NULL'',
     DEFINE_SERVER_OPCODE_HANDLER 0x3B3 ''SMSG_GM_MESSAGECHAT'' STATUS_NEVER,
     DEFINE_HANDLER 0x3B4 ''MSG_GM_GEARRATING'' STATUS_NEVER PROCESS_INPLACE ''Handle_NULL'',
     DEFINE_HANDLER 0x3B5 ''CMSG_COMMENTATOR_ENABLE''
       STATUS_NEVER PROCESS_INPLACE ''Handle_NULL'',
     DEFINE_SERVER_OPCODE_HANDLER 0x3B6 ''SMSG_COMMENTATOR_STATE_CHANGED'' STATUS_NEVER,
     DEFINE_HANDLER 0x3B7 ''CMSG_COMMENTATOR_GET_MAP_INFO''
       STATUS_NEVER PROCESS_INPLACE ''Handle_NULL'',
     DEFINE_SERVER_OPCODE_HANDLER 0x3B8 ''SMSG_COMMENTATOR_MAP_INFO'' STATUS_NEVER,
     DEFINE_HANDLER 0x3B9 ''CMSG_COMMENTATOR_GET_PLAYER_INFO''
       STATUS_NEVER PROCESS_INPLACE ''Handle_NULL'',
     DEFINE_SERVER_OPCODE_HANDLER 0x3BA ''SMSG_COMMENTATOR_GET_PLAYER_INFO'' STATUS_NEVER,
     DEFINE_SERVER_OPCODE_HANDLER 0x3BB ''SMSG_COMMENTATOR_PLAYER_INFO'' STATUS_NEVER,
     DEFINE_HANDLER 0x3BC ''CMSG_COMMENTATOR_ENTER_INSTANCE''
       STATUS_NEVER PROCESS_INPLACE ''Handle_NULL'',
     DEFINE_HANDLER 0x3BD ''CMSG_COMMENTATOR_EXIT_INSTANCE''
       STATUS_NEVER PROCESS_INPLACE ''Handle_NULL'',
     DEFINE_HANDLER 0x3BE ''CMSG_COMMENTATOR_INSTANCE_COMMAND''
       STATUS_NEVER PROCESS_INPLACE ''Handle_NULL'',
     DEFINE_SERVER_OPCODE_HANDLER 0x3BF ''SMSG_CLEAR_TARGET'' STATUS_NEVER,
     DEFINE_HANDLER 0x3C0 ''CMSG_BOT_DETECTED'' STATUS_NEVER PROCESS_INPLACE ''Handle_NULL'',
     DEFINE_SERVER_OPCODE_HANDLER 0x3C1 ''SMSG_CROSSED_INEBRIATION_THRESHOLD'' STATUS_NEVER,
     DEFINE_HANDLER 0x3C2 ''CMSG_CHEAT_PLAYER_LOGIN''
       STATUS_NEVER PROCESS_INPLACE ''Handle_NULL'',
     DEFINE_HANDLER 0x3C3 ''CMSG_CHEAT_PLAYER_LOOKUP''
       STATUS_NEVER PROCESS_INPLACE ''Handle_NULL'',
     DEFINE_SERVER_OPCODE_HANDLER 0x3C4 ''SMSG_CHEAT_PLAYER_LOOKUP'' STATUS_NEVER,
     DEFINE_SERVER_OPCODE_HANDLER 0x3C5 ''SMSG_KICK_REASON'' STATUS_NEVER,
     DEFINE_HANDLER 0x3C6 ''MSG_RAID_READY_CHECK_FINISHED''
       STATUS_LOGGEDIN PROCESS_THREADUNSAFE ''HandleRaidReadyCheckFinishedOpcode'',
     DEFINE_HANDLER 0x3C7 ''CMSG_COMPLAIN''
       STATUS_LOGGEDIN PROCESS_THREADUNSAFE ''HandleComplainOpcode'',
     DEFINE_SERVER_OPCODE_HANDLER 0x3C8 ''SMSG_COMPLAIN_RESULT'' STATUS_NEVER,
     DEFINE_SERVER_OPCODE_HANDLER 0x3C9 ''SMSG_FEATURE_SYSTEM_STATUS'' STATUS_NEVER,
     DEFINE_HANDLER 0x3CA ''CMSG_GM_SHOW_COMPLAINTS''
       STATUS_NEVER PROCESS_INPLACE ''Handle_NULL'',
     DEFINE_HANDLER 0x3CB ''CMSG_GM_UNSQUELCH'' STATUS_NEVER PROCESS_INPLACE ''Handle_NULL'',
     DEFINE_HANDLER 0x3CC ''CMSG_CHANNEL_SILENCE_VOICE''
       STATUS_NEVER PROCESS_INPLACE ''Handle_NULL'',
     DEFINE_HANDLER 0x3CD ''CMSG_CHANNEL_SILENCE_ALL''
       STATUS_NEVER PROCESS_INPLACE ''Handle_NULL'',
     DEFINE_HANDLER 0x3CE ''CMSG_CHANNEL_UNSILENCE_VOICE''
       STATUS_NEVER PROCESS_INPLACE ''Handle_NULL'',
     DEFINE_HANDLER 0x3CF ''CMSG_CHANNEL_UNSILENCE_ALL''
       STATUS_NEVER PROCESS_INPLACE ''Handle_NULL'',
     DEFINE_HANDLER 0x3D0 ''CMSG_TARGET_CAST'' STATUS_NEVER PROCESS_INPLACE ''Handle_NULL'',
     DEFINE_HANDLER 0x3D1 ''CMSG_TARGET_SCRIPT_CAST''
       STATUS_NEVER PROCESS_INPLACE ''Handle_NULL'',
     DEFINE_HANDLER 0x3D2 ''CMSG_CHANNEL_DISPLAY_LIST''
       STATUS_LOGGEDIN PROCESS_THREADSAFE ''HandleChannelDisplayListQuery'',
     DEFINE_HANDLER 0x3D3 ''CMSG_SET_ACTIVE_VOICE_CHANNEL''
       STATUS_AUTHED PROCESS_THREADUNSAFE ''HandleSetActiveVoiceChannel'',
     DEFINE_HANDLER 0x3D4 ''CMSG_GET_CHANNEL_MEMBER_COUNT''
       STATUS_LOGGEDIN PROCESS_THREADSAFE ''HandleGetChannelMemberCount'',
     DEFINE_SERVER_OPCODE_HANDLER 0x3D5 ''SMSG_CHANNEL_MEMBER_COUNT'' STATUS_NEVER,
     DEFINE_HANDLER 0x3D6 ''CMSG_CHANNEL_VOICE_ON''
       STATUS_LOGGEDIN PROCESS_THREADSAFE ''HandleChannelVoiceOnOpcode'',
     DEFINE_HANDLER 0x3D7 ''CMSG_CHANNEL_VOICE_OFF''
       STATUS_NEVER PROCESS_INPLACE ''Handle_NULL'',
     DEFINE_HANDLER 0x3D8 ''CMSG_DEBUG_LIST_TARGETS''
       STATUS_NEVER PROCESS_INPLACE ''Handle_NULL'',
     DEFINE_SERVER_OPCODE_HANDLER 0x3D9 ''SMSG_DEBUG_LIST_TARGETS'' STATUS_NEVER,
     DEFINE_SERVER_OPCODE_HANDLER 0x3DA ''SMSG_AVAILABLE_VOICE_CHANNEL'' STATUS_NEVER,
     DEFINE_HANDLER 0x3DB ''CMSG_ADD_VOICE_IGNORE''
       STATUS_NEVER PROCESS_INPLACE ''Handle_NULL'',
     DEFINE_HANDLER 0x3DC ''CMSG_DEL_VOICE_IGNORE''
       STATUS_NEVER PROCESS_INPLACE ''Handle_NULL'',
     DEFINE_HANDLER 0x3DD ''CMSG_PARTY_SILENCE'' STATUS_NEVER PROCESS_INPLACE ''Handle_NULL'',
     DEFINE_HANDLER 0x3DE ''CMSG_PARTY_UNSILENCE'' STATUS_NEVER PROCESS_INPLACE ''Handle_NULL'',
     DEFINE_HANDLER 0x3DF ''MSG_NOTIFY_PARTY_SQUELCH''
       STATUS_NEVER PROCESS_INPLACE ''Handle_NULL'',
     DEFINE_SERVER_OPCODE_HANDLER 0x3E0 ''SMSG_COMSAT_RECONNECT_TRY'' STATUS_NEVER,
     DEFINE_SERVER_OPCODE_HANDLER 0x3E1 ''SMSG_COMSAT_DISCONNECT'' STATUS_NEVER,
     DEFINE_SERVER_OPCODE_HANDLER 0x3E2 ''SMSG_COMSAT_CONNECT_FAIL'' STATUS_NEVER,
     DEFINE_SERVER_OPCODE_HANDLER 0x3E3 ''SMSG_VOICE_CHAT_STATUS'' STATUS_NEVER,
     DEFINE_HANDLER 0x3E4 ''CMSG_REPORT_PVP_AFK''
       STATUS_LOGGEDIN PROCESS_THREADUNSAFE ''HandleReportPvPAFK'',
     DEFINE_SERVER_OPCODE_HANDLER 0x3E5 ''SMSG_REPORT_PVP_AFK_RESULT'' STATUS_NEVER,
     DEFINE_HANDLER 0x3E6 ''CMSG_GUILD_BANKER_ACTIVATE''
       STATUS_LOGGEDIN PROCESS_THREADUNSAFE ''HandleGuildBankerActivate'',
     DEFINE_HANDLER 0x3E7 ''CMSG_GUILD_BANK_QUERY_TAB''
       STATUS_LOGGEDIN PROCESS_THREADUNSAFE ''HandleGuildBankQueryTab'',
     DEFINE_SERVER_OPCODE_HANDLER 0x3E8 ''SMSG_GUILD_BANK_LIST'' STATUS_NEVER,
     DEFINE_HANDLER 0x3E9 ''CMSG_GUILD_BANK_SWAP_ITEMS''
       STATUS_LOGGEDIN PROCESS_THREADUNSAFE ''HandleGuildBankSwapItems'',
     DEFINE_HANDLER 0x3EA ''CMSG_GUILD_BANK_BUY_TAB''
       STATUS_LOGGEDIN PROCESS_THREADUNSAFE ''HandleGuildBankBuyTab'',
     DEFINE_HANDLER 0x3EB ''CMSG_GUILD_BANK_UPDATE_TAB''
       STATUS_LOGGEDIN PROCESS_THREADUNSAFE ''HandleGuildBankUpdateTab'',
     DEFINE_HANDLER 0x3EC ''CMSG_GUILD_BANK_DEPOSIT_MONEY''
       STATUS_LOGGEDIN PROCESS_THREADUNSAFE ''HandleGuildBankDepositMoney'',
     DEFINE_HANDLER 0x3ED ''CMSG_GUILD_BANK_WITHDRAW_MONEY''
       STATUS_LOGGEDIN PROCESS_THREADUNSAFE ''HandleGuildBankWithdrawMoney'',
     DEFINE_HANDLER 0x3EE ''MSG_GUILD_BANK_LOG_QUERY''
       STATUS_LOGGEDIN PROCESS_THREADUNSAFE ''HandleGuildBankLogQuery'',
     DEFINE_HANDLER 0x3EF ''CMSG_SET_CHANNEL_WATCH''
       STATUS_LOGGEDIN PROCESS_THREADUNSAFE ''HandleSetChannelWatch'',
     DEFINE_SERVER_OPCODE_HANDLER 0x3F0 ''SMSG_USERLIST_ADD'' STATUS_NEVER,
     DEFINE_SERVER_OPCODE_HANDLER 0x3F1 ''SMSG_USERLIST_REMOVE'' STATUS_NEVER,
     DEFINE_SERVER_OPCODE_HANDLER 0x3F2 ''SMSG_USERLIST_UPDATE'' STATUS_NEVER,
     DEFINE_HANDLER 0x3F3 ''CMSG_CLEAR_CHANNEL_WATCH''
       STATUS_LOGGEDIN PROCESS_THREADUNSAFE ''HandleClearChannelWatch'',
     DEFINE_SERVER_OPCODE_HANDLER 0x3F4 ''SMSG_INSPECT_TALENT'' STATUS_NEVER,
     DEFINE_SERVER_OPCODE_HANDLER 0x3F5 ''SMSG_GOGOGO_OBSOLETE'' STATUS_NEVER,
     DEFINE_SERVER_OPCODE_HANDLER 0x3F6 ''SMSG_ECHO_PARTY_SQUELCH'' STATUS_NEVER,
     DEFINE_HANDLER 0x3F7 ''CMSG_SET_TITLE_SUFFIX''
       STATUS_NEVER PROCESS_INPLACE ''Handle_NULL'',
     DEFINE_HANDLER 0x3F8 ''CMSG_SPELLCLICK''
       STATUS_LOGGEDIN PROCESS_INPLACE ''HandleSpellClick'',
     DEFINE_SERVER_OPCODE_HANDLER 0x3F9 ''SMSG_LOOT_LIST'' STATUS_NEVER,
     DEFINE_HANDLER 0x3FA ''CMSG_GM_CHARACTER_RESTORE''
       STATUS_NEVER PROCESS_INPLACE ''Handle_NULL'',
     DEFINE_HANDLER 0x3FB ''CMSG_GM_CHARACTER_SAVE''
       STATUS_NEVER PROCESS_INPLACE ''Handle_NULL'',
     DEFINE_SERVER_OPCODE_HANDLER 0x3FC ''SMSG_VOICESESSION_FULL'' STATUS_NEVER,
     DEFINE_HANDLER 0x3FD ''MSG_GUILD_PERMISSIONS''
       STATUS_LOGGEDIN PROCESS_THREADUNSAFE ''HandleGuildPermissions'',
     DEFINE_HANDLER 0x3FE ''MSG_GUILD_BANK_MONEY_WITHDRAWN''
       STATUS_LOGGEDIN PROCESS_THREADUNSAFE ''HandleGuildBankMoneyWithdrawn'',
     DEFINE_HANDLER 0x3FF ''MSG_GUILD_EVENT_LOG_QUERY''
       STATUS_LOGGEDIN PROCESS_THREADUNSAFE ''HandleGuildEventLogQueryOpcode'',
     DEFINE_HANDLER 0x400 ''CMSG_MAELSTROM_RENAME_GUILD''
       STATUS_NEVER PROCESS_INPLACE ''Handle_NULL'']"

definition Initialize_401_480 :: "manifest_entry list" where
  "Initialize_401_480 =
    [DEFINE_HANDLER 0x401 ''CMSG_GET_MIRRORIMAGE_DATA''
       STATUS_LOGGEDIN PROCESS_THREADUNSAFE ''HandleMirrorImageDataRequest'',
     DEFINE_SERVER_OPCODE_HANDLER 0x402 ''SMSG_MIRRORIMAGE_DATA'' STATUS_NEVER,
     DEFINE_SERVER_OPCODE_HANDLER 0x403 ''SMSG_FORCE_DISPLAY_UPDATE'' STATUS_NEVER,
     DEFINE_SERVER_OPCODE_HANDLER 0x404 ''SMSG_SPELL_CHANCE_RESIST_PUSHBACK'' STATUS_NEVER,
     DEFINE_HANDLER 0x405 ''CMSG_IGNORE_DIMINISHING_RETURNS_CHEAT''
       STATUS_NEVER PROCESS_INPLACE ''Handle_NULL'',
     DEFINE_SERVER_OPCODE_HANDLER 0x406 ''SMSG_IGNORE_DIMINISHING_RETURNS_CHEAT'' STATUS_NEVER,
     DEFINE_HANDLER 0x407 ''CMSG_KEEP_ALIVE''
       STATUS_NEVER PROCESS_THREADUNSAFE ''Handle_EarlyProccess'',
     DEFINE_SERVER_OPCODE_HANDLER 0x408 ''SMSG_RAID_READY_CHECK_ERROR'' STATUS_NEVER,
     DEFINE_HANDLER 0x409 ''CMSG_OPT_OUT_OF_LOOT''
       STATUS_AUTHED PROCESS_THREADUNSAFE ''HandleOptOutOfLootOpcode'',
     DEFINE_HANDLER 0x40A ''MSG_QUERY_GUILD_BANK_TEXT''
       STATUS_LOGGEDIN PROCESS_THREADUNSAFE ''HandleQueryGuildBankTabText'',
     DEFINE_HANDLER 0x40B ''CMSG_SET_GUILD_BANK_TEXT''
       STATUS_LOGGEDIN PROCESS_THREADUNSAFE ''HandleSetGuildBankTabText'',
     DEFINE_HANDLER 0x40C ''CMSG_SET_GRANTABLE_LEVELS''
       STATUS_NEVER PROCESS_INPLACE ''Handle_NULL'',
     DEFINE_HANDLER 0x40D ''CMSG_GRANT_LEVEL''
       STATUS_LOGGEDIN PROCESS_THREADUNSAFE ''HandleGrantLevel'',
     DEFINE_HANDLER 0x40E ''CMSG_REFER_A_FRIEND'' STATUS_NEVER PROCESS_INPLACE ''Handle_NULL'',
     DEFINE_HANDLER 0x40F ''MSG_GM_CHANGE_ARENA_RATING''
       STATUS_NEVER PROCESS_INPLACE ''Handle_NULL'',
     DEFINE_HANDLER 0x410 ''CMSG_DECLINE_CHANNEL_INVITE''
       STATUS_LOGGEDIN PROCESS_INPLACE ''HandleChannelDeclineInvite'',
     DEFINE_SERVER_OPCODE_HANDLER 0x411 ''SMSG_GROUPACTION_THROTTLED'' STATUS_NEVER,
     DEFINE_SERVER_OPCODE_HANDLER 0x412 ''SMSG_OVERRIDE_LIGHT'' STATUS_NEVER,
     DEFINE_SERVER_OPCODE_HANDLER 0x413 ''SMSG_TOTEM_CREATED'' STATUS_NEVER,
     DEFINE_HANDLER 0x414 ''CMSG_TOTEM_DESTROYED''
       STATUS_LOGGEDIN PROCESS_INPLACE ''HandleTotemDestroyed'',
     DEFINE_HANDLER 0x415 ''CMSG_EXPIRE_RAID_INSTANCE''
       STATUS_NEVER PROCESS_INPLACE ''Handle_NULL'',
     DEFINE_HANDLER 0x416 ''CMSG_NO_SPELL_VARIANCE''
       STATUS_NEVER PROCESS_INPLACE ''Handle_NULL'',
     DEFINE_HANDLER 0x417 ''CMSG_QUESTGIVER_STATUS_MULTIPLE_QUERY''
       STATUS_LOGGEDIN PROCESS_THREADUNSAFE ''HandleQuestgiverStatusMultipleQuery'',
     DEFINE_SERVER_OPCODE_HANDLER 0x418 ''SMSG_QUESTGIVER_STATUS_MULTIPLE'' STATUS_NEVER,
     DEFINE_HANDLER 0x419 ''CMSG_SET_PLAYER_DECLINED_NAMES''
       STATUS_AUTHED PROCESS_THREADUNSAFE ''HandleSetPlayerDeclinedNames'',
     DEFINE_SERVER_OPCODE_HANDLER 0x41A ''SMSG_SET_PLAYER_DECLINED_NAMES_RESULT'' STATUS_NEVER,
     DEFINE_HANDLER 0x41B ''CMSG_QUERY_SERVER_BUCK_DATA''
       STATUS_NEVER PROCESS_INPLACE ''Handle_NULL'',
     DEFINE_HANDLER 0x41C ''CMSG_CLEAR_SERVER_BUCK_DATA''
       STATUS_NEVER PROCESS_INPLACE ''Handle_NULL'',
     DEFINE_SERVER_OPCODE_HANDLER 0x41D ''SMSG_SERVER_BUCK_DATA'' STATUS_NEVER,
     DEFINE_SERVER_OPCODE_HANDLER 0x41E ''SMSG_SEND_UNLEARN_SPELLS'' STATUS_NEVER,
     DEFINE_SERVER_OPCODE_HANDLER 0x41F ''SMSG_PROPOSE_LEVEL_GRANT'' STATUS_NEVER,
     DEFINE_HANDLER 0x420 ''CMSG_ACCEPT_LEVEL_GRANT''
       STATUS_LOGGEDIN PROCESS_THREADUNSAFE ''HandleAcceptGrantLevel'',
     DEFINE_SERVER_OPCODE_HANDLER 0x421 ''SMSG_REFER_A_FRIEND_FAILURE'' STATUS_NEVER,
     DEFINE_SERVER_OPCODE_HANDLER 0x422 ''SMSG_SPLINE_MOVE_SET_FLYING'' STATUS_NEVER,
     DEFINE_SERVER_OPCODE_HANDLER 0x423 ''SMSG_SPLINE_MOVE_UNSET_FLYING'' STATUS_NEVER,
     DEFINE_SERVER_OPCODE_HANDLER 0x424 ''SMSG_SUMMON_CANCEL'' STATUS_NEVER,
     DEFINE_HANDLER 0x425 ''CMSG_CHANGE_PERSONAL_ARENA_RATING''
       STATUS_NEVER PROCESS_INPLACE ''Handle_NULL'',
     DEFINE_HANDLER 0x426 ''CMSG_ALTER_APPEARANCE''
       STATUS_LOGGEDIN PROCESS_THREADUNSAFE ''HandleAlterAppearance'',
     DEFINE_SERVER_OPCODE_HANDLER 0x427 ''SMSG_ENABLE_BARBER_SHOP'' STATUS_NEVER,
     DEFINE_SERVER_OPCODE_HANDLER 0x428 ''SMSG_BARBER_SHOP_RESULT'' STATUS_NEVER,
     DEFINE_HANDLER 0x429 ''CMSG_CALENDAR_GET_CALENDAR''
       STATUS_LOGGEDIN PROCESS_THREADUNSAFE ''HandleCalendarGetCalendar'',
     DEFINE_HANDLER 0x42A ''CMSG_CALENDAR_GET_EVENT''
       STATUS_LOGGEDIN PROCESS_THREADUNSAFE ''HandleCalendarGetEvent'',
     DEFINE_HANDLER 0x42B ''CMSG_CALENDAR_GUILD_FILTER''
       STATUS_LOGGEDIN PROCESS_THREADUNSAFE ''HandleCalendarGuildFilter'',
     DEFINE_HANDLER 0x42C ''CMSG_CALENDAR_ARENA_TEAM''
       STATUS_LOGGEDIN PROCESS_THREADUNSAFE ''HandleCalendarArenaTeam'',
     DEFINE_HANDLER 0x42D ''CMSG_CALENDAR_ADD_EVENT''
       STATUS_LOGGEDIN PROCESS_THREADUNSAFE ''HandleCalendarAddEvent'',
     DEFINE_HANDLER 0x42E ''CMSG_CALENDAR_UPDATE_EVENT''
       STATUS_LOGGEDIN PROCESS_THREADUNSAFE ''HandleCalendarUpdateEvent'',
     DEFINE_HANDLER 0x42F ''CMSG_CALENDAR_REMOVE_EVENT''
       STATUS_LOGGEDIN PROCESS_THREADUNSAFE ''HandleCalendarRemoveEvent'',
     DEFINE_HANDLER 0x430 ''CMSG_CALENDAR_COPY_EVENT''
       STATUS_LOGGEDIN PROCESS_THREADUNSAFE ''HandleCalendarCopyEvent'',
     DEFINE_HANDLER 0x431 ''CMSG_CALENDAR_EVENT_INVITE''
       STATUS_LOGGEDIN PROCESS_THREADUNSAFE ''HandleCalendarEventInvite'',
     DEFINE_HANDLER 0x432 ''CMSG_CALENDAR_EVENT_RSVP''
       STATUS_LOGGEDIN PROCESS_THREADUNSAFE ''HandleCalendarEventRsvp'',
     DEFINE_HANDLER 0x433 ''CMSG_CALENDAR_EVENT_REMOVE_INVITE''
       STATUS_LOGGEDIN PROCESS_THREADUNSAFE ''HandleCalendarEventRemoveInvite'',
     DEFINE_HANDLER 0x434 ''CMSG_CALENDAR_EVENT_STATUS''
       STATUS_LOGGEDIN PROCESS_THREADUNSAFE ''HandleCalendarEventStatus'',
     DEFINE_HANDLER 0x435 ''CMSG_CALENDAR_EVENT_MODERATOR_STATUS''
       STATUS_LOGGEDIN PROCESS_THREADUNSAFE ''HandleCalendarEventModeratorStatus'',
     DEFINE_SERVER_OPCODE_HANDLER 0x436 ''SMSG_CALENDAR_SEND_CALENDAR'' STATUS_NEVER,
     DEFINE_SERVER_OPCODE_HANDLER 0x437 ''SMSG_CALENDAR_SEND_EVENT'' STATUS_NEVER,
     DEFINE_SERVER_OPCODE_HANDLER 0x438 ''SMSG_CALENDAR_FILTER_GUILD'' STATUS_NEVER,
     DEFINE_SERVER_OPCODE_HANDLER 0x439 ''SMSG_CALENDAR_ARENA_TEAM'' STATUS_NEVER,
     DEFINE_SERVER_OPCODE_HANDLER 0x43A ''SMSG_CALENDAR_EVENT_INVITE'' STATUS_NEVER,
     DEFINE_SERVER_OPCODE_HANDLER 0x43B ''SMSG_CALENDAR_EVENT_INVITE_REMOVED'' STATUS_NEVER,
     DEFINE_SERVER_OPCODE_HANDLER 0x43C ''SMSG_CALENDAR_EVENT_STATUS'' STATUS_NEVER,
     DEFINE_SERVER_OPCODE_HANDLER 0x43D ''SMSG_CALENDAR_COMMAND_RESULT'' STATUS_NEVER,
     DEFINE_SERVER_OPCODE_HANDLER 0x43E ''SMSG_CALENDAR_RAID_LOCKOUT_ADDED'' STATUS_NEVER,
     DEFINE_SERVER_OPCODE_HANDLER 0x43F ''SMSG_CALENDAR_RAID_LOCKOUT_REMOVED'' STATUS_NEVER,
     DEFINE_SERVER_OPCODE_HANDLER 0x440 ''SMSG_CALENDAR_EVENT_INVITE_ALERT'' STATUS_NEVER,
     DEFINE_SERVER_OPCODE_HANDLER 0x441 ''SMSG_CALENDAR_EVENT_INVITE_REMOVED_ALERT''
       STATUS_NEVER,
     DEFINE_SERVER_OPCODE_HANDLER 0x442 ''SMSG_CALENDAR_EVENT_INVITE_STATUS_ALERT''
       STATUS_NEVER,
     DEFINE_SERVER_OPCODE_HANDLER 0x443 ''SMSG_CALENDAR_EVENT_REMOVED_ALERT'' STATUS_NEVER,
     DEFINE_SERVER_OPCODE_HANDLER 0x444 ''SMSG_CALENDAR_EVENT_UPDATED_ALERT'' STATUS_NEVER,
     DEFINE_SERVER_OPCODE_HANDLER 0x445 ''SMSG_CALENDAR_EVENT_MODERATOR_STATUS_ALERT''
       STATUS_NEVER,
     DEFINE_HANDLER 0x446 ''CMSG_CALENDAR_COMPLAIN''
       STATUS_LOGGEDIN PROCESS_THREADUNSAFE ''HandleCalendarComplain'',
     DEFINE_HANDLER 0x447 ''CMSG_CALENDAR_GET_NUM_PENDING''
       STATUS_LOGGEDIN PROCESS_THREADUNSAFE ''HandleCalendarGetNumPending'',
     DEFINE_SERVER_OPCODE_HANDLER 0x448 ''SMSG_CALENDAR_SEND_NUM_PENDING'' STATUS_NEVER,
     DEFINE_HANDLER 0x449 ''CMSG_SAVE_DANCE'' STATUS_NEVER PROCESS_INPLACE ''Handle_NULL'',
     DEFINE_SERVER_OPCODE_HANDLER 0x44A ''SMSG_NOTIFY_DANCE'' STATUS_NEVER,
     DEFINE_HANDLER 0x44B ''CMSG_PLAY_DANCE'' STATUS_NEVER PROCESS_INPLACE ''Handle_NULL'',
     DEFINE_SERVER_OPCODE_HANDLER 0x44C ''SMSG_PLAY_DANCE'' STATUS_NEVER,
     DEFINE_HANDLER 0x44D ''CMSG_LOAD_DANCES'' STATUS_NEVER PROCESS_INPLACE ''Handle_NULL'',
     DEFINE_HANDLER 0x44E ''CMSG_STOP_DANCE'' STATUS_NEVER PROCESS_INPLACE ''Handle_NULL'',
     DEFINE_SERVER_OPCODE_HANDLER 0x44F ''SMSG_STOP_DANCE'' STATUS_NEVER,
     DEFINE_HANDLER 0x450 ''CMSG_SYNC_DANCE'' STATUS_NEVER PROCESS_INPLACE ''Handle_NULL'',
     DEFINE_HANDLER 0x451 ''CMSG_DANCE_QUERY'' STATUS_NEVER PROCESS_INPLACE ''Handle_NULL'',
     DEFINE_SERVER_OPCODE_HANDLER 0x452 ''SMSG_DANCE_QUERY_RESPONSE'' STATUS_NEVER,
     DEFINE_SERVER_OPCODE_HANDLER 0x453 ''SMSG_INVALIDATE_DANCE'' STATUS_NEVER,
     DEFINE_HANDLER 0x454 ''CMSG_DELETE_DANCE'' STATUS_NEVER PROCESS_INPLACE ''Handle_NULL'',
     DEFINE_SERVER_OPCODE_HANDLER 0x455 ''SMSG_LEARNED_DANCE_MOVES'' STATUS_NEVER,
     DEFINE_HANDLER 0x456 ''CMSG_LEARN_DANCE_MOVE''
       STATUS_NEVER PROCESS_INPLACE ''Handle_NULL'',
     DEFINE_HANDLER 0x457 ''CMSG_UNLEARN_DANCE_MOVE''
       STATUS_NEVER PROCESS_INPLACE ''Handle_NULL'',
     DEFINE_HANDLER 0x458 ''CMSG_SET_RUNE_COUNT'' STATUS_NEVER PROCESS_INPLACE ''Handle_NULL'',
     DEFINE_HANDLER 0x459 ''CMSG_SET_RUNE_COOLDOWN''
       STATUS_NEVER PROCESS_INPLACE ''Handle_NULL'',
     DEFINE_HANDLER 0x45A ''MSG_MOVE_SET_PITCH_RATE_CHEAT''
       STATUS_NEVER PROCESS_INPLACE ''Handle_NULL'',
     DEFINE_HANDLER 0x45B ''MSG_MOVE_SET_PITCH_RATE''
       STATUS_NEVER PROCESS_INPLACE ''Handle_NULL'',
     DEFINE_SERVER_OPCODE_HANDLER 0x45C ''SMSG_FORCE_PITCH_RATE_CHANGE'' STATUS_NEVER,
     DEFINE_HANDLER 0x45D ''CMSG_FORCE_PITCH_RATE_CHANGE_ACK''
       STATUS_NEVER PROCESS_INPLACE ''Handle_NULL'',
     DEFINE_SERVER_OPCODE_HANDLER 0x45E ''SMSG_SPLINE_SET_PITCH_RATE'' STATUS_NEVER,
     DEFINE_HANDLER 0x45F ''CMSG_CALENDAR_EVENT_INVITE_NOTES''
       STATUS_NEVER PROCESS_INPLACE ''Handle_NULL'',
     DEFINE_SERVER_OPCODE_HANDLER 0x460 ''SMSG_CALENDAR_EVENT_INVITE_NOTES'' STATUS_NEVER,
     DEFINE_SERVER_OPCODE_HANDLER 0x461 ''SMSG_CALENDAR_EVENT_INVITE_NOTES_ALERT'' STATUS_NEVER,
     DEFINE_HANDLER 0x462 ''CMSG_UPDATE_MISSILE_TRAJECTORY''
       STATUS_LOGGEDIN PROCESS_THREADUNSAFE ''HandleUpdateMissileTrajectory'',
     DEFINE_SERVER_OPCODE_HANDLER 0x463 ''SMSG_UPDATE_ACCOUNT_DATA_COMPLETE'' STATUS_NEVER,
     DEFINE_SERVER_OPCODE_HANDLER 0x464 ''SMSG_TRIGGER_MOVIE'' STATUS_NEVER,
     DEFINE_HANDLER 0x465 ''CMSG_COMPLETE_MOVIE'' STATUS_NEVER PROCESS_INPLACE ''Handle_NULL'',
     DEFINE_HANDLER 0x466 ''CMSG_SET_GLYPH_SLOT'' STATUS_NEVER PROCESS_INPLACE ''Handle_NULL'',
     DEFINE_HANDLER 0x467 ''CMSG_SET_GLYPH'' STATUS_NEVER PROCESS_INPLACE ''Handle_NULL'',
     DEFINE_SERVER_OPCODE_HANDLER 0x468 ''SMSG_ACHIEVEMENT_EARNED'' STATUS_NEVER,
     DEFINE_SERVER_OPCODE_HANDLER 0x469 ''SMSG_DYNAMIC_DROP_ROLL_RESULT'' STATUS_NEVER,
     DEFINE_SERVER_OPCODE_HANDLER 0x46A ''SMSG_CRITERIA_UPDATE'' STATUS_NEVER,
     DEFINE_HANDLER 0x46B ''CMSG_QUERY_INSPECT_ACHIEVEMENTS''
       STATUS_LOGGEDIN PROCESS_INPLACE ''HandleQueryInspectAchievements'',
     DEFINE_SERVER_OPCODE_HANDLER 0x46C ''SMSG_RESPOND_INSPECT_ACHIEVEMENTS'' STATUS_NEVER,
     DEFINE_HANDLER 0x46D ''CMSG_DISMISS_CONTROLLED_VEHICLE''
       STATUS_LOGGEDIN PROCESS_INPLACE ''HandleDismissControlledVehicle'',
     DEFINE_HANDLER 0x46E ''CMSG_COMPLETE_ACHIEVEMENT_CHEAT''
       STATUS_NEVER PROCESS_INPLACE ''Handle_NULL'',
     DEFINE_SERVER_OPCODE_HANDLER 0x46F ''SMSG_QUESTUPDATE_ADD_PVP_KILL'' STATUS_NEVER,
     DEFINE_HANDLER 0x470 ''CMSG_SET_CRITERIA_CHEAT''
       STATUS_NEVER PROCESS_INPLACE ''Handle_NULL'',
     DEFINE_SERVER_OPCODE_HANDLER 0x471 ''SMSG_CALENDAR_RAID_LOCKOUT_UPDATED'' STATUS_NEVER,
     DEFINE_HANDLER 0x472 ''CMSG_UNITANIMTIER_CHEAT''
       STATUS_NEVER PROCESS_INPLACE ''Handle_NULL'',
     DEFINE_HANDLER 0x473 ''CMSG_CHAR_CUSTOMIZE''
       STATUS_AUTHED PROCESS_THREADUNSAFE ''HandleCharCustomize'',
     DEFINE_SERVER_OPCODE_HANDLER 0x474 ''SMSG_CHAR_CUSTOMIZE'' STATUS_NEVER,
     DEFINE_SERVER_OPCODE_HANDLER 0x475 ''SMSG_PET_RENAMEABLE'' STATUS_NEVER,
     DEFINE_HANDLER 0x476 ''CMSG_REQUEST_VEHICLE_EXIT''
       STATUS_LOGGEDIN PROCESS_INPLACE ''HandleRequestVehicleExit'',
     DEFINE_HANDLER 0x477 ''CMSG_REQUEST_VEHICLE_PREV_SEAT''
       STATUS_LOGGEDIN PROCESS_INPLACE ''HandleChangeSeatsOnControlledVehicle'',
     DEFINE_HANDLER 0x478 ''CMSG_REQUEST_VEHICLE_NEXT_SEAT''
       STATUS_LOGGEDIN PROCESS_INPLACE ''HandleChangeSeatsOnControlledVehicle'',
     DEFINE_HANDLER 0x479 ''CMSG_REQUEST_VEHICLE_SWITCH_SEAT''
       STATUS_LOGGEDIN PROCESS_INPLACE ''HandleChangeSeatsOnControlledVehicle'',
     DEFINE_HANDLER 0x47A ''CMSG_PET_LEARN_TALENT''
       STATUS_LOGGEDIN PROCESS_INPLACE ''HandlePetLearnTalent'',
     DEFINE_HANDLER 0x47B ''CMSG_PET_UNLEARN_TALENTS''
       STATUS_NEVER PROCESS_INPLACE ''Handle_NULL'',
     DEFINE_SERVER_OPCODE_HANDLER 0x47C ''SMSG_SET_PHASE_SHIFT'' STATUS_NEVER,
     DEFINE_SERVER_OPCODE_HANDLER 0x47D ''SMSG_ALL_ACHIEVEMENT_DATA'' STATUS_NEVER,
     DEFINE_HANDLER 0x47E ''CMSG_FORCE_SAY_CHEAT'' STATUS_NEVER PROCESS_INPLACE ''Handle_NULL'',
     DEFINE_SERVER_OPCODE_HANDLER 0x47F ''SMSG_HEALTH_UPDATE'' STATUS_NEVER,
     DEFINE_SERVER_OPCODE_HANDLER 0x480 ''SMSG_POWER_UPDATE'' STATUS_NEVER]"

definition Initialize_481_500 :: "manifest_entry list" where
  "Initialize_481_500 =
    [DEFINE_HANDLER 0x481 ''CMSG_GAMEOBJ_REPORT_USE''
       STATUS_LOGGEDIN PROCESS_INPLACE ''HandleGameobjectReportUse'',
     DEFINE_SERVER_OPCODE_HANDLER 0x482 ''SMSG_HIGHEST_THREAT_UPDATE'' STATUS_NEVER,
     DEFINE_SERVER_OPCODE_HANDLER 0x483 ''SMSG_THREAT_UPDATE'' STATUS_NEVER,
     DEFINE_SERVER_OPCODE_HANDLER 0x484 ''SMSG_THREAT_REMOVE'' STATUS_NEVER,
     DEFINE_SERVER_OPCODE_HANDLER 0x485 ''SMSG_THREAT_CLEAR'' STATUS_NEVER,
     DEFINE_SERVER_OPCODE_HANDLER 0x486 ''SMSG_CONVERT_RUNE'' STATUS_NEVER,
     DEFINE_SERVER_OPCODE_HANDLER 0x487 ''SMSG_RESYNC_RUNES'' STATUS_NEVER,
     DEFINE_SERVER_OPCODE_HANDLER 0x488 ''SMSG_ADD_RUNE_POWER'' STATUS_NEVER,
     DEFINE_HANDLER 0x489 ''CMSG_START_QUEST'' STATUS_NEVER PROCESS_INPLACE ''Handle_NULL'',
     DEFINE_HANDLER 0x48A ''CMSG_REMOVE_GLYPH''
       STATUS_LOGGEDIN PROCESS_INPLACE ''HandleRemoveGlyph'',
     DEFINE_HANDLER 0x48B ''CMSG_DUMP_OBJECTS'' STATUS_NEVER PROCESS_INPLACE ''Handle_NULL'',
     DEFINE_SERVER_OPCODE_HANDLER 0x48C ''SMSG_DUMP_OBJECTS_DATA'' STATUS_NEVER,
     DEFINE_HANDLER 0x48D ''CMSG_DISMISS_CRITTER''
       STATUS_LOGGEDIN PROCESS_THREADUNSAFE ''HandleDismissCritter'',
     DEFINE_SERVER_OPCODE_HANDLER 0x48E ''SMSG_NOTIFY_DEST_LOC_SPELL_CAST'' STATUS_NEVER,
     DEFINE_HANDLER 0x48F ''CMSG_AUCTION_LIST_PENDING_SALES''
       STATUS_LOGGEDIN PROCESS_THREADUNSAFE ''HandleAuctionListPendingSales'',
     DEFINE_SERVER_OPCODE_HANDLER 0x490 ''SMSG_AUCTION_LIST_PENDING_SALES'' STATUS_NEVER,
     DEFINE_SERVER_OPCODE_HANDLER 0x491 ''SMSG_MODIFY_COOLDOWN'' STATUS_NEVER,
     DEFINE_SERVER_OPCODE_HANDLER 0x492 ''SMSG_PET_UPDATE_COMBO_POINTS'' STATUS_NEVER,
     DEFINE_HANDLER 0x493 ''CMSG_ENABLETAXI''
       STATUS_LOGGEDIN PROCESS_THREADSAFE ''HandleTaxiQueryAvailableNodes'',
     DEFINE_SERVER_OPCODE_HANDLER 0x494 ''SMSG_PRE_RESURRECT'' STATUS_NEVER,
     DEFINE_SERVER_OPCODE_HANDLER 0x495 ''SMSG_AURA_UPDATE_ALL'' STATUS_NEVER,
     DEFINE_SERVER_OPCODE_HANDLER 0x496 ''SMSG_AURA_UPDATE'' STATUS_NEVER,
     DEFINE_HANDLER 0x497 ''CMSG_FLOOD_GRACE_CHEAT''
       STATUS_NEVER PROCESS_INPLACE ''Handle_NULL'',
     DEFINE_SERVER_OPCODE_HANDLER 0x498 ''SMSG_SERVER_FIRST_ACHIEVEMENT'' STATUS_NEVER,
     DEFINE_SERVER_OPCODE_HANDLER 0x499 ''SMSG_PET_LEARNED_SPELL'' STATUS_NEVER,
     DEFINE_SERVER_OPCODE_HANDLER 0x49A ''SMSG_PET_UNLEARNED_SPELL'' STATUS_NEVER,
     DEFINE_HANDLER 0x49B ''CMSG_CHANGE_SEATS_ON_CONTROLLED_VEHICLE''
       STATUS_LOGGEDIN PROCESS_INPLACE ''HandleChangeSeatsOnControlledVehicle'',
     DEFINE_HANDLER 0x49C ''CMSG_HEARTH_AND_RESURRECT''
       STATUS_LOGGEDIN PROCESS_THREADSAFE ''HandleHearthAndResurrect'',
     DEFINE_SERVER_OPCODE_HANDLER 0x49D ''SMSG_ON_CANCEL_EXPECTED_RIDE_VEHICLE_AURA''
       STATUS_NEVER,
     DEFINE_SERVER_OPCODE_HANDLER 0x49E ''SMSG_CRITERIA_DELETED'' STATUS_NEVER,
     DEFINE_SERVER_OPCODE_HANDLER 0x49F ''SMSG_ACHIEVEMENT_DELETED'' STATUS_NEVER,
     DEFINE_HANDLER 0x4A0 ''CMSG_SERVER_INFO_QUERY''
       STATUS_NEVER PROCESS_INPLACE ''Handle_NULL'',
     DEFINE_SERVER_OPCODE_HANDLER 0x4A1 ''SMSG_SERVER_INFO_RESPONSE'' STATUS_NEVER,
     DEFINE_HANDLER 0x4A2 ''CMSG_CHECK_LOGIN_CRITERIA''
       STATUS_NEVER PROCESS_INPLACE ''Handle_NULL'',
     DEFINE_SERVER_OPCODE_HANDLER 0x4A3 ''SMSG_SERVER_BUCK_DATA_START'' STATUS_NEVER,
     DEFINE_HANDLER 0x4A4 ''CMSG_SET_BREATH'' STATUS_NEVER PROCESS_INPLACE ''Handle_NULL'',
     DEFINE_HANDLER 0x4A5 ''CMSG_QUERY_VEHICLE_STATUS''
       STATUS_NEVER PROCESS_INPLACE ''Handle_NULL'',
     DEFINE_SERVER_OPCODE_HANDLER 0x4A6 ''SMSG_BATTLEGROUND_INFO_THROTTLED'' STATUS_NEVER,
     DEFINE_SERVER_OPCODE_HANDLER 0x4A7 ''SMSG_PLAYER_VEHICLE_DATA'' STATUS_NEVER,
     DEFINE_HANDLER 0x4A8 ''CMSG_PLAYER_VEHICLE_ENTER''
       STATUS_LOGGEDIN PROCESS_THREADUNSAFE ''HandleEnterPlayerVehicle'',
     DEFINE_HANDLER 0x4A9 ''CMSG_CONTROLLER_EJECT_PASSENGER''
       STATUS_LOGGEDIN PROCESS_THREADUNSAFE ''HandleEjectPassenger'',
     DEFINE_SERVER_OPCODE_HANDLER 0x4AA ''SMSG_PET_GUIDS'' STATUS_NEVER,
     DEFINE_SERVER_OPCODE_HANDLER 0x4AB ''SMSG_CLIENTCACHE_VERSION'' STATUS_NEVER,
     DEFINE_HANDLER 0x4AC ''CMSG_CHANGE_GDF_ARENA_RATING''
       STATUS_NEVER PROCESS_INPLACE ''Handle_NULL'',
     DEFINE_HANDLER 0x4AD ''CMSG_SET_ARENA_TEAM_RATING_BY_INDEX''
       STATUS_NEVER PROCESS_INPLACE ''Handle_NULL'',
     DEFINE_HANDLER 0x4AE ''CMSG_SET_ARENA_TEAM_WEEKLY_GAMES''
       STATUS_NEVER PROCESS_INPLACE ''Handle_NULL'',
     DEFINE_HANDLER 0x4AF ''CMSG_SET_ARENA_TEAM_SEASON_GAMES''
       STATUS_NEVER PROCESS_INPLACE ''Handle_NULL'',
     DEFINE_HANDLER 0x4B0 ''CMSG_SET_ARENA_MEMBER_WEEKLY_GAMES''
       STATUS_NEVER PROCESS_INPLACE ''Handle_NULL'',
     DEFINE_HANDLER 0x4B1 ''CMSG_SET_ARENA_MEMBER_SEASON_GAMES''
       STATUS_NEVER PROCESS_INPLACE ''Handle_NULL'',
     DEFINE_SERVER_OPCODE_HANDLER 0x4B2 ''SMSG_ITEM_REFUND_INFO_RESPONSE'' STATUS_NEVER,
     DEFINE_HANDLER 0x4B3 ''CMSG_ITEM_REFUND_INFO''
       STATUS_LOGGEDIN PROCESS_INPLACE ''HandleItemRefundInfoRequest'',
     DEFINE_HANDLER 0x4B4 ''CMSG_ITEM_REFUND''
       STATUS_LOGGEDIN PROCESS_INPLACE ''HandleItemRefund'',
     DEFINE_SERVER_OPCODE_HANDLER 0x4B5 ''SMSG_ITEM_REFUND_RESULT'' STATUS_NEVER,
     DEFINE_HANDLER 0x4B6 ''CMSG_CORPSE_MAP_POSITION_QUERY''
       STATUS_LOGGEDIN PROCESS_THREADUNSAFE ''HandleCorpseMapPositionQuery'',
     DEFINE_SERVER_OPCODE_HANDLER 0x4B7 ''SMSG_CORPSE_MAP_POSITION_QUERY_RESPONSE''
       STATUS_NEVER,
     DEFINE_HANDLER 0x4B8 ''CMSG_UNUSED5'' STATUS_LOGGEDIN PROCESS_THREADUNSAFE ''Handle_NULL'',
     DEFINE_HANDLER 0x4B9 ''CMSG_UNUSED6'' STATUS_NEVER PROCESS_INPLACE ''Handle_NULL'',
     DEFINE_HANDLER 0x4BA ''CMSG_CALENDAR_EVENT_SIGNUP''
       STATUS_LOGGEDIN PROCESS_THREADUNSAFE ''HandleCalendarEventSignup'',
     DEFINE_SERVER_OPCODE_HANDLER 0x4BB ''SMSG_CALENDAR_CLEAR_PENDING_ACTION'' STATUS_NEVER,
     DEFINE_SERVER_OPCODE_HANDLER 0x4BC ''SMSG_EQUIPMENT_SET_LIST'' STATUS_NEVER,
     DEFINE_HANDLER 0x4BD ''CMSG_EQUIPMENT_SET_SAVE''
       STATUS_LOGGEDIN PROCESS_THREADUNSAFE ''HandleEquipmentSetSave'',
     DEFINE_HANDLER 0x4BE ''CMSG_UPDATE_PROJECTILE_POSITION''
       STATUS_LOGGEDIN PROCESS_THREADUNSAFE ''HandleUpdateProjectilePosition'',
     DEFINE_SERVER_OPCODE_HANDLER 0x4BF ''SMSG_SET_PROJECTILE_POSITION'' STATUS_NEVER,
     DEFINE_SERVER_OPCODE_HANDLER 0x4C0 ''SMSG_TALENTS_INFO'' STATUS_NEVER,
     DEFINE_HANDLER 0x4C1 ''CMSG_LEARN_PREVIEW_TALENTS''
       STATUS_LOGGEDIN PROCESS_INPLACE ''HandleLearnPreviewTalents'',
     DEFINE_HANDLER 0x4C2 ''CMSG_LEARN_PREVIEW_TALENTS_PET''
       STATUS_LOGGEDIN PROCESS_INPLACE ''HandleLearnPreviewTalentsPet'',
     DEFINE_HANDLER 0x4C3 ''CMSG_SET_ACTIVE_TALENT_GROUP_OBSOLETE''
       STATUS_NEVER PROCESS_INPLACE ''Handle_NULL'',
     DEFINE_HANDLER 0x4C4 ''CMSG_GM_GRANT_ACHIEVEMENT''
       STATUS_NEVER PROCESS_INPLACE ''Handle_NULL'',
     DEFINE_HANDLER 0x4C5 ''CMSG_GM_REMOVE_ACHIEVEMENT''
       STATUS_NEVER PROCESS_INPLACE ''Handle_NULL'',
     DEFINE_HANDLER 0x4C6 ''CMSG_GM_SET_CRITERIA_FOR_PLAYER''
       STATUS_NEVER PROCESS_INPLACE ''Handle_NULL'',
     DEFINE_SERVER_OPCODE_HANDLER 0x4C7 ''SMSG_ARENA_UNIT_DESTROYED'' STATUS_NEVER,
     DEFINE_SERVER_OPCODE_HANDLER 0x4C8 ''SMSG_ARENA_TEAM_CHANGE_FAILED_QUEUED'' STATUS_NEVER,
     DEFINE_HANDLER 0x4C9 ''CMSG_PROFILEDATA_REQUEST''
       STATUS_NEVER PROCESS_INPLACE ''Handle_NULL'',
     DEFINE_SERVER_OPCODE_HANDLER 0x4CA ''SMSG_PROFILEDATA_RESPONSE'' STATUS_NEVER,
     DEFINE_HANDLER 0x4CB ''CMSG_START_BATTLEFIELD_CHEAT''
       STATUS_NEVER PROCESS_INPLACE ''Handle_NULL'',
     DEFINE_HANDLER 0x4CC ''CMSG_END_BATTLEFIELD_CHEAT''
       STATUS_NEVER PROCESS_INPLACE ''Handle_NULL'',
     DEFINE_SERVER_OPCODE_HANDLER 0x4CD ''SMSG_MULTIPLE_PACKETS'' STATUS_NEVER,
     DEFINE_SERVER_OPCODE_HANDLER 0x4CE ''SMSG_MOVE_GRAVITY_DISABLE'' STATUS_NEVER,
     DEFINE_HANDLER 0x4CF ''CMSG_MOVE_GRAVITY_DISABLE_ACK''
       STATUS_NEVER PROCESS_INPLACE ''Handle_NULL'',
     DEFINE_SERVER_OPCODE_HANDLER 0x4D0 ''SMSG_MOVE_GRAVITY_ENABLE'' STATUS_NEVER,
     DEFINE_HANDLER 0x4D1 ''CMSG_MOVE_GRAVITY_ENABLE_ACK''
       STATUS_NEVER PROCESS_INPLACE ''Handle_NULL'',
     DEFINE_SERVER_OPCODE_HANDLER 0x4D2 ''MSG_MOVE_GRAVITY_CHNG'' STATUS_NEVER,
     DEFINE_SERVER_OPCODE_HANDLER 0x4D3 ''SMSG_SPLINE_MOVE_GRAVITY_DISABLE'' STATUS_NEVER,
     DEFINE_SERVER_OPCODE_HANDLER 0x4D4 ''SMSG_SPLINE_MOVE_GRAVITY_ENABLE'' STATUS_NEVER,
     DEFINE_HANDLER 0x4D5 ''CMSG_EQUIPMENT_SET_USE''
       STATUS_LOGGEDIN PROCESS_INPLACE ''HandleEquipmentSetUse'',
     DEFINE_SERVER_OPCODE_HANDLER 0x4D6 ''SMSG_EQUIPMENT_SET_USE_RESULT'' STATUS_NEVER,
     DEFINE_HANDLER 0x4D7 ''CMSG_FORCE_ANIM'' STATUS_NEVER PROCESS_INPLACE ''Handle_NULL'',
     DEFINE_SERVER_OPCODE_HANDLER 0x4D8 ''SMSG_FORCE_ANIM'' STATUS_NEVER,
     DEFINE_HANDLER 0x4D9 ''CMSG_CHAR_FACTION_CHANGE''
       STATUS_AUTHED PROCESS_THREADUNSAFE ''HandleCharFactionOrRaceChange'',
     DEFINE_SERVER_OPCODE_HANDLER 0x4DA ''SMSG_CHAR_FACTION_CHANGE'' STATUS_NEVER,
     DEFINE_HANDLER 0x4DB ''CMSG_PVP_QUEUE_STATS_REQUEST''
       STATUS_NEVER PROCESS_INPLACE ''Handle_NULL'',
     DEFINE_SERVER_OPCODE_HANDLER 0x4DC ''SMSG_PVP_QUEUE_STATS'' STATUS_NEVER,
     DEFINE_HANDLER 0x4DD ''CMSG_SET_PAID_SERVICE_CHEAT''
       STATUS_NEVER PROCESS_INPLACE ''Handle_NULL'',
     DEFINE_SERVER_OPCODE_HANDLER 0x4DE ''SMSG_BATTLEFIELD_MGR_ENTRY_INVITE'' STATUS_NEVER,
     DEFINE_HANDLER 0x4DF ''CMSG_BATTLEFIELD_MGR_ENTRY_INVITE_RESPONSE''
       STATUS_LOGGEDIN PROCESS_THREADUNSAFE ''HandleBfEntryInviteResponse'',
     DEFINE_SERVER_OPCODE_HANDLER 0x4E0 ''SMSG_BATTLEFIELD_MGR_ENTERED'' STATUS_NEVER,
     DEFINE_SERVER_OPCODE_HANDLER 0x4E1 ''SMSG_BATTLEFIELD_MGR_QUEUE_INVITE'' STATUS_NEVER,
     DEFINE_HANDLER 0x4E2 ''CMSG_BATTLEFIELD_MGR_QUEUE_INVITE_RESPONSE''
       STATUS_LOGGEDIN PROCESS_THREADUNSAFE ''HandleBfQueueInviteResponse'',
     DEFINE_HANDLER 0x4E3 ''CMSG_BATTLEFIELD_MGR_QUEUE_REQUEST''
       STATUS_NEVER PROCESS_INPLACE ''Handle_NULL'',
     DEFINE_SERVER_OPCODE_HANDLER 0x4E4 ''SMSG_BATTLEFIELD_MGR_QUEUE_REQUEST_RESPONSE''
       STATUS_NEVER,
     DEFINE_SERVER_OPCODE_HANDLER 0x4E5 ''SMSG_BATTLEFIELD_MGR_EJECT_PENDING'' STATUS_NEVER,
     DEFINE_SERVER_OPCODE_HANDLER 0x4E6 ''SMSG_BATTLEFIELD_MGR_EJECTED'' STATUS_NEVER,
     DEFINE_HANDLER 0x4E7 ''CMSG_BATTLEFIELD_MGR_EXIT_REQUEST''
       STATUS_LOGGEDIN PROCESS_THREADUNSAFE ''HandleBfExitRequest'',
     DEFINE_SERVER_OPCODE_HANDLER 0x4E8 ''SMSG_BATTLEFIELD_MGR_STATE_CHANGE'' STATUS_NEVER,
     DEFINE_HANDLER 0x4E9 ''CMSG_BATTLEFIELD_MANAGER_ADVANCE_STATE''
       STATUS_NEVER PROCESS_INPLACE ''Handle_NULL'',
     DEFINE_HANDLER 0x4EA ''CMSG_BATTLEFIELD_MANAGER_SET_NEXT_TRANSITION_TIME''
       STATUS_NEVER PROCESS_INPLACE ''Handle_NULL'',
     DEFINE_HANDLER 0x4EB ''MSG_SET_RAID_DIFFICULTY''
       STATUS_LOGGEDIN PROCESS_THREADUNSAFE ''HandleSetRaidDifficultyOpcode'',
     DEFINE_HANDLER 0x4EC ''CMSG_TOGGLE_XP_GAIN'' STATUS_NEVER PROCESS_INPLACE ''Handle_NULL'',
     DEFINE_SERVER_OPCODE_HANDLER 0x4ED ''SMSG_TOGGLE_XP_GAIN'' STATUS_NEVER,
     DEFINE_SERVER_OPCODE_HANDLER 0x4EE ''SMSG_GMRESPONSE_DB_ERROR'' STATUS_NEVER,
     DEFINE_SERVER_OPCODE_HANDLER 0x4EF ''SMSG_GMRESPONSE_RECEIVED'' STATUS_NEVER,
     DEFINE_HANDLER 0x4F0 ''CMSG_GMRESPONSE_RESOLVE''
       STATUS_LOGGEDIN PROCESS_THREADUNSAFE ''HandleGMResponseResolve'',
     DEFINE_SERVER_OPCODE_HANDLER 0x4F1 ''SMSG_GMRESPONSE_STATUS_UPDATE'' STATUS_NEVER,
     DEFINE_SERVER_OPCODE_HANDLER 0x4F2 ''SMSG_GMRESPONSE_CREATE_TICKET'' STATUS_NEVER,
     DEFINE_HANDLER 0x4F3 ''CMSG_GMRESPONSE_CREATE_TICKET''
       STATUS_NEVER PROCESS_INPLACE ''Handle_NULL'',
     DEFINE_HANDLER 0x4F4 ''CMSG_SERVERINFO'' STATUS_NEVER PROCESS_INPLACE ''Handle_NULL'',
     DEFINE_SERVER_OPCODE_HANDLER 0x4F5 ''SMSG_SERVERINFO'' STATUS_NEVER,
     DEFINE_HANDLER 0x4F6 ''CMSG_WORLD_STATE_UI_TIMER_UPDATE''
       STATUS_LOGGEDIN PROCESS_INPLACE ''HandleWorldStateUITimerUpdate'',
     DEFINE_SERVER_OPCODE_HANDLER 0x4F7 ''SMSG_WORLD_STATE_UI_TIMER_UPDATE'' STATUS_NEVER,
     DEFINE_HANDLER 0x4F8 ''CMSG_CHAR_RACE_CHANGE''
       STATUS_AUTHED PROCESS_THREADUNSAFE ''HandleCharFactionOrRaceChange'',
     DEFINE_HANDLER 0x4F9 ''MSG_VIEW_PHASE_SHIFT'' STATUS_NEVER PROCESS_INPLACE ''Handle_NULL'',
     DEFINE_SERVER_OPCODE_HANDLER 0x4FA ''SMSG_TALENTS_INVOLUNTARILY_RESET'' STATUS_NEVER,
     DEFINE_HANDLER 0x4FB ''CMSG_DEBUG_SERVER_GEO''
       STATUS_NEVER PROCESS_INPLACE ''Handle_NULL'',
     DEFINE_SERVER_OPCODE_HANDLER 0x4FC ''SMSG_DEBUG_SERVER_GEO'' STATUS_NEVER,
     DEFINE_SERVER_OPCODE_HANDLER 0x4FD ''SMSG_LOOT_SLOT_CHANGED'' STATUS_NEVER,
     DEFINE_HANDLER 0x4FE ''UMSG_UPDATE_GROUP_INFO''
       STATUS_NEVER PROCESS_INPLACE ''Handle_NULL'',
     DEFINE_HANDLER 0x4FF ''CMSG_READY_FOR_ACCOUNT_DATA_TIMES''
       STATUS_AUTHED PROCESS_THREADUNSAFE ''HandleReadyForAccountDataTimes'',
     DEFINE_HANDLER 0x500 ''CMSG_QUERY_QUESTS_COMPLETED''
       STATUS_LOGGEDIN PROCESS_INPLACE ''HandleQueryQuestsCompleted'']"

definition Initialize_501_51E :: "manifest_entry list" where
  "Initialize_501_51E =
    [DEFINE_SERVER_OPCODE_HANDLER 0x501 ''SMSG_QUERY_QUESTS_COMPLETED_RESPONSE'' STATUS_NEVER,
     DEFINE_HANDLER 0x502 ''CMSG_GM_REPORT_LAG''
       STATUS_LOGGEDIN PROCESS_THREADUNSAFE ''HandleReportLag'',
     DEFINE_HANDLER 0x503 ''CMSG_AFK_MONITOR_INFO_REQUEST''
       STATUS_NEVER PROCESS_INPLACE ''Handle_NULL'',
     DEFINE_SERVER_OPCODE_HANDLER 0x504 ''SMSG_AFK_MONITOR_INFO_RESPONSE'' STATUS_NEVER,
     DEFINE_HANDLER 0x505 ''CMSG_AFK_MONITOR_INFO_CLEAR''
       STATUS_NEVER PROCESS_INPLACE ''Handle_NULL'',
     DEFINE_SERVER_OPCODE_HANDLER 0x506 ''SMSG_CORPSE_NOT_IN_INSTANCE'' STATUS_NEVER,
     DEFINE_HANDLER 0x507 ''CMSG_GM_NUKE_CHARACTER''
       STATUS_NEVER PROCESS_INPLACE ''Handle_NULL'',
     DEFINE_HANDLER 0x508 ''CMSG_SET_ALLOW_LOW_LEVEL_RAID1''
       STATUS_NEVER PROCESS_INPLACE ''Handle_NULL'',
     DEFINE_HANDLER 0x509 ''CMSG_SET_ALLOW_LOW_LEVEL_RAID2''
       STATUS_NEVER PROCESS_INPLACE ''Handle_NULL'',
     DEFINE_SERVER_OPCODE_HANDLER 0x50A ''SMSG_CAMERA_SHAKE'' STATUS_NEVER,
     DEFINE_SERVER_OPCODE_HANDLER 0x50B ''SMSG_SOCKET_GEMS_RESULT'' STATUS_NEVER,
     DEFINE_HANDLER 0x50C ''CMSG_SET_CHARACTER_MODEL''
       STATUS_NEVER PROCESS_INPLACE ''Handle_NULL'',
     DEFINE_SERVER_OPCODE_HANDLER 0x50D ''SMSG_REDIRECT_CLIENT'' STATUS_NEVER,
     DEFINE_HANDLER 0x50E ''CMSG_REDIRECTION_FAILED''
       STATUS_NEVER PROCESS_INPLACE ''Handle_NULL'',
     DEFINE_SERVER_OPCODE_HANDLER 0x50F ''SMSG_SUSPEND_COMMS'' STATUS_NEVER,
     DEFINE_HANDLER 0x510 ''CMSG_SUSPEND_COMMS_ACK''
       STATUS_NEVER PROCESS_INPLACE ''Handle_NULL'',
     DEFINE_SERVER_OPCODE_HANDLER 0x511 ''SMSG_FORCE_SEND_QUEUED_PACKETS'' STATUS_NEVER,
     DEFINE_HANDLER 0x512 ''CMSG_REDIRECTION_AUTH_PROOF''
       STATUS_NEVER PROCESS_INPLACE ''Handle_NULL'',
     DEFINE_HANDLER 0x513 ''CMSG_DROP_NEW_CONNECTION''
       STATUS_NEVER PROCESS_INPLACE ''Handle_NULL'',
     DEFINE_SERVER_OPCODE_HANDLER 0x514 ''SMSG_SEND_ALL_COMBAT_LOG'' STATUS_NEVER,
     DEFINE_SERVER_OPCODE_HANDLER 0x515 ''SMSG_OPEN_LFG_DUNGEON_FINDER'' STATUS_NEVER,
     DEFINE_SERVER_OPCODE_HANDLER 0x516 ''SMSG_MOVE_SET_COLLISION_HGT'' STATUS_NEVER,
     DEFINE_HANDLER 0x517 ''CMSG_MOVE_SET_COLLISION_HGT_ACK''
       STATUS_UNHANDLED PROCESS_INPLACE ''Handle_NULL'',
     DEFINE_HANDLER 0x518 ''MSG_MOVE_SET_COLLISION_HGT''
       STATUS_NEVER PROCESS_INPLACE ''Handle_NULL'',
     DEFINE_HANDLER 0x519 ''CMSG_CLEAR_RANDOM_BG_WIN_TIME''
       STATUS_NEVER PROCESS_INPLACE ''Handle_NULL'',
     DEFINE_HANDLER 0x51A ''CMSG_CLEAR_HOLIDAY_BG_WIN_TIME''
       STATUS_NEVER PROCESS_INPLACE ''Handle_NULL'',
     DEFINE_HANDLER 0x51B ''CMSG_COMMENTATOR_SKIRMISH_QUEUE_COMMAND''
       STATUS_NEVER PROCESS_INPLACE ''Handle_NULL'',
     DEFINE_SERVER_OPCODE_HANDLER 0x51C ''SMSG_COMMENTATOR_SKIRMISH_QUEUE_RESULT1''
       STATUS_NEVER,
     DEFINE_SERVER_OPCODE_HANDLER 0x51D ''SMSG_COMMENTATOR_SKIRMISH_QUEUE_RESULT2''
       STATUS_NEVER,
     DEFINE_SERVER_OPCODE_HANDLER 0x51E ''SMSG_MULTIPLE_MOVES'' STATUS_NEVER]"

definition Initialize_body :: "manifest_entry list" where
  "Initialize_body =
     Initialize_001_080 @
     Initialize_081_100 @
     Initialize_101_180 @
     Initialize_181_200 @
     Initialize_201_280 @
     Initialize_281_300 @
     Initialize_301_380 @
     Initialize_381_400 @
     Initialize_401_480 @
     Initialize_481_500 @
     Initialize_501_51E"

text \<open>\<open>opcodeTable.Initialize()\<close> on the table the constructor leaves.\<close>

definition OpcodeTable_Initialize :: "OpcodeMisc \<Rightarrow> build_error + OpcodeTable" where
  "OpcodeTable_Initialize M = Initialize M Initialize_body OpcodeTable_new"

text \<open>
  The direction of a message, as the prefix of its enumerator tells it: \<open>SMSG_\<close> is
  sent by the server, \<open>CMSG_\<close> by the client; an \<open>MSG_\<close> or \<open>UMSG_\<close> enumerator is
  neither. A statement is misrouted when its macro is the one for the other direction.
\<close>

definition server_originated :: "manifest_entry \<Rightarrow> bool" where
  "server_originated e = prefix ''SMSG_'' (entry_name e)"

definition client_originated :: "manifest_entry \<Rightarrow> bool" where
  "client_originated e = prefix ''CMSG_'' (entry_name e)"

definition server_originated_on_client_path :: "manifest_entry \<Rightarrow> bool" where
  "server_originated_on_client_path e = (server_originated e \<and> \<not> is_server_path e)"

definition client_originated_on_server_path :: "manifest_entry \<Rightarrow> bool" where
  "client_originated_on_server_path e = (client_originated e \<and> is_server_path e)"

definition misrouted :: "manifest_entry \<Rightarrow> bool" where
  "misrouted e =
     (server_originated_on_client_path e \<or> client_originated_on_server_path e)"

subsection \<open>Dispatch\<close>

text \<open>
  Modelled from the spec: the dispatch engine (sections 4.3 to 4.5 of the spec). In the
  code it is the session update loop and the socket layer, which are not among the
  sources. A session is in one of four states; the gate compares the status an opcode
  requires with the state of the session: \<open>Never\<close> is never satisfied, \<open>Unhandled\<close>
  always, \<open>LoggedIn\<close> by a logged-in session and by one in transfer but not by one that
  is only authenticated, and the grace window after logout grants the opcodes that
  require \<open>LoggedInOrRecentlyLoggedOut\<close> and no other that needs a login. Every session
  that reaches the gate is authenticated, so \<open>Authed\<close> is satisfied in each state (the
  spec states it for the authenticated state).
\<close>

datatype session_state =
    SessionAuthed
  | SessionLoggedIn
  | SessionTransfer
  | SessionRecentlyLoggedOut

fun AdmissionGate :: "SessionStatus \<Rightarrow> session_state \<Rightarrow> bool" where
  "AdmissionGate STATUS_NEVER actual = False"
| "AdmissionGate STATUS_UNHANDLED actual = True"
| "AdmissionGate STATUS_AUTHED actual = True"
| "AdmissionGate STATUS_LOGGEDIN actual =
     (actual = SessionLoggedIn \<or> actual = SessionTransfer)"
| "AdmissionGate STATUS_TRANSFER actual = (actual = SessionTransfer)"
| "AdmissionGate STATUS_LOGGEDIN_OR_RECENTLY_LOGGOUT actual =
     (actual = SessionLoggedIn \<or> actual = SessionTransfer
      \<or> actual = SessionRecentlyLoggedOut)"

text \<open>
  Modelled from the spec: the packet envelope (opcode id, payload, session, arrival
  sequence number) and the three execution contexts a dispatch hands a message to.
  The serialized queue is first in, first out; the world tick drains it in order.
\<close>

record PacketEnvelope =
  envelope_opcode :: int
  envelope_payload :: "8 word list"
  envelope_session :: nat
  envelope_arrival :: nat

record Scheduler =
  executed_in_place :: "PacketEnvelope list"
  worker_pool :: "PacketEnvelope list"
  serialized_queue :: "PacketEnvelope list"

datatype DispatchOutcome =
    UnknownOpcode
  | AdmissionDenied SessionStatus session_state
  | NoAction
  | ExecutedInPlace
  | SubmittedToWorkerPool
  | EnqueuedSerialized

definition dispatch ::
  "OpcodeMisc \<Rightarrow> OpcodeTable \<Rightarrow> session_state \<Rightarrow> PacketEnvelope \<Rightarrow> Scheduler
     \<Rightarrow> DispatchOutcome \<times> Scheduler" where
  "dispatch M t actual env sch =
     (case lookup M t (envelope_opcode env) of
        None \<Rightarrow> (UnknownOpcode, sch)
      | Some descriptor \<Rightarrow>
          if \<not> AdmissionGate (Status descriptor) actual then
            (AdmissionDenied (Status descriptor) actual, sch)
          else if Status descriptor = STATUS_UNHANDLED then (NoAction, sch)
          else
            (case ProcessingPlace descriptor of
               PROCESS_INPLACE \<Rightarrow>
                 (ExecutedInPlace, sch\<lparr>executed_in_place := executed_in_place sch @ [env]\<rparr>)
             | PROCESS_THREADSAFE \<Rightarrow>
                 (SubmittedToWorkerPool, sch\<lparr>worker_pool := worker_pool sch @ [env]\<rparr>)
             | PROCESS_THREADUNSAFE \<Rightarrow>
                 (EnqueuedSerialized, sch\<lparr>serialized_queue := serialized_queue sch @ [env]\<rparr>)))"

text \<open>
  Modelled from the spec: one world tick runs the queued messages in the order of the
  queue and leaves it empty. The result is the list of messages run, in order.
\<close>

definition world_tick :: "Scheduler \<Rightarrow> PacketEnvelope list \<times> Scheduler" where
  "world_tick sch = (serialized_queue sch, sch\<lparr>serialized_queue := []\<rparr>)"

text \<open>
  A value for the two constants, for evaluating the definitions on concrete input: a
  table of \<open>0x520\<close> slots whose unset opcode is \<open>0\<close>.
\<close>

definition example_misc :: OpcodeMisc where
  "example_misc = \<lparr>NUM_OPCODE_HANDLERS = 0x520, NULL_OPCODE = 0\<rparr>"

section \<open>Properties\<close>

subsection \<open>Auxiliary facts about registration\<close>

lemma unat_uint32_Opcodes: "unat (uint32 (opcode :: Opcodes)) = unat opcode"
  by (simp add: uint32_def unsigned_ucast_eq take_bit_nat_eq_self
      order_less_trans [OF unsigned_less])

text \<open>
  C5. A registration whose opcode is the sentinel \<open>NULL_OPCODE\<close> is rejected on the
  client path and on the server path alike, whatever the name, status, processing
  class and handler: the table is left exactly as it was, and the only effect is
  the error message "Opcode ... does not have a value".
\<close>

lemma rejected_iff:
  "rejected M e s \<longleftrightarrow>
     unat (entry_opcode e) = NULL_OPCODE M
     \<or> NUM_OPCODE_HANDLERS M \<le> unat (entry_opcode e)
     \<or> internalTableClient s (unat (entry_opcode e)) \<noteq> None"
  by (cases e)
     (auto simp: rejected_def ValidateAndSetClientOpcode_def ValidateAndSetServerOpcode_def
        unat_uint32_Opcodes LOG_ERROR_def split: option.splits)

lemma register_table:
  "internalTableClient (register M e s) =
     (if rejected M e s then internalTableClient s
      else (internalTableClient s)(unat (entry_opcode e) \<mapsto> entry_handler e))"
  by (cases e)
     (auto simp: rejected_def ValidateAndSetClientOpcode_def ValidateAndSetServerOpcode_def
        unat_uint32_Opcodes LOG_ERROR_def split: option.splits)

lemma register_log_rejected:
  "rejected M e s \<Longrightarrow> \<exists>ev. network_log (register M e s) = network_log s @ [ev]"
  by (cases e)
     (auto simp: rejected_def ValidateAndSetClientOpcode_def ValidateAndSetServerOpcode_def
        unat_uint32_Opcodes LOG_ERROR_def split: option.splits if_splits)

lemma run_append: "run M (xs @ ys) s = run M ys (run M xs s)"
  by (induction xs arbitrary: s) simp_all

lemma register_keeps:
  "internalTableClient s i = Some h \<Longrightarrow> internalTableClient (register M e s) i = Some h"
  by (auto simp: register_table rejected_iff)

lemma run_keeps:
  "internalTableClient s i = Some h \<Longrightarrow> internalTableClient (run M es s) i = Some h"
  by (induction es arbitrary: s) (simp_all add: register_keeps)

lemma rejected_cong:
  "internalTableClient s = internalTableClient s' \<Longrightarrow> rejected M e s = rejected M e s'"
  by (simp add: rejected_iff)

lemma register_table_cong:
  "internalTableClient s = internalTableClient s' \<Longrightarrow>
   internalTableClient (register M e s) = internalTableClient (register M e s')"
  by (simp add: register_table rejected_cong [of s s'])

lemma run_table_cong:
  "internalTableClient s = internalTableClient s' \<Longrightarrow>
   internalTableClient (run M es s) = internalTableClient (run M es s')"
proof (induction es arbitrary: s s')
  case Nil
  then show ?case by simp
next
  case (Cons e es)
  from Cons.prems have "internalTableClient (register M e s) = internalTableClient (register M e s')"
    by (rule register_table_cong)
  then have "internalTableClient (run M es (register M e s)) = internalTableClient (run M es (register M e s'))"
    by (rule Cons.IH)
  then show ?case by simp
qed

lemma run_first_wins:
  "internalTableClient (run M es s) i =
     (case internalTableClient s i of
        Some h \<Rightarrow> Some h
      | None \<Rightarrow>
          (if i \<noteq> NULL_OPCODE M \<and> i < NUM_OPCODE_HANDLERS M
           then map_option entry_handler (List.find (\<lambda>e. unat (entry_opcode e) = i) es)
           else None))"
proof (induction es arbitrary: s)
  case Nil
  then show ?case by (simp split: option.splits)
next
  case (Cons e es)
  show ?case
    by (auto simp: Cons.IH register_table rejected_iff split: option.splits)
qed

lemma run_dom:
  "dom (internalTableClient (run M es s)) =
     dom (internalTableClient s) \<union> set (registered_ids M es s)"
proof (induction es arbitrary: s)
  case Nil
  then show ?case by simp
next
  case (Cons e es)
  show ?case
    by (auto simp: Cons.IH register_table rejected_iff split: if_splits)
qed

lemma registered_ids_distinct:
  "distinct (registered_ids M es s)
   \<and> set (registered_ids M es s) \<inter> dom (internalTableClient s) = {}"
proof (induction es arbitrary: s)
  case Nil
  then show ?case by simp
next
  case (Cons e es)
  have a: "distinct (registered_ids M es (register M e s))"
    and b: "set (registered_ids M es (register M e s)) \<inter> dom (internalTableClient (register M e s)) = {}"
    using Cons.IH [of "register M e s"] by simp_all
  show ?case
    using a b by (auto simp: register_table rejected_iff split: if_splits)
qed

lemma registered_ids_in_range:
  "i \<in> set (registered_ids M es s) \<Longrightarrow> i < NUM_OPCODE_HANDLERS M \<and> i \<noteq> NULL_OPCODE M"
  by (induction es arbitrary: s) (auto simp: rejected_iff split: if_splits)

lemma lookup_slot:
  "unat (opcode :: Opcodes) < NUM_OPCODE_HANDLERS M \<Longrightarrow>
   lookup M s (uint opcode) = internalTableClient s (unat opcode)"
proof -
  assume a: "unat opcode < NUM_OPCODE_HANDLERS M"
  have "uint opcode = int (unat opcode)" by simp
  moreover have "nat (uint opcode) = unat opcode" by simp
  moreover have "0 \<le> uint opcode" by simp
  ultimately show ?thesis using a by (simp only: lookup_def of_nat_less_iff if_True simp_thms)
qed

lemma registered_slot:
  "\<not> rejected M a s \<Longrightarrow>
   internalTableClient (register M a s) (unat (entry_opcode a)) = Some (entry_handler a)"
  by (simp add: register_table)

declare register.simps [simp del]

lemma example_misc_simps:
  "NUM_OPCODE_HANDLERS example_misc = 0x520" "NULL_OPCODE example_misc = 0"
  by (simp_all add: example_misc_def)

subsection \<open>Auxiliary facts about the printed numbers\<close>

lemma digit_value_nth:
  assumes "distinct alphabet" "d < length alphabet"
  shows "digit_value alphabet (alphabet ! d) = d"
proof -
  have "takeWhile (\<lambda>x. x \<noteq> alphabet ! d) alphabet = take d alphabet"
  proof (rule takeWhile_eq_take_P_nth)
    fix i assume "i < d" "i < length alphabet"
    with assms show "alphabet ! i \<noteq> alphabet ! d"
      by (simp add: nth_eq_iff_index_eq)
  next
    show "\<not> alphabet ! d \<noteq> alphabet ! d" by simp
  qed
  with assms show ?thesis by (simp add: digit_value_def)
qed

lemma read_number_snoc:
  "read_number alphabet (str @ [c])
     = length alphabet * read_number alphabet str + digit_value alphabet c"
  by (simp add: read_number_def)

lemma read_number_zeros:
  assumes "digit_value alphabet z = 0"
  shows "read_number alphabet (replicate k z @ str) = read_number alphabet str"
proof -
  have "foldl (\<lambda>acc c. length alphabet * acc + digit_value alphabet c) 0 (replicate k z) = 0"
    using assms by (induction k) simp_all
  then show ?thesis by (simp add: read_number_def)
qed

lemma hex_alphabet: "distinct ''0123456789ABCDEF''" "length ''0123456789ABCDEF'' = 16"
  by simp_all

lemma dec_alphabet: "distinct ''0123456789''" "length ''0123456789'' = 10"
  by simp_all

lemma read_ostream_hex_upper: "read_number ''0123456789ABCDEF'' (ostream_hex_upper n) = n"
proof (induction n rule: ostream_hex_upper.induct)
  case (1 n)
  show ?case
  proof (cases "n < 16")
    case True
    then have "digit_value ''0123456789ABCDEF'' (''0123456789ABCDEF'' ! n) = n"
      by (simp only: digit_value_nth hex_alphabet)
    with True show ?thesis
      by (subst ostream_hex_upper.simps) (simp add: read_number_def)
  next
    case False
    have "digit_value ''0123456789ABCDEF'' (''0123456789ABCDEF'' ! (n mod 16)) = n mod 16"
      by (rule digit_value_nth) simp_all
    with False "1.IH" show ?thesis
      by (subst ostream_hex_upper.simps) (simp only: read_number_snoc if_False hex_alphabet, simp)
  qed
qed

lemma read_ostream_dec: "read_number ''0123456789'' (ostream_dec n) = n"
proof (induction n rule: ostream_dec.induct)
  case (1 n)
  show ?case
  proof (cases "n < 10")
    case True
    then have "digit_value ''0123456789'' (''0123456789'' ! n) = n"
      by (simp only: digit_value_nth dec_alphabet)
    with True show ?thesis
      by (subst ostream_dec.simps) (simp add: read_number_def)
  next
    case False
    have "digit_value ''0123456789'' (''0123456789'' ! (n mod 10)) = n mod 10"
      by (rule digit_value_nth) simp_all
    with False "1.IH" show ?thesis
      by (subst ostream_dec.simps) (simp only: read_number_snoc if_False dec_alphabet, simp)
  qed
qed

lemma set_ostream_hex_upper: "set (ostream_hex_upper n) \<subseteq> set ''0123456789ABCDEF''"
proof (induction n rule: ostream_hex_upper.induct)
  case (1 n)
  have a: "''0123456789ABCDEF'' ! (n mod 16) \<in> set ''0123456789ABCDEF''"
    by (rule nth_mem) simp
  have b: "n < 16 \<Longrightarrow> ''0123456789ABCDEF'' ! n \<in> set ''0123456789ABCDEF''"
    by (rule nth_mem) simp
  show ?case
  proof (cases "n < 16")
    case True
    then have "ostream_hex_upper n = [''0123456789ABCDEF'' ! n]"
      by (subst ostream_hex_upper.simps) simp
    with b [OF True] show ?thesis by simp
  next
    case False
    then have "ostream_hex_upper n = ostream_hex_upper (n div 16) @ [''0123456789ABCDEF'' ! (n mod 16)]"
      by (subst ostream_hex_upper.simps) simp
    with a "1.IH" [OF False] show ?thesis by simp
  qed
qed

lemma set_ostream_dec: "set (ostream_dec n) \<subseteq> set ''0123456789''"
proof (induction n rule: ostream_dec.induct)
  case (1 n)
  have a: "''0123456789'' ! (n mod 10) \<in> set ''0123456789''"
    by (rule nth_mem) simp
  have b: "n < 10 \<Longrightarrow> ''0123456789'' ! n \<in> set ''0123456789''"
    by (rule nth_mem) simp
  show ?case
  proof (cases "n < 10")
    case True
    then have "ostream_dec n = [''0123456789'' ! n]"
      by (subst ostream_dec.simps) simp
    with b [OF True] show ?thesis by simp
  next
    case False
    then have "ostream_dec n = ostream_dec (n div 10) @ [''0123456789'' ! (n mod 10)]"
      by (subst ostream_dec.simps) simp
    with a "1.IH" [OF False] show ?thesis by simp
  qed
qed

lemma length_ostream_hex_upper:
  "n < 16 ^ k \<Longrightarrow> 0 < k \<Longrightarrow> length (ostream_hex_upper n) \<le> k"
proof (induction n arbitrary: k rule: ostream_hex_upper.induct)
  case (1 n)
  show ?case
  proof (cases "n < 16")
    case True
    with "1.prems" show ?thesis by (subst ostream_hex_upper.simps) simp
  next
    case False
    with "1.prems" obtain k' where k: "k = Suc k'" by (cases k) auto
    with False "1.prems" have "0 < k'" by (cases k') auto
    moreover from "1.prems" k have "n div 16 < 16 ^ k'"
      by (simp add: less_mult_imp_div_less mult.commute)
    ultimately have "length (ostream_hex_upper (n div 16)) \<le> k'"
      using "1.IH" False by simp
    with False k show ?thesis by (subst ostream_hex_upper.simps) simp
  qed
qed

lemma ostream_dec_not_empty: "ostream_dec n \<noteq> []"
  by (subst ostream_dec.simps) simp

lemma uint16_Opcodes: "uint16 (opcode :: Opcodes) = opcode"
  by (simp add: uint16_def)

lemma unat_Opcodes_less: "unat (opcode :: Opcodes) < 16 ^ 4"
  using unsigned_less [of opcode] by simp

lemma hex4_length:
  "n < 16 ^ 4 \<Longrightarrow> length (setw_setfill 4 CHR ''0'' (ostream_hex_upper n)) = 4"
  using length_ostream_hex_upper [of n 4] by (simp add: setw_setfill_def)

lemma hex4_set:
  "set (setw_setfill 4 CHR ''0'' (ostream_hex_upper n)) \<subseteq> set ''0123456789ABCDEF''"
proof -
  have "set (replicate k CHR ''0'') \<subseteq> set ''0123456789ABCDEF''" for k
    by (auto simp: set_replicate_conv_if)
  with set_ostream_hex_upper [of n] show ?thesis
    by (simp only: setw_setfill_def set_append Un_subset_iff simp_thms)
qed

lemma hex4_read:
  "read_number ''0123456789ABCDEF'' (setw_setfill 4 CHR ''0'' (ostream_hex_upper n)) = n"
proof -
  have "digit_value ''0123456789ABCDEF'' CHR ''0'' = 0"
    by (simp add: digit_value_def)
  then show ?thesis
    by (simp only: setw_setfill_def read_number_zeros read_ostream_hex_upper)
qed

lemma eval_hex_36: "setw_setfill 4 CHR ''0'' (ostream_hex_upper 54) = ''0036''"
proof -
  have "ostream_hex_upper 54 = ''36''"
    by (simp add: ostream_hex_upper.simps)
  then show ?thesis
    by (simp add: setw_setfill_def numeral_2_eq_2)
qed

lemma eval_dec_36: "ostream_dec 54 = ''54''"
  by (simp add: ostream_dec.simps)

lemma eval_hex_9999: "setw_setfill 4 CHR ''0'' (ostream_hex_upper 39321) = ''9999''"
proof -
  have "ostream_hex_upper 39321 = ''9999''"
    by (simp add: ostream_hex_upper.simps)
  then show ?thesis
    by (simp add: setw_setfill_def)
qed

lemma eval_dec_9999: "ostream_dec 39321 = ''39321''"
  by (simp add: ostream_dec.simps)

lemma static_assert_Initialize_001_080: "list_all static_assert_holds Initialize_001_080"
  unfolding Initialize_001_080_def by code_simp

lemma static_assert_Initialize_081_100: "list_all static_assert_holds Initialize_081_100"
  unfolding Initialize_081_100_def by code_simp

lemma static_assert_Initialize_101_180: "list_all static_assert_holds Initialize_101_180"
  unfolding Initialize_101_180_def by code_simp

lemma static_assert_Initialize_181_200: "list_all static_assert_holds Initialize_181_200"
  unfolding Initialize_181_200_def by code_simp

lemma static_assert_Initialize_201_280: "list_all static_assert_holds Initialize_201_280"
  unfolding Initialize_201_280_def by code_simp

lemma static_assert_Initialize_281_300: "list_all static_assert_holds Initialize_281_300"
  unfolding Initialize_281_300_def by code_simp

lemma static_assert_Initialize_301_380: "list_all static_assert_holds Initialize_301_380"
  unfolding Initialize_301_380_def by code_simp

lemma static_assert_Initialize_381_400: "list_all static_assert_holds Initialize_381_400"
  unfolding Initialize_381_400_def by code_simp

lemma static_assert_Initialize_401_480: "list_all static_assert_holds Initialize_401_480"
  unfolding Initialize_401_480_def by code_simp

lemma static_assert_Initialize_481_500: "list_all static_assert_holds Initialize_481_500"
  unfolding Initialize_481_500_def by code_simp

lemma static_assert_Initialize_501_51E: "list_all static_assert_holds Initialize_501_51E"
  unfolding Initialize_501_51E_def by code_simp

lemma static_assert_Initialize_body: "list_all static_assert_holds Initialize_body"
  by (simp add: Initialize_body_def static_assert_Initialize_001_080 static_assert_Initialize_081_100 static_assert_Initialize_101_180 static_assert_Initialize_181_200 static_assert_Initialize_201_280 static_assert_Initialize_281_300 static_assert_Initialize_301_380 static_assert_Initialize_381_400 static_assert_Initialize_401_480 static_assert_Initialize_481_500 static_assert_Initialize_501_51E)

lemma misrouted_Initialize_001_080: "filter misrouted Initialize_001_080 = []"
  unfolding Initialize_001_080_def by code_simp

lemma misrouted_Initialize_081_100: "filter misrouted Initialize_081_100 = []"
  unfolding Initialize_081_100_def by code_simp

lemma misrouted_Initialize_101_180: "filter misrouted Initialize_101_180 = []"
  unfolding Initialize_101_180_def by code_simp

lemma misrouted_Initialize_181_200: "filter misrouted Initialize_181_200 = []"
  unfolding Initialize_181_200_def by code_simp

lemma misrouted_Initialize_201_280: "filter misrouted Initialize_201_280 = []"
  unfolding Initialize_201_280_def by code_simp

lemma misrouted_Initialize_281_300:
  "filter misrouted Initialize_281_300
     = [DEFINE_SERVER_OPCODE_HANDLER 0x29A ''CMSG_GMTICKETSYSTEM_TOGGLE'' STATUS_NEVER]"
  unfolding Initialize_281_300_def by code_simp

lemma misrouted_Initialize_301_380: "filter misrouted Initialize_301_380 = []"
  unfolding Initialize_301_380_def by code_simp

lemma misrouted_Initialize_381_400: "filter misrouted Initialize_381_400 = []"
  unfolding Initialize_381_400_def by code_simp

lemma misrouted_Initialize_401_480: "filter misrouted Initialize_401_480 = []"
  unfolding Initialize_401_480_def by code_simp

lemma misrouted_Initialize_481_500: "filter misrouted Initialize_481_500 = []"
  unfolding Initialize_481_500_def by code_simp

lemma misrouted_Initialize_501_51E: "filter misrouted Initialize_501_51E = []"
  unfolding Initialize_501_51E_def by code_simp

lemma misrouted_Initialize_body:
  "filter misrouted Initialize_body
     = [DEFINE_SERVER_OPCODE_HANDLER 0x29A ''CMSG_GMTICKETSYSTEM_TOGGLE'' STATUS_NEVER]"
  by (simp add: Initialize_body_def misrouted_Initialize_001_080 misrouted_Initialize_081_100 misrouted_Initialize_101_180 misrouted_Initialize_181_200 misrouted_Initialize_201_280 misrouted_Initialize_281_300 misrouted_Initialize_301_380 misrouted_Initialize_381_400 misrouted_Initialize_401_480 misrouted_Initialize_481_500 misrouted_Initialize_501_51E)

lemma find_CMSG_CHAR_CREATE:
  "List.find (\<lambda>e. unat (entry_opcode e) = 54) Initialize_001_080
     = Some (DEFINE_HANDLER 0x036 ''CMSG_CHAR_CREATE'' STATUS_AUTHED PROCESS_THREADUNSAFE
               ''HandleCharCreateOpcode'')"
  unfolding Initialize_001_080_def by code_simp

lemma find_append_Some: "List.find P xs = Some x \<Longrightarrow> List.find P (xs @ ys) = Some x"
  by (induction xs) (auto split: if_splits)

lemma find_Initialize_body_CMSG_CHAR_CREATE:
  "List.find (\<lambda>e. unat (entry_opcode e) = 54) Initialize_body
     = Some (DEFINE_HANDLER 0x036 ''CMSG_CHAR_CREATE'' STATUS_AUTHED PROCESS_THREADUNSAFE
               ''HandleCharCreateOpcode'')"
  unfolding Initialize_body_def
  by (rule find_append_Some) (rule find_CMSG_CHAR_CREATE)

lemma OpcodeTable_Initialize_builds:
  "OpcodeTable_Initialize M = Inr (run M Initialize_body OpcodeTable_new)"
  by (simp add: OpcodeTable_Initialize_def Initialize_def static_assert_Initialize_body)

lemma Initialize_slot_CMSG_CHAR_CREATE:
  assumes "54 < NUM_OPCODE_HANDLERS M" "NULL_OPCODE M \<noteq> 54"
  shows "internalTableClient (run M Initialize_body OpcodeTable_new) 54
     = Some (PacketHandler ''HandleCharCreateOpcode'' ''CMSG_CHAR_CREATE'' STATUS_AUTHED
               PROCESS_THREADUNSAFE)"
proof -
  have "internalTableClient OpcodeTable_new 54 = None"
    by (simp add: OpcodeTable_new_def)
  then show ?thesis
    using assms
    by (simp add: run_first_wins [of M Initialize_body OpcodeTable_new 54]
        find_Initialize_body_CMSG_CHAR_CREATE)
qed

lemma filter_implied:
  assumes "\<And>x. P x \<Longrightarrow> Q x"
  shows "filter P xs = filter P (filter Q xs)"
  using assms by (induction xs) auto

lemma on_client_path_Initialize_body:
  "filter server_originated_on_client_path Initialize_body = []"
proof -
  have "filter server_originated_on_client_path Initialize_body
      = filter server_originated_on_client_path (filter misrouted Initialize_body)"
    by (rule filter_implied) (simp add: misrouted_def)
  then show ?thesis
    by (simp add: misrouted_Initialize_body server_originated_on_client_path_def)
qed

lemma on_server_path_Initialize_body:
  "filter client_originated_on_server_path Initialize_body
     = [DEFINE_SERVER_OPCODE_HANDLER 0x29A ''CMSG_GMTICKETSYSTEM_TOGGLE'' STATUS_NEVER]"
proof -
  have "filter client_originated_on_server_path Initialize_body
      = filter client_originated_on_server_path (filter misrouted Initialize_body)"
    by (rule filter_implied) (simp add: misrouted_def)
  then show ?thesis
    by (simp add: misrouted_Initialize_body client_originated_on_server_path_def
        client_originated_def)
qed

subsection \<open>Registration\<close>

text \<open>
  C1. Duplicate registration is rejected and the original retained. Let a registration
  \<open>a\<close> (through either macro) go through in a state \<open>s\<close>. Then the table holds \<open>a\<close>'s
  descriptor at \<open>a\<close>'s id; after any further registrations \<open>es1\<close>, an attempt \<open>b\<close> at
  the same id (through either macro) is rejected and leaves the table as it was; and
  after any further registrations \<open>es2\<close>, \<open>lookup\<close> at that id still returns \<open>a\<close>'s
  descriptor.
\<close>

theorem duplicate_registration_rejected:
  assumes "\<not> rejected M a s"
    and "entry_opcode b = entry_opcode a"
  shows "lookup M (register M a s) (uint (entry_opcode a)) = Some (entry_handler a)
       \<and> rejected M b (run M es1 (register M a s))
       \<and> internalTableClient (register M b (run M es1 (register M a s)))
           = internalTableClient (run M es1 (register M a s))
       \<and> lookup M (run M es2 (register M b (run M es1 (register M a s))))
           (uint (entry_opcode a)) = Some (entry_handler a)"
proof -
  let ?X = "unat (entry_opcode a)"
  let ?s1 = "run M es1 (register M a s)"
  have range: "?X < NUM_OPCODE_HANDLERS M"
    using assms(1) by (simp add: rejected_iff)
  have slotA: "internalTableClient (register M a s) ?X = Some (entry_handler a)"
    using assms(1) by (rule registered_slot)
  then have slot1: "internalTableClient ?s1 ?X = Some (entry_handler a)"
    by (rule run_keeps)
  then have rej: "rejected M b ?s1"
    using assms(2) by (simp add: rejected_iff)
  then have same: "internalTableClient (register M b ?s1) = internalTableClient ?s1"
    by (simp add: register_table)
  have "internalTableClient (register M b ?s1) ?X = Some (entry_handler a)"
    using slot1 by (rule register_keeps)
  then have slot3: "internalTableClient (run M es2 (register M b ?s1)) ?X = Some (entry_handler a)"
    by (rule run_keeps)
  show ?thesis
    using slotA rej same slot3 by (simp add: lookup_slot [OF range])
qed

theorem duplicate_registration_rejected_witness:
  "\<not> rejected example_misc
       (DEFINE_HANDLER 0x36 ''CMSG_CHAR_CREATE'' STATUS_AUTHED PROCESS_THREADUNSAFE
          ''HandleCharCreateOpcode'') OpcodeTable_new
   \<and> lookup example_misc
       (run example_misc [DEFINE_HANDLER 0x36 ''CMSG_OTHER'' STATUS_LOGGEDIN PROCESS_INPLACE ''Handle_NULL'']
         (register example_misc (DEFINE_SERVER_OPCODE_HANDLER 0x36 ''SMSG_CHAR_CREATE'' STATUS_NEVER)
           (run example_misc [DEFINE_SERVER_OPCODE_HANDLER 0x37 ''SMSG_X'' STATUS_NEVER]
             (register example_misc
               (DEFINE_HANDLER 0x36 ''CMSG_CHAR_CREATE'' STATUS_AUTHED PROCESS_THREADUNSAFE
                  ''HandleCharCreateOpcode'') OpcodeTable_new)))) 0x36
     = Some (PacketHandler ''HandleCharCreateOpcode'' ''CMSG_CHAR_CREATE'' STATUS_AUTHED
               PROCESS_THREADUNSAFE)"
proof -
  let ?a = "DEFINE_HANDLER 0x36 ''CMSG_CHAR_CREATE'' STATUS_AUTHED PROCESS_THREADUNSAFE
          ''HandleCharCreateOpcode''"
  let ?b = "DEFINE_SERVER_OPCODE_HANDLER 0x36 ''SMSG_CHAR_CREATE'' STATUS_NEVER"
  have h1: "\<not> rejected example_misc ?a OpcodeTable_new"
    by (simp add: rejected_iff example_misc_simps OpcodeTable_new_def)
  have h2: "entry_opcode ?b = entry_opcode ?a"
    by simp
  show ?thesis
    using h1 duplicate_registration_rejected [OF h1 h2,
        where ?es1.0 = "[DEFINE_SERVER_OPCODE_HANDLER 0x37 ''SMSG_X'' STATUS_NEVER]"
          and ?es2.0 = "[DEFINE_HANDLER 0x36 ''CMSG_OTHER'' STATUS_LOGGEDIN PROCESS_INPLACE ''Handle_NULL'']"]
    by (simp add: PacketHandler_def)
qed

text \<open>
  C5. A registration whose opcode is the sentinel \<open>NULL_OPCODE\<close> is rejected on the
  client path and on the server path alike, whatever the name, status, processing
  class and handler: the table is left exactly as it was, and the only effect is
  the error message "Opcode ... does not have a value".
\<close>

theorem null_opcode_rejected:
  assumes "unat opcode = NULL_OPCODE M"
  shows "internalTableClient
           (ValidateAndSetClientOpcode M opcode name status processing handler s)
         = internalTableClient s
       \<and> network_log (ValidateAndSetClientOpcode M opcode name status processing handler s)
         = network_log s @ [OpcodeWithoutValue name]
       \<and> internalTableClient (ValidateAndSetServerOpcode M opcode name status s)
         = internalTableClient s
       \<and> network_log (ValidateAndSetServerOpcode M opcode name status s)
         = network_log s @ [OpcodeWithoutValue name]"
  using assms
  by (simp add: ValidateAndSetClientOpcode_def ValidateAndSetServerOpcode_def
      unat_uint32_Opcodes LOG_ERROR_def)

theorem null_opcode_rejected_witness:
  "unat (0 :: Opcodes) = NULL_OPCODE example_misc
   \<and> internalTableClient
       (ValidateAndSetClientOpcode example_misc 0 ''MSG_NULL_ACTION'' STATUS_AUTHED
          PROCESS_INPLACE ''Handle_NULL'' OpcodeTable_new) = Map.empty
   \<and> internalTableClient
       (ValidateAndSetServerOpcode example_misc 0 ''MSG_NULL_ACTION'' STATUS_NEVER
          OpcodeTable_new) = Map.empty"
proof -
  have h: "unat (0 :: Opcodes) = NULL_OPCODE example_misc"
    by (simp add: example_misc_simps)
  show ?thesis
    using h null_opcode_rejected [OF h, where name = "''MSG_NULL_ACTION''"
        and status = STATUS_AUTHED and processing = PROCESS_INPLACE
        and handler = "''Handle_NULL''" and s = OpcodeTable_new]
      null_opcode_rejected [OF h, where name = "''MSG_NULL_ACTION''"
        and status = STATUS_NEVER and s = OpcodeTable_new]
    by (simp add: OpcodeTable_new_def)
qed

text \<open>
  C6. A failing registration (unset opcode, id out of range, or occupied slot) does not
  stop the construction of the table: the statement leaves the table as it was and logs
  one error, the statements after it have the effect on the table that they have
  without it, and \<open>Initialize\<close> still returns the table.
\<close>

theorem failing_registration_skipped:
  assumes "unat (entry_opcode e) = NULL_OPCODE M
           \<or> NUM_OPCODE_HANDLERS M \<le> unat (entry_opcode e)
           \<or> internalTableClient (run M xs s) (unat (entry_opcode e)) \<noteq> None"
  shows "internalTableClient (register M e (run M xs s)) = internalTableClient (run M xs s)
       \<and> (\<exists>ev. network_log (register M e (run M xs s)) = network_log (run M xs s) @ [ev])
       \<and> internalTableClient (run M (xs @ e # ys) s) = internalTableClient (run M (xs @ ys) s)
       \<and> (list_all static_assert_holds (xs @ e # ys) \<longrightarrow>
            Initialize M (xs @ e # ys) s = Inr (run M (xs @ e # ys) s))"
proof -
  have rej: "rejected M e (run M xs s)"
    using assms by (simp add: rejected_iff)
  then have skip: "internalTableClient (register M e (run M xs s)) = internalTableClient (run M xs s)"
    by (simp add: register_table)
  have logged: "\<exists>ev. network_log (register M e (run M xs s)) = network_log (run M xs s) @ [ev]"
    using rej by (rule register_log_rejected)
  have "internalTableClient (run M ys (register M e (run M xs s)))
      = internalTableClient (run M ys (run M xs s))"
    using skip by (rule run_table_cong)
  then have rest: "internalTableClient (run M (xs @ e # ys) s) = internalTableClient (run M (xs @ ys) s)"
    by (simp add: run_append)
  show ?thesis
    using skip logged rest by (simp add: Initialize_def)
qed

theorem failing_registration_skipped_witness:
  "internalTableClient
     (run example_misc [DEFINE_HANDLER 0x36 ''CMSG_CHAR_CREATE'' STATUS_AUTHED
        PROCESS_THREADUNSAFE ''HandleCharCreateOpcode''] OpcodeTable_new) (unat (0x36 :: Opcodes))
     \<noteq> None
   \<and> internalTableClient
       (run example_misc
          ([DEFINE_HANDLER 0x36 ''CMSG_CHAR_CREATE'' STATUS_AUTHED PROCESS_THREADUNSAFE
              ''HandleCharCreateOpcode'']
           @ DEFINE_SERVER_OPCODE_HANDLER 0x36 ''SMSG_CHAR_CREATE'' STATUS_NEVER
           # [DEFINE_HANDLER 0x37 ''CMSG_CHAR_ENUM'' STATUS_AUTHED PROCESS_THREADUNSAFE
                ''HandleCharEnumOpcode'']) OpcodeTable_new)
     = internalTableClient
       (run example_misc
          ([DEFINE_HANDLER 0x36 ''CMSG_CHAR_CREATE'' STATUS_AUTHED PROCESS_THREADUNSAFE
              ''HandleCharCreateOpcode'']
           @ [DEFINE_HANDLER 0x37 ''CMSG_CHAR_ENUM'' STATUS_AUTHED PROCESS_THREADUNSAFE
                ''HandleCharEnumOpcode'']) OpcodeTable_new)"
proof -
  let ?xs = "[DEFINE_HANDLER 0x36 ''CMSG_CHAR_CREATE'' STATUS_AUTHED PROCESS_THREADUNSAFE
              ''HandleCharCreateOpcode'']"
  let ?e = "DEFINE_SERVER_OPCODE_HANDLER 0x36 ''SMSG_CHAR_CREATE'' STATUS_NEVER"
  have h: "internalTableClient (run example_misc ?xs OpcodeTable_new) (unat (0x36 :: Opcodes)) \<noteq> None"
    by (simp add: register_table rejected_iff example_misc_simps OpcodeTable_new_def)
  then have h': "unat (entry_opcode ?e) = NULL_OPCODE example_misc
           \<or> NUM_OPCODE_HANDLERS example_misc \<le> unat (entry_opcode ?e)
           \<or> internalTableClient (run example_misc ?xs OpcodeTable_new) (unat (entry_opcode ?e)) \<noteq> None"
    by simp
  show ?thesis
    using h failing_registration_skipped [OF h',
        where ys = "[DEFINE_HANDLER 0x37 ''CMSG_CHAR_ENUM'' STATUS_AUTHED PROCESS_THREADUNSAFE
                ''HandleCharEnumOpcode'']"]
    by blast
qed

text \<open>
  C7. \<open>lookup\<close> returns none for every id outside \<open>[0, NUM_OPCODE_HANDLERS)\<close> and for
  every id at which no registration of the body went through; on the fresh table it
  returns none for every id. Nothing is ever stored in a slot past the end of the array.
\<close>

theorem lookup_none_unless_registered:
  assumes "i < 0 \<or> int (NUM_OPCODE_HANDLERS M) \<le> i
           \<or> nat i \<notin> set (registered_ids M es OpcodeTable_new)"
  shows "lookup M (run M es OpcodeTable_new) i = None
       \<and> lookup M OpcodeTable_new j = None
       \<and> (NUM_OPCODE_HANDLERS M \<le> k \<longrightarrow>
            internalTableClient (run M es OpcodeTable_new) k = None)"
proof -
  have m: "dom (internalTableClient (run M es OpcodeTable_new))
       = set (registered_ids M es OpcodeTable_new)"
    by (simp add: run_dom OpcodeTable_new_def)
  have a: "lookup M (run M es OpcodeTable_new) i = None"
  proof (cases "0 \<le> i \<and> i < int (NUM_OPCODE_HANDLERS M)")
    case True
    with assms have "nat i \<notin> dom (internalTableClient (run M es OpcodeTable_new))"
      by (simp add: m)
    then show ?thesis by (auto simp: lookup_def)
  next
    case False
    then show ?thesis by (auto simp: lookup_def)
  qed
  have b: "lookup M OpcodeTable_new j = None"
    by (simp add: lookup_def OpcodeTable_new_def)
  have c: "internalTableClient (run M es OpcodeTable_new) k = None"
    if "NUM_OPCODE_HANDLERS M \<le> k"
  proof -
    have "k \<notin> set (registered_ids M es OpcodeTable_new)"
      using that registered_ids_in_range [of k M es OpcodeTable_new] by auto
    then have "k \<notin> dom (internalTableClient (run M es OpcodeTable_new))"
      by (simp add: m)
    then show ?thesis by auto
  qed
  show ?thesis using a b c by simp
qed

theorem lookup_none_unless_registered_witness:
  "nat 0x37 \<notin> set (registered_ids example_misc
       [DEFINE_HANDLER 0x36 ''CMSG_CHAR_CREATE'' STATUS_AUTHED PROCESS_THREADUNSAFE
          ''HandleCharCreateOpcode''] OpcodeTable_new)
   \<and> lookup example_misc
       (run example_misc
         [DEFINE_HANDLER 0x36 ''CMSG_CHAR_CREATE'' STATUS_AUTHED PROCESS_THREADUNSAFE
            ''HandleCharCreateOpcode''] OpcodeTable_new) 0x37 = None
   \<and> int (NUM_OPCODE_HANDLERS example_misc) \<le> 0x9999
   \<and> lookup example_misc
       (run example_misc
         [DEFINE_HANDLER 0x36 ''CMSG_CHAR_CREATE'' STATUS_AUTHED PROCESS_THREADUNSAFE
            ''HandleCharCreateOpcode''] OpcodeTable_new) 0x9999 = None"
proof -
  let ?es = "[DEFINE_HANDLER 0x36 ''CMSG_CHAR_CREATE'' STATUS_AUTHED PROCESS_THREADUNSAFE
            ''HandleCharCreateOpcode'']"
  have h1: "nat 0x37 \<notin> set (registered_ids example_misc ?es OpcodeTable_new)"
    by (simp add: rejected_iff example_misc_simps OpcodeTable_new_def)
  have h2: "int (NUM_OPCODE_HANDLERS example_misc) \<le> 0x9999"
    by (simp add: example_misc_simps)
  show ?thesis
    using h1 h2
      lookup_none_unless_registered [where i = "0x37" and M = example_misc and es = ?es]
      lookup_none_unless_registered [where i = "0x9999" and M = example_misc and es = ?es]
    by simp
qed

text \<open>
  C9. The client and the server registration paths write the same table. Whatever the
  interleaving \<open>es\<close> of client and server registrations run on a fresh table, no id has
  more than one registration that went through, and the occupied slots are exactly the
  ids of those; a server registration at an id a client registration holds is rejected
  and the slot keeps the client's descriptor, and the other way round.
\<close>

theorem client_and_server_share_table:
  "distinct (registered_ids M es OpcodeTable_new)
   \<and> dom (internalTableClient (run M es OpcodeTable_new))
       = set (registered_ids M es OpcodeTable_new)
   \<and> (\<not> rejected M (DEFINE_HANDLER opcode nameC statusC processing handler) s \<longrightarrow>
        rejected M (DEFINE_SERVER_OPCODE_HANDLER opcode nameS statusS)
          (run M es' (register M (DEFINE_HANDLER opcode nameC statusC processing handler) s))
      \<and> internalTableClient
          (ValidateAndSetServerOpcode M opcode nameS statusS
            (run M es' (ValidateAndSetClientOpcode M opcode nameC statusC processing handler s)))
          (unat opcode)
        = Some (PacketHandler handler nameC statusC processing))
   \<and> (\<not> rejected M (DEFINE_SERVER_OPCODE_HANDLER opcode nameS statusS) s \<longrightarrow>
        rejected M (DEFINE_HANDLER opcode nameC statusC processing handler)
          (run M es' (register M (DEFINE_SERVER_OPCODE_HANDLER opcode nameS statusS) s))
      \<and> internalTableClient
          (ValidateAndSetClientOpcode M opcode nameC statusC processing handler
            (run M es' (ValidateAndSetServerOpcode M opcode nameS statusS s)))
          (unat opcode)
        = Some (PacketHandler ''Handle_ServerSide'' nameS statusS PROCESS_INPLACE))"
proof -
  let ?c = "DEFINE_HANDLER opcode nameC statusC processing handler"
  let ?v = "DEFINE_SERVER_OPCODE_HANDLER opcode nameS statusS"
  have d: "distinct (registered_ids M es OpcodeTable_new)"
    using registered_ids_distinct [of M es OpcodeTable_new] by simp
  have m: "dom (internalTableClient (run M es OpcodeTable_new))
       = set (registered_ids M es OpcodeTable_new)"
    by (simp add: run_dom OpcodeTable_new_def)
  have cross: "rejected M y (run M es' (register M x s))
      \<and> internalTableClient (register M y (run M es' (register M x s))) (unat (entry_opcode x))
          = Some (entry_handler x)"
    if "\<not> rejected M x s" and "entry_opcode y = entry_opcode x" for x y
  proof -
    have "internalTableClient (register M x s) (unat (entry_opcode x)) = Some (entry_handler x)"
      using that(1) by (rule registered_slot)
    then have k: "internalTableClient (run M es' (register M x s)) (unat (entry_opcode x))
        = Some (entry_handler x)"
      by (rule run_keeps)
    then have "rejected M y (run M es' (register M x s))"
      using that(2) by (simp add: rejected_iff)
    moreover have "internalTableClient (register M y (run M es' (register M x s)))
        (unat (entry_opcode x)) = Some (entry_handler x)"
      using k by (rule register_keeps)
    ultimately show ?thesis by simp
  qed
  have c1: "\<not> rejected M ?c s \<longrightarrow>
      rejected M ?v (run M es' (register M ?c s))
      \<and> internalTableClient (register M ?v (run M es' (register M ?c s))) (unat opcode)
          = Some (entry_handler ?c)"
    using cross [of ?c ?v] by simp
  have c2: "\<not> rejected M ?v s \<longrightarrow>
      rejected M ?c (run M es' (register M ?v s))
      \<and> internalTableClient (register M ?c (run M es' (register M ?v s))) (unat opcode)
          = Some (entry_handler ?v)"
    using cross [of ?v ?c] by simp
  show ?thesis
    using d m c1 c2 by (simp add: register.simps)
qed

theorem client_and_server_share_table_witness:
  "\<not> rejected example_misc
       (DEFINE_HANDLER 0x36 ''CMSG_CHAR_CREATE'' STATUS_AUTHED PROCESS_THREADUNSAFE
          ''HandleCharCreateOpcode'') OpcodeTable_new
   \<and> \<not> rejected example_misc
       (DEFINE_SERVER_OPCODE_HANDLER 0x36 ''SMSG_CHAR_CREATE'' STATUS_NEVER) OpcodeTable_new
   \<and> rejected example_misc (DEFINE_SERVER_OPCODE_HANDLER 0x36 ''SMSG_CHAR_CREATE'' STATUS_NEVER)
       (run example_misc []
         (register example_misc
           (DEFINE_HANDLER 0x36 ''CMSG_CHAR_CREATE'' STATUS_AUTHED PROCESS_THREADUNSAFE
              ''HandleCharCreateOpcode'') OpcodeTable_new))
   \<and> rejected example_misc
       (DEFINE_HANDLER 0x36 ''CMSG_CHAR_CREATE'' STATUS_AUTHED PROCESS_THREADUNSAFE
          ''HandleCharCreateOpcode'')
       (run example_misc []
         (register example_misc
           (DEFINE_SERVER_OPCODE_HANDLER 0x36 ''SMSG_CHAR_CREATE'' STATUS_NEVER) OpcodeTable_new))"
proof -
  let ?c = "DEFINE_HANDLER 0x36 ''CMSG_CHAR_CREATE'' STATUS_AUTHED PROCESS_THREADUNSAFE
          ''HandleCharCreateOpcode''"
  let ?v = "DEFINE_SERVER_OPCODE_HANDLER 0x36 ''SMSG_CHAR_CREATE'' STATUS_NEVER"
  have h1: "\<not> rejected example_misc ?c OpcodeTable_new"
    by (simp add: rejected_iff example_misc_simps OpcodeTable_new_def)
  have h2: "\<not> rejected example_misc ?v OpcodeTable_new"
    by (simp add: rejected_iff example_misc_simps OpcodeTable_new_def)
  show ?thesis
    using h1 h2 client_and_server_share_table [where M = example_misc and es = "[]" and opcode = "0x36"
        and nameC = "''CMSG_CHAR_CREATE''" and statusC = STATUS_AUTHED
        and processing = PROCESS_THREADUNSAFE and handler = "''HandleCharCreateOpcode''"
        and s = OpcodeTable_new and nameS = "''SMSG_CHAR_CREATE''" and statusS = STATUS_NEVER
        and es' = "[]"]
    by blast
qed

text \<open>
  C3. A server registration whose status is neither \<open>STATUS_NEVER\<close> nor
  \<open>STATUS_UNHANDLED\<close> fails the \<open>static_assert\<close>: the build yields no table at all,
  rather than a table and a log entry. Whenever \<open>Initialize\<close> does yield a table,
  the status of each of its server registrations is one of the two, and the descriptor
  a server registration installed still carries that status at the end.
\<close>

theorem server_registration_status:
  assumes "is_server_path e"
  shows "(entry_status e \<noteq> STATUS_NEVER \<and> entry_status e \<noteq> STATUS_UNHANDLED \<longrightarrow>
            Initialize M (xs @ e # ys) s
              = Inl (StaticAssertFailed ''Invalid status for server opcode''))
       \<and> (\<forall>t. Initialize M (xs @ e # ys) s = Inr t \<longrightarrow>
            (entry_status e = STATUS_NEVER \<or> entry_status e = STATUS_UNHANDLED)
            \<and> (\<not> rejected M e (run M xs s) \<longrightarrow>
                 map_option Status (internalTableClient t (unat (entry_opcode e)))
                   = Some (entry_status e)))"
proof -
  obtain opcode name status where e: "e = DEFINE_SERVER_OPCODE_HANDLER opcode name status"
    using assms by (cases e) simp_all
  have kept: "internalTableClient (run M (xs @ e # ys) s) (unat (entry_opcode e))
      = Some (entry_handler e)" if "\<not> rejected M e (run M xs s)"
  proof -
    have "internalTableClient (register M e (run M xs s)) (unat (entry_opcode e))
        = Some (entry_handler e)"
      using that by (rule registered_slot)
    then have "internalTableClient (run M ys (register M e (run M xs s))) (unat (entry_opcode e))
        = Some (entry_handler e)"
      by (rule run_keeps)
    then show ?thesis by (simp add: run_append)
  qed
  have st: "Status (entry_handler e) = entry_status e"
    by (simp add: e PacketHandler_def)
  show ?thesis
    using kept st by (auto simp: Initialize_def e split: if_splits)
qed

theorem server_registration_status_witness:
  "is_server_path (DEFINE_SERVER_OPCODE_HANDLER 0x03 ''SMSG_DBLOOKUP'' STATUS_NEVER)
   \<and> (\<exists>t. Initialize example_misc
         ([DEFINE_HANDLER 0x02 ''CMSG_DBLOOKUP'' STATUS_NEVER PROCESS_INPLACE ''Handle_NULL'']
          @ DEFINE_SERVER_OPCODE_HANDLER 0x03 ''SMSG_DBLOOKUP'' STATUS_NEVER # [])
         OpcodeTable_new = Inr t
       \<and> map_option Status (internalTableClient t 3) = Some STATUS_NEVER)
   \<and> Initialize example_misc
         ([] @ DEFINE_SERVER_OPCODE_HANDLER 0x03 ''SMSG_DBLOOKUP'' STATUS_AUTHED # [])
         OpcodeTable_new
       = Inl (StaticAssertFailed ''Invalid status for server opcode'')"
proof -
  let ?e = "DEFINE_SERVER_OPCODE_HANDLER 0x03 ''SMSG_DBLOOKUP'' STATUS_NEVER"
  let ?xs = "[DEFINE_HANDLER 0x02 ''CMSG_DBLOOKUP'' STATUS_NEVER PROCESS_INPLACE ''Handle_NULL'']"
  let ?f = "DEFINE_SERVER_OPCODE_HANDLER 0x03 ''SMSG_DBLOOKUP'' STATUS_AUTHED"
  have h1: "is_server_path ?e" by simp
  have h2: "is_server_path ?f" by simp
  have ok: "Initialize example_misc (?xs @ ?e # []) OpcodeTable_new
      = Inr (run example_misc (?xs @ ?e # []) OpcodeTable_new)"
    by (simp add: Initialize_def)
  have free: "\<not> rejected example_misc ?e (run example_misc ?xs OpcodeTable_new)"
    by (simp add: register_table rejected_iff example_misc_simps OpcodeTable_new_def)
  from server_registration_status [OF h1, where M = example_misc and xs = ?xs
      and ys = "[]" and s = OpcodeTable_new] ok free
  have a: "map_option Status
      (internalTableClient (run example_misc (?xs @ ?e # []) OpcodeTable_new) 3)
        = Some STATUS_NEVER"
    by simp
  from server_registration_status [OF h2, where M = example_misc and xs = "[]"
      and ys = "[]" and s = OpcodeTable_new]
  have b: "Initialize example_misc ([] @ ?f # []) OpcodeTable_new
       = Inl (StaticAssertFailed ''Invalid status for server opcode'')"
    by simp
  show ?thesis
    using h1 ok a b by blast
qed

subsection \<open>Names for logging\<close>

text \<open>
  C2. \<open>GetOpcodeNameForLogging\<close> returns a string for every opcode value and every
  table: an opening bracket; then the registered name if the id is below
  \<open>NUM_OPCODE_HANDLERS\<close> and its slot is set, \<open>UNKNOWN OPCODE\<close> if the id is below
  \<open>NUM_OPCODE_HANDLERS\<close> and its slot is empty, \<open>INVALID OPCODE\<close> otherwise; then
  \<open>0x\<close> and exactly four capital hexadecimal digits that read back as the id; then
  the decimal digits of the id in parentheses; then a closing bracket.
\<close>

theorem GetOpcodeNameForLogging_total:
  "GetOpcodeNameForLogging M s opcode =
     Inr (''[''
          @ (if unat opcode < NUM_OPCODE_HANDLERS M then
               (case internalTableClient s (unat opcode) of
                  Some handler \<Rightarrow> Name handler
                | None \<Rightarrow> ''UNKNOWN OPCODE'')
             else ''INVALID OPCODE'')
          @ '' 0x'' @ setw_setfill 4 CHR ''0'' (ostream_hex_upper (unat opcode))
          @ '' ('' @ ostream_dec (unat opcode) @ '')]'')
   \<and> length (setw_setfill 4 CHR ''0'' (ostream_hex_upper (unat opcode))) = 4
   \<and> set (setw_setfill 4 CHR ''0'' (ostream_hex_upper (unat opcode)))
       \<subseteq> set ''0123456789ABCDEF''
   \<and> read_number ''0123456789ABCDEF''
       (setw_setfill 4 CHR ''0'' (ostream_hex_upper (unat opcode))) = unat opcode
   \<and> ostream_dec (unat opcode) \<noteq> []
   \<and> set (ostream_dec (unat opcode)) \<subseteq> set ''0123456789''
   \<and> read_number ''0123456789'' (ostream_dec (unat opcode)) = unat opcode"
proof -
  have fmt: "GetOpcodeNameForLogging M s opcode =
     Inr (''[''
          @ (if unat opcode < NUM_OPCODE_HANDLERS M then
               (case internalTableClient s (unat opcode) of
                  Some handler \<Rightarrow> Name handler
                | None \<Rightarrow> ''UNKNOWN OPCODE'')
             else ''INVALID OPCODE'')
          @ '' 0x'' @ setw_setfill 4 CHR ''0'' (ostream_hex_upper (unat opcode))
          @ '' ('' @ ostream_dec (unat opcode) @ '')]'')"
    by (simp add: GetOpcodeNameForLogging_def GetOpcodeNameForLoggingImpl_def Let_def
        uint16_Opcodes OpcodeTable_at_def split: option.splits)
  show ?thesis
    using fmt hex4_length [OF unat_Opcodes_less, of opcode] hex4_set [of "unat opcode"]
      hex4_read [of "unat opcode"] ostream_dec_not_empty [of "unat opcode"]
      set_ostream_dec [of "unat opcode"] read_ostream_dec [of "unat opcode"]
    by (intro conjI)
qed

theorem GetOpcodeNameForLogging_total_witness:
  "GetOpcodeNameForLogging example_misc
     (run example_misc
        [DEFINE_HANDLER 0x36 ''CMSG_CHAR_CREATE'' STATUS_AUTHED PROCESS_THREADUNSAFE
           ''HandleCharCreateOpcode''] OpcodeTable_new) 0x36
     = Inr ''[CMSG_CHAR_CREATE 0x0036 (54)]''
   \<and> GetOpcodeNameForLogging example_misc OpcodeTable_new 0x36
     = Inr ''[UNKNOWN OPCODE 0x0036 (54)]''
   \<and> GetOpcodeNameForLogging example_misc OpcodeTable_new 0x9999
     = Inr ''[INVALID OPCODE 0x9999 (39321)]''"
proof -
  let ?t = "run example_misc
        [DEFINE_HANDLER 0x36 ''CMSG_CHAR_CREATE'' STATUS_AUTHED PROCESS_THREADUNSAFE
           ''HandleCharCreateOpcode''] OpcodeTable_new"
  have slot: "internalTableClient ?t 54
      = Some (PacketHandler ''HandleCharCreateOpcode'' ''CMSG_CHAR_CREATE''
                STATUS_AUTHED PROCESS_THREADUNSAFE)"
    by (simp add: register_table rejected_iff example_misc_simps OpcodeTable_new_def)
  show ?thesis
    using slot
      GetOpcodeNameForLogging_total [where M = example_misc and s = ?t and opcode = "0x36"]
      GetOpcodeNameForLogging_total [where M = example_misc and s = OpcodeTable_new
        and opcode = "0x36"]
      GetOpcodeNameForLogging_total [where M = example_misc and s = OpcodeTable_new
        and opcode = "0x9999"]
    by (simp add: example_misc_simps PacketHandler_def OpcodeTable_new_def
        eval_hex_36 eval_dec_36 eval_hex_9999 eval_dec_9999 del: run.simps)
qed




subsection \<open>The registered opcodes\<close>

text \<open>
  C4 (as amended). No server-originated (\<open>SMSG_\<close>) statement of \<open>Initialize\<close> goes
  through the client macro. The one statement whose macro is that of the other direction
  is the client-originated \<open>CMSG_GMTICKETSYSTEM_TOGGLE\<close> (\<open>0x29A\<close>), which goes through
  the server macro with status \<open>STATUS_NEVER\<close>: it is under the status restriction of
  the server macro and meets it.
\<close>

theorem misrouted_statement_of_Initialize:
  "filter server_originated_on_client_path Initialize_body = []
   \<and> filter client_originated_on_server_path Initialize_body
       = [DEFINE_SERVER_OPCODE_HANDLER 0x29A ''CMSG_GMTICKETSYSTEM_TOGGLE'' STATUS_NEVER]
   \<and> static_assert_holds
       (DEFINE_SERVER_OPCODE_HANDLER 0x29A ''CMSG_GMTICKETSYSTEM_TOGGLE'' STATUS_NEVER)"
  using on_client_path_Initialize_body on_server_path_Initialize_body by simp

text \<open>
  C4 as stated fails: the number of server-originated statements that go through the
  client macro is not one.
\<close>

theorem server_originated_on_client_path_counterexample:
  "length (filter server_originated_on_client_path Initialize_body) \<noteq> 1"
  by (simp add: on_client_path_Initialize_body)

text \<open>
  C8 (as amended). \<open>Initialize\<close> registers opcode \<open>0x036\<close> with the name
  \<open>CMSG_CHAR_CREATE\<close>, status \<open>STATUS_AUTHED\<close>, class \<open>PROCESS_THREADUNSAFE\<close> and
  handler \<open>HandleCharCreateOpcode\<close>, provided \<open>0x036\<close> is a slot of the table and not the
  unset value. Two dispatches of this opcode from a session in the authenticated state
  are then both admitted and both appended to the serialized queue, and the world tick
  runs them in the order in which they were dispatched.
\<close>

theorem CMSG_CHAR_CREATE_dispatch:
  assumes "0x36 < NUM_OPCODE_HANDLERS M" and "NULL_OPCODE M \<noteq> 0x36"
    and "envelope_opcode env1 = 0x36" and "envelope_opcode env2 = 0x36"
  shows "\<exists>t. OpcodeTable_Initialize M = Inr t
       \<and> lookup M t 0x36
           = Some \<lparr>Name = ''CMSG_CHAR_CREATE'', Status = STATUS_AUTHED,
                   ProcessingPlace = PROCESS_THREADUNSAFE,
                   HandlerFunction = ''HandleCharCreateOpcode''\<rparr>
       \<and> dispatch M t SessionAuthed env1 sch
           = (EnqueuedSerialized, sch\<lparr>serialized_queue := serialized_queue sch @ [env1]\<rparr>)
       \<and> dispatch M t SessionAuthed env2
             (sch\<lparr>serialized_queue := serialized_queue sch @ [env1]\<rparr>)
           = (EnqueuedSerialized,
              sch\<lparr>serialized_queue := serialized_queue sch @ [env1, env2]\<rparr>)
       \<and> fst (world_tick (sch\<lparr>serialized_queue := serialized_queue sch @ [env1, env2]\<rparr>))
           = serialized_queue sch @ [env1, env2]"
proof -
  let ?t = "run M Initialize_body OpcodeTable_new"
  have slot: "internalTableClient ?t 54
      = Some (PacketHandler ''HandleCharCreateOpcode'' ''CMSG_CHAR_CREATE'' STATUS_AUTHED
                PROCESS_THREADUNSAFE)"
    using assms(1,2) by (simp add: Initialize_slot_CMSG_CHAR_CREATE)
  have look: "lookup M ?t 0x36
      = Some \<lparr>Name = ''CMSG_CHAR_CREATE'', Status = STATUS_AUTHED,
              ProcessingPlace = PROCESS_THREADUNSAFE,
              HandlerFunction = ''HandleCharCreateOpcode''\<rparr>"
    using assms(1) slot by (simp add: lookup_def PacketHandler_def)
  have d: "dispatch M ?t SessionAuthed env q
      = (EnqueuedSerialized, q\<lparr>serialized_queue := serialized_queue q @ [env]\<rparr>)"
    if "envelope_opcode env = 0x36" for env q
    using that look by (simp add: dispatch_def)
  have d1: "dispatch M ?t SessionAuthed env1 sch
      = (EnqueuedSerialized, sch\<lparr>serialized_queue := serialized_queue sch @ [env1]\<rparr>)"
    using assms(3) by (rule d)
  have d2: "dispatch M ?t SessionAuthed env2
        (sch\<lparr>serialized_queue := serialized_queue sch @ [env1]\<rparr>)
      = (EnqueuedSerialized, sch\<lparr>serialized_queue := serialized_queue sch @ [env1, env2]\<rparr>)"
    using d [OF assms(4), of "sch\<lparr>serialized_queue := serialized_queue sch @ [env1]\<rparr>"]
    by simp
  have w: "fst (world_tick (sch\<lparr>serialized_queue := serialized_queue sch @ [env1, env2]\<rparr>))
      = serialized_queue sch @ [env1, env2]"
    by (simp add: world_tick_def)
  show ?thesis
    using OpcodeTable_Initialize_builds [of M] look d1 d2 w by blast
qed

theorem CMSG_CHAR_CREATE_dispatch_witness:
  "0x36 < NUM_OPCODE_HANDLERS example_misc \<and> NULL_OPCODE example_misc \<noteq> 0x36
   \<and> (\<exists>t. OpcodeTable_Initialize example_misc = Inr t
        \<and> map_option ProcessingPlace (lookup example_misc t 0x36) = Some PROCESS_THREADUNSAFE
        \<and> fst (dispatch example_misc t SessionAuthed
                 \<lparr>envelope_opcode = 0x36, envelope_payload = [], envelope_session = 7,
                  envelope_arrival = 1\<rparr>
                 \<lparr>executed_in_place = [], worker_pool = [], serialized_queue = []\<rparr>)
            = EnqueuedSerialized
        \<and> dispatch example_misc t SessionAuthed
              \<lparr>envelope_opcode = 0x36, envelope_payload = [], envelope_session = 7,
               envelope_arrival = 2\<rparr>
              (snd (dispatch example_misc t SessionAuthed
                 \<lparr>envelope_opcode = 0x36, envelope_payload = [], envelope_session = 7,
                  envelope_arrival = 1\<rparr>
                 \<lparr>executed_in_place = [], worker_pool = [], serialized_queue = []\<rparr>))
            = (EnqueuedSerialized,
               \<lparr>executed_in_place = [], worker_pool = [],
                serialized_queue =
                  [\<lparr>envelope_opcode = 0x36, envelope_payload = [], envelope_session = 7,
                    envelope_arrival = 1\<rparr>,
                   \<lparr>envelope_opcode = 0x36, envelope_payload = [], envelope_session = 7,
                    envelope_arrival = 2\<rparr>]\<rparr>))"
proof -
  let ?e1 = "\<lparr>envelope_opcode = 0x36, envelope_payload = [], envelope_session = 7,
                  envelope_arrival = 1\<rparr>"
  let ?e2 = "\<lparr>envelope_opcode = 0x36, envelope_payload = [], envelope_session = 7,
                  envelope_arrival = 2\<rparr>"
  let ?q = "\<lparr>executed_in_place = [], worker_pool = [], serialized_queue = []\<rparr>"
  have h1: "0x36 < NUM_OPCODE_HANDLERS example_misc" and h2: "NULL_OPCODE example_misc \<noteq> 0x36"
    by (simp_all add: example_misc_simps)
  have h3: "envelope_opcode ?e1 = 0x36" and h4: "envelope_opcode ?e2 = 0x36"
    by simp_all
  from CMSG_CHAR_CREATE_dispatch [OF h1 h2 h3 h4, of ?q]
  obtain t where t: "OpcodeTable_Initialize example_misc = Inr t"
    and l: "lookup example_misc t 0x36
           = Some \<lparr>Name = ''CMSG_CHAR_CREATE'', Status = STATUS_AUTHED,
                   ProcessingPlace = PROCESS_THREADUNSAFE,
                   HandlerFunction = ''HandleCharCreateOpcode''\<rparr>"
    and d1: "dispatch example_misc t SessionAuthed ?e1 ?q
           = (EnqueuedSerialized, ?q\<lparr>serialized_queue := serialized_queue ?q @ [?e1]\<rparr>)"
    and d2: "dispatch example_misc t SessionAuthed ?e2
             (?q\<lparr>serialized_queue := serialized_queue ?q @ [?e1]\<rparr>)
           = (EnqueuedSerialized,
              ?q\<lparr>serialized_queue := serialized_queue ?q @ [?e1, ?e2]\<rparr>)"
    by blast
  show ?thesis
    using h1 h2 t l d1 d2 by simp
qed

text \<open>
  C8 as stated fails: the name registered at \<open>0x036\<close> is \<open>CMSG_CHAR_CREATE\<close>, the
  stringified enumerator, and not \<open>CharCreate\<close>.
\<close>

theorem CharCreate_name_counterexample:
  "map_option Name
     (lookup example_misc (run example_misc Initialize_body OpcodeTable_new) 0x36)
     = Some ''CMSG_CHAR_CREATE''
   \<and> map_option Name
     (lookup example_misc (run example_misc Initialize_body OpcodeTable_new) 0x36)
     \<noteq> Some ''CharCreate''"
proof -
  have "internalTableClient (run example_misc Initialize_body OpcodeTable_new) 54
      = Some (PacketHandler ''HandleCharCreateOpcode'' ''CMSG_CHAR_CREATE'' STATUS_AUTHED
                PROCESS_THREADUNSAFE)"
    by (rule Initialize_slot_CMSG_CHAR_CREATE) (simp_all add: example_misc_simps)
  then show ?thesis
    by (simp add: lookup_def example_misc_simps PacketHandler_def)
qed

end
